theory Spec2Isabelle
  imports Main
begin

section \<open>Version projection (utils.js, intFromVersion)\<close>

text \<open>
  \<^verbatim>\<open>
  export function intFromVersion(version) {
      const matches = [ ...version.matchAll(/\d+/g) ];
      let versionInt = 0;
      for ( let i = 0; i < 4; i++ ) {
          const n = i < matches.length
              ? (parseInt(matches[i][0]) || 0)
              : 0;
          versionInt = versionInt * 1000 + n;
      }
      return versionInt;
  }
  \<close>
  JavaScript numbers are doubles; they are exact on integers below \<open>2 ^ 53\<close>. The model
  computes in \<open>int\<close>, so it agrees with the source as long as every intermediate value
  stays below that bound (in particular whenever at most four components, each below
  1000, are present).
\<close>

definition is_digit :: "char \<Rightarrow> bool" where
  "is_digit c = (c \<in> set ''0123456789'')"

definition digit_val :: "char \<Rightarrow> int" where
  "digit_val c = int (of_char c) - 48"

text \<open>\<open>version.matchAll(/\d+/g)\<close>: the maximal runs of decimal digits, left to right.
  The first argument is the run being read.\<close>

fun matchAll_digits :: "string \<Rightarrow> string \<Rightarrow> string list" where
  "matchAll_digits cur [] = (if cur = [] then [] else [cur])"
| "matchAll_digits cur (c # cs) =
     (if is_digit c then matchAll_digits (cur @ [c]) cs
      else if cur = [] then matchAll_digits [] cs
      else cur # matchAll_digits [] cs)"

text \<open>\<open>parseInt\<close> on a non-empty run of decimal digits.\<close>

definition parseInt :: "string \<Rightarrow> int" where
  "parseInt ds = foldl (\<lambda>a c. a * 10 + digit_val c) 0 ds"

definition intFromVersion :: "string \<Rightarrow> int" where
  "intFromVersion version =
     (let matches = matchAll_digits [] version in
      foldl (\<lambda>versionInt i.
               versionInt * 1000 +
               (if i < length matches
                then (let p = parseInt (matches ! i) in if p = 0 then 0 else p)
                else 0))
            0 [0, 1, 2, 3])"

subsection \<open>Dotted-numeric version ordering, as the specification words it\<close>

text \<open>A dotted-numeric version string is a non-empty sequence of non-empty decimal
  numbers separated by dots. Its components are compared left to right as numbers, a
  missing component counting as zero.\<close>

fun split_dots :: "string \<Rightarrow> string \<Rightarrow> string list" where
  "split_dots cur [] = [cur]"
| "split_dots cur (c # cs) =
     (if c = CHR ''.'' then cur # split_dots [] cs else split_dots (cur @ [c]) cs)"

definition dotted_numeric :: "string \<Rightarrow> bool" where
  "dotted_numeric v = list_all (\<lambda>p. p \<noteq> [] \<and> list_all is_digit p) (split_dots [] v)"

definition version_components :: "string \<Rightarrow> int list" where
  "version_components v = map parseInt (split_dots [] v)"

fun version_less :: "int list \<Rightarrow> int list \<Rightarrow> bool" where
  "version_less [] [] = False"
| "version_less [] (y # ys) = (0 < y \<or> (0 = y \<and> version_less [] ys))"
| "version_less (x # xs) [] = (x < 0 \<or> (x = 0 \<and> version_less xs []))"
| "version_less (x # xs) (y # ys) = (x < y \<or> (x = y \<and> version_less xs ys))"

definition version_lt :: "string \<Rightarrow> string \<Rightarrow> bool" where
  "version_lt v w = version_less (version_components v) (version_components w)"

text \<open>The loop of \<open>intFromVersion\<close> on the list of parsed components.\<close>

definition proj4 :: "int list \<Rightarrow> int" where
  "proj4 xs = foldl (\<lambda>versionInt i. versionInt * 1000 + (if i < length xs then xs ! i else 0)) 0 [0, 1, 2, 3]"


section \<open>The JavaScript runtime, as far as the scripts use it\<close>

subsection \<open>Values\<close>

text \<open>
  Values that reach the scripts from outside are parsed JSON or \<open>undefined\<close>. A value is
  a \<open>json option\<close>, \<open>None\<close> being \<open>undefined\<close>. Numbers are integers here: the scripts
  only test them for truthiness and print them. Byte arrays read from a response are
  carried as strings; they are only written to files.
\<close>

datatype json =
    JNull
  | JBool bool
  | JNum int
  | JStr string
  | JArr "json list"
  | JObj "(string \<times> json) list"

type_synonym jsval = "json option"

definition truthy :: "jsval \<Rightarrow> bool" where
  "truthy v =
     (case v of
        None \<Rightarrow> False
      | Some JNull \<Rightarrow> False
      | Some (JBool b) \<Rightarrow> b
      | Some (JNum n) \<Rightarrow> n \<noteq> 0
      | Some (JStr s) \<Rightarrow> s \<noteq> []
      | Some (JArr xs) \<Rightarrow> True
      | Some (JObj kvs) \<Rightarrow> True)"

fun show_nat :: "nat \<Rightarrow> string" where
  "show_nat n =
     (if n < 10 then [''0123456789'' ! n]
      else show_nat (n div 10) @ [''0123456789'' ! (n mod 10)])"

declare show_nat.simps [simp del]

definition show_int :: "int \<Rightarrow> string" where
  "show_int i = (if i < 0 then CHR ''-'' # show_nat (nat (- i)) else show_nat (nat i))"

fun join :: "string \<Rightarrow> string list \<Rightarrow> string" where
  "join sep [] = []"
| "join sep [x] = x"
| "join sep (x # y # ys) = x @ sep @ join sep (y # ys)"

text \<open>\<open>String(v)\<close>, which is also what a template literal does with \<open>${v}\<close>.\<close>

fun json_to_string :: "json \<Rightarrow> string" where
  "json_to_string JNull = ''null''"
| "json_to_string (JBool b) = (if b then ''true'' else ''false'')"
| "json_to_string (JNum n) = show_int n"
| "json_to_string (JStr s) = s"
| "json_to_string (JArr xs) =
     join '','' (map (\<lambda>x. if x = JNull then [] else json_to_string x) xs)"
| "json_to_string (JObj kvs) = ''[object Object]''"

definition to_string :: "jsval \<Rightarrow> string" where
  "to_string v = (case v of None \<Rightarrow> ''undefined'' | Some j \<Rightarrow> json_to_string j)"

text \<open>\<open>String.prototype.trim\<close>, on the ASCII white space.\<close>

definition is_space :: "char \<Rightarrow> bool" where
  "is_space c = (c \<in> set [CHR '' '', CHR 0x09, CHR 0x0A, CHR 0x0B, CHR 0x0C, CHR 0x0D])"

definition trim :: "string \<Rightarrow> string" where
  "trim s = rev (dropWhile is_space (rev (dropWhile is_space s)))"

text \<open>A command-line argument \<open>name=value\<close> gives a string, a bare \<open>name\<close> gives
  \<open>true\<close>, and an argument that is not given is \<open>undefined\<close> (\<open>commandLineArgs\<close> in
  utils.js).\<close>

datatype arg = Absent | Flag | Given string

definition show_arg :: "arg \<Rightarrow> string" where
  "show_arg a = (case a of Absent \<Rightarrow> ''undefined'' | Flag \<Rightarrow> ''true'' | Given s \<Rightarrow> s)"

text \<open>\<open>a || ''\<close>\<close>

definition or_empty :: "arg \<Rightarrow> arg" where
  "or_empty a = (case a of Absent \<Rightarrow> Given [] | Flag \<Rightarrow> Flag | Given s \<Rightarrow> Given s)"

definition arg_truthy :: "arg \<Rightarrow> bool" where
  "arg_truthy a = (case a of Absent \<Rightarrow> False | Flag \<Rightarrow> True | Given s \<Rightarrow> s \<noteq> [])"

record config =
  storeid :: arg
  productid :: arg
  channel :: arg
  updatepath :: arg
  ghowner :: arg
  ghrepo :: arg
  ghtag :: arg
  ghasset :: arg
  keep :: arg
  datebasedmajor :: arg
  verbose :: arg

subsection \<open>The outside world\<close>

text \<open>
  Every request, command, file access and prompt is recorded as an event, in the order
  in which the script issues it. What the outside world answers is given by an oracle:
  the answer to an event depends on the event and on how many times the same event was
  issued before. A run is determined by the configuration and the oracle, and every
  property below is proved for all oracles.
\<close>

datatype site =
    CwsListing | CwsAuth | CwsUpload | CwsPublish
  | EdgeListing | EdgeUpload | EdgeStatus | EdgePublish
  | AmoSubmit | AmoCheck | AmoDownload | AmoLookup | AmoFile
  | GhReleaseInfo | GhAsset | GhUpload | GhDelete

datatype event =
    Log string
  | LogError string
  | Sleep nat
  | Fetch site
  | Exec string
  | ReadFile string
  | WriteFile string string
  | Mkdtemp string
  | Question string

text \<open>A \<open>Response\<close>. Reading the body fails when the field of that decoding is \<open>None\<close>
  (\<open>response.json()\<close> rejects on a body that is not JSON). \<open>location\<close> is the
  \<open>Location\<close> header.\<close>

record http_response =
  status :: nat
  statusText :: string
  location :: "string option"
  json_body :: "json option"
  text_body :: "string option"
  bytes_body :: "string option"

definition ok :: "http_response \<Rightarrow> bool" where
  "ok r = (200 \<le> status r \<and> status r \<le> 299)"

datatype fetch_result = Rejected string | Responded http_response

record env =
  fetch_reply :: "site \<Rightarrow> nat \<Rightarrow> fetch_result"
  exec_reply :: "string \<Rightarrow> nat \<Rightarrow> string option"
  read_reply :: "string \<Rightarrow> nat \<Rightarrow> string option"
  mkdtemp_reply :: "nat \<Rightarrow> string"
  answer :: "string \<Rightarrow> nat \<Rightarrow> string"
  JSON_parse :: "string \<Rightarrow> json option"
  JSON_stringify :: "json \<Rightarrow> string"
  today :: "nat \<times> nat \<times> nat"
  valid_url :: "string \<Rightarrow> bool"
  dirname :: "string \<Rightarrow> string"
  basename :: "string \<Rightarrow> string"

text \<open>
  \<open>exec_reply\<close> is \<open>execSync\<close>: \<open>None\<close> when the command fails (\<open>execSync\<close> throws),
  else its output. \<open>read_reply\<close> is \<open>fs.readFile\<close>, \<open>None\<close> when it rejects.
  \<open>JSON_parse\<close>, \<open>JSON_stringify\<close>, \<open>path.dirname\<close>, \<open>path.basename\<close> and the validity
  of a URL given to \<open>new Request\<close> are the platform's and are taken as parameters;
  \<open>today\<close> is the UTC year, month and day. \<open>fs.writeFile\<close> and \<open>fs.mkdtemp\<close> are taken to
  succeed.
\<close>

subsection \<open>Effects\<close>

text \<open>The state of a run: the events so far, and the two module-level variables of
  utils.js, \<open>cleanupJobs\<close> (each job removes one directory and is kept as that
  directory's name) and \<open>secrets\<close>.\<close>

record state =
  trace :: "event list"
  cleanupJobs :: "string list"
  secrets :: "(string \<times> string) list"

definition init :: state where
  "init = \<lparr>trace = [], cleanupJobs = [], secrets = []\<rparr>"

text \<open>A computation returns a value, calls \<open>process.exit\<close>, or throws (for an
  \<open>async\<close> function: its promise rejects).\<close>

datatype 'a result = Val 'a | Exit nat | Throw string

type_synonym 'a io = "state \<Rightarrow> 'a result \<times> state"

definition ret :: "'a \<Rightarrow> 'a io" where
  "ret x s = (Val x, s)"

definition bnd :: "'a io \<Rightarrow> ('a \<Rightarrow> 'b io) \<Rightarrow> 'b io" where
  "bnd m f s =
     (case m s of
        (Val x, s') \<Rightarrow> f x s'
      | (Exit c, s') \<Rightarrow> (Exit c, s')
      | (Throw e, s') \<Rightarrow> (Throw e, s'))"

definition thn :: "'a io \<Rightarrow> 'b io \<Rightarrow> 'b io" where
  "thn m n = bnd m (\<lambda>_. n)"

definition process_exit :: "nat \<Rightarrow> 'a io" where
  "process_exit c s = (Exit c, s)"

definition throw :: "string \<Rightarrow> 'a io" where
  "throw e s = (Throw e, s)"

definition emit :: "event \<Rightarrow> unit io" where
  "emit e s = (Val (), s\<lparr>trace := trace s @ [e]\<rparr>)"

definition console_log :: "string \<Rightarrow> unit io" where
  "console_log msg = emit (Log msg)"

definition console_error :: "string \<Rightarrow> unit io" where
  "console_error msg = emit (LogError msg)"

text \<open>A call of an \<open>async\<close> function whose promise is neither awaited nor returned: it
  runs, and whether it fails is not looked at.\<close>

definition detached :: "'a io \<Rightarrow> unit io" where
  "detached m s = (Val (), snd (m s))"

text \<open>Property access \<open>v.name\<close>: a \<open>TypeError\<close> on \<open>undefined\<close> and \<open>null\<close>, the member
  of an object, and \<open>undefined\<close> on the other values (none of the names the scripts read
  is a property of a string, number, boolean or array; properties inherited from
  \<open>Object.prototype\<close> are not modelled).\<close>

definition member :: "jsval \<Rightarrow> string \<Rightarrow> jsval io" where
  "member v name =
     (case v of
        None \<Rightarrow> throw ''TypeError''
      | Some JNull \<Rightarrow> throw ''TypeError''
      | Some (JObj kvs) \<Rightarrow> ret (map_of kvs name)
      | Some _ \<Rightarrow> ret None)"

text \<open>\<open>new Request(url, ...)\<close> throws on a URL that does not parse.\<close>

definition new_Request :: "env \<Rightarrow> jsval \<Rightarrow> unit io" where
  "new_Request env url = (if valid_url env (to_string url) then ret () else throw ''TypeError'')"

subsection \<open>utils.js: sleep, prompt\<close>

definition sleep :: "nat \<Rightarrow> unit io" where
  "sleep seconds = emit (Sleep seconds)"

definition question :: "env \<Rightarrow> string \<Rightarrow> string io" where
  "question env message s =
     (Val (answer env message (count_list (trace s) (Question message))),
      s\<lparr>trace := trace s @ [Question message]\<rparr>)"

definition prompt :: "env \<Rightarrow> string \<Rightarrow> bool io" where
  "prompt env message =
     bnd (question env message) (\<lambda>answer.
     if answer \<noteq> ''yes'' then thn (console_log ''Aborted'') (process_exit 1)
     else ret True)"

subsection \<open>utils.js: fetchEx\<close>

text \<open>
  \<^verbatim>\<open>
  export async function fetchEx(...args) {
      const responseType = args.at(-1);
      let fetchArgs;
      switch ( responseType ) {
      case 'bytes': case 'json': case 'text':
          fetchArgs = args.slice(0, -1); break;
      default:
          fetchArgs = args.slice(); break;
      }
      const response = await fetch(...fetchArgs).catch(reason => {
          console.log(`${reason}`);
      });
      if ( response === undefined ) { return { }; }
      if ( response.ok !== true ) {
          console.log(response.statusText);
          return { response };
      }
      let data;
      switch ( responseType ) {
      case 'bytes': data = await response.bytes(); break;
      case 'json':  data = await response.json(); break;
      case 'text':  data = await response.text(); break;
      }
      return { response, data };
  }
  \<close>
  An argument is a request or URL for one of the sites, an options object, or another
  string. \<open>fetch\<close> rejects when its first argument is not a resource.
\<close>

datatype fetch_arg = Resource site | Init | Str string

record fetched =
  response :: "http_response option"
  data :: jsval

definition fetch :: "env \<Rightarrow> fetch_arg list \<Rightarrow> fetch_result io" where
  "fetch env fetchArgs s =
     (case fetchArgs of
        Resource x # rest \<Rightarrow>
          (Val (fetch_reply env x (count_list (trace s) (Fetch x))),
           s\<lparr>trace := trace s @ [Fetch x]\<rparr>)
      | _ \<Rightarrow> (Val (Rejected ''TypeError''), s))"

definition read_body :: "'a option \<Rightarrow> ('a \<Rightarrow> json) \<Rightarrow> jsval io" where
  "read_body body wrap =
     (case body of None \<Rightarrow> throw ''body cannot be read'' | Some b \<Rightarrow> ret (Some (wrap b)))"

definition fetchEx :: "env \<Rightarrow> fetch_arg list \<Rightarrow> fetched io" where
  "fetchEx env args =
     (let responseType = (if args = [] then None else Some (last args));
          fetchArgs =
            (if responseType = Some (Str ''bytes'') \<or> responseType = Some (Str ''json'')
                \<or> responseType = Some (Str ''text'')
             then butlast args else args)
      in bnd (fetch env fetchArgs) (\<lambda>reply.
         case reply of
           Rejected reason \<Rightarrow>
             thn (console_log reason) (ret \<lparr>response = None, data = None\<rparr>)
         | Responded r \<Rightarrow>
             if \<not> ok r then
               thn (console_log (statusText r)) (ret \<lparr>response = Some r, data = None\<rparr>)
             else
               bnd (if responseType = Some (Str ''bytes'') then read_body (bytes_body r) JStr
                    else if responseType = Some (Str ''json'') then read_body (json_body r) id
                    else if responseType = Some (Str ''text'') then read_body (text_body r) JStr
                    else ret None) (\<lambda>d.
               ret \<lparr>response = Some r, data = d\<rparr>)))"

text \<open>\<open>response.ok\<close>, \<open>response.status\<close>, ... on the \<open>response\<close> member of the result:
  a \<open>TypeError\<close> when \<open>fetch\<close> had rejected and the member is \<open>undefined\<close>.\<close>

definition the_response :: "fetched \<Rightarrow> http_response io" where
  "the_response f = (case response f of None \<Rightarrow> throw ''TypeError'' | Some r \<Rightarrow> ret r)"


subsection \<open>utils.js: shellExec\<close>

text \<open>
  \<^verbatim>\<open>
  export async function shellExec(text) {
      let command = '';
      let r;
      for ( const line of text.split(/[\n\r]+/) ) {
          command += line.trim();
          if ( command.endsWith(' \\') ) {
              command = command.slice(0, -1);
              continue;
          }
          command = command.trim();
          if ( command === '' ) { continue; }
          if ( commandLineArgs.verbose ) {
              console.log(`Executing: ${command}`);
          }
          r = execSync(command, { encoding: 'utf8' });
          command = '';
      }
      return r?.trim();
  }
  \<close>
\<close>

definition dq :: string where "dq = [CHR 0x22]"
definition sq :: string where "sq = [CHR 0x27]"
definition nl :: string where "nl = [CHR 0x0A]"

definition is_nl :: "char \<Rightarrow> bool" where
  "is_nl c = (c = CHR 0x0A \<or> c = CHR 0x0D)"

text \<open>\<open>text.split(/[\n\r]+/)\<close>; the first argument is the line being read.\<close>

function split_lines :: "string \<Rightarrow> string \<Rightarrow> string list" where
  "split_lines cur [] = [cur]"
| "split_lines cur (c # cs) =
     (if is_nl c then cur # split_lines [] (dropWhile is_nl cs)
      else split_lines (cur @ [c]) cs)"
  by pat_completeness auto
termination
  by (relation "measure (\<lambda>(cur, cs). length cs)")
     (auto simp: less_Suc_eq_le length_dropWhile_le)

definition execSync :: "env \<Rightarrow> string \<Rightarrow> string io" where
  "execSync env command s =
     (let s' = s\<lparr>trace := trace s @ [Exec command]\<rparr> in
      case exec_reply env command (count_list (trace s) (Exec command)) of
        None \<Rightarrow> (Throw ''Error'', s')
      | Some out \<Rightarrow> (Val out, s'))"

fun shellExec_loop :: "config \<Rightarrow> env \<Rightarrow> string list \<Rightarrow> string \<Rightarrow> string option \<Rightarrow> string option io" where
  "shellExec_loop cfg env [] command r = ret r"
| "shellExec_loop cfg env (line # lines) command r =
     (let command1 = command @ trim line in
      if 2 \<le> length command1 \<and> drop (length command1 - 2) command1 = [CHR '' '', CHR 0x5C]
      then shellExec_loop cfg env lines (butlast command1) r
      else
        let command2 = trim command1 in
        if command2 = [] then shellExec_loop cfg env lines [] r
        else
          thn (if arg_truthy (verbose cfg) then console_log (''Executing: '' @ command2)
               else ret ())
          (bnd (execSync env command2) (\<lambda>out.
           shellExec_loop cfg env lines [] (Some out))))"

definition shellExec :: "config \<Rightarrow> env \<Rightarrow> string \<Rightarrow> string option io" where
  "shellExec cfg env text =
     bnd (shellExec_loop cfg env (split_lines [] text) [] None) (\<lambda>r.
     ret (map_option trim r))"

subsection \<open>utils.js: cleanup jobs and scratch directories\<close>

text \<open>
  \<^verbatim>\<open>
  const cleanupJobs = [];
  export function cleanupAdd(fn) { cleanupJobs.push(fn); }
  export async function cleanDo() {
      const promises = [];
      while ( cleanupJobs.length !== 0 ) {
          const fn = cleanupJobs.shift();
          try { promises.push(fn()); } catch { }
      }
      await Promise.all(promises);
  }
  export async function getTempDir() {
      const tempDir = await fs.mkdtemp('/tmp/github-asset-');
      cleanupAdd(( ) => {
          console.log(`Removing ${tempDir}`);
          shellExec(`rm -rf "${tempDir}"`);
      });
      return tempDir;
  }
  \<close>
  The only jobs ever registered are the ones of \<open>getTempDir\<close>. A job does not touch
  \<open>cleanupJobs\<close>, so the loop of \<open>cleanDo\<close> is a recursion over the queue as it stands
  when \<open>cleanDo\<close> is called. The job does not wait for \<open>shellExec\<close>.
\<close>

definition mkdtemp :: "env \<Rightarrow> string \<Rightarrow> string io" where
  "mkdtemp env prefix s =
     (Val (mkdtemp_reply env (count_list (trace s) (Mkdtemp prefix))),
      s\<lparr>trace := trace s @ [Mkdtemp prefix]\<rparr>)"

definition cleanupAdd :: "string \<Rightarrow> unit io" where
  "cleanupAdd fn s = (Val (), s\<lparr>cleanupJobs := cleanupJobs s @ [fn]\<rparr>)"

definition cleanup_job :: "config \<Rightarrow> env \<Rightarrow> string \<Rightarrow> unit io" where
  "cleanup_job cfg env tempDir =
     thn (console_log (''Removing '' @ tempDir))
         (detached (shellExec cfg env (''rm -rf '' @ dq @ tempDir @ dq)))"

fun run_jobs :: "config \<Rightarrow> env \<Rightarrow> string list \<Rightarrow> unit io" where
  "run_jobs cfg env [] = ret ()"
| "run_jobs cfg env (fn # jobs) = thn (cleanup_job cfg env fn) (run_jobs cfg env jobs)"

definition cleanDo :: "config \<Rightarrow> env \<Rightarrow> unit io" where
  "cleanDo cfg env s = run_jobs cfg env (cleanupJobs s) (s\<lparr>cleanupJobs := []\<rparr>)"

definition getTempDir :: "config \<Rightarrow> env \<Rightarrow> string io" where
  "getTempDir cfg env =
     bnd (mkdtemp env ''/tmp/github-asset-'') (\<lambda>tempDir.
     thn (cleanupAdd tempDir) (ret tempDir))"

subsection \<open>utils.js: secrets\<close>

text \<open>
  \<^verbatim>\<open>
  export async function getSecret(token) {
      if ( secrets[token] === undefined ) {
          secrets[token] = await shellExec(`secret-tool lookup token ${token}`);
      }
      return secrets[token];
  }
  \<close>
\<close>

definition getSecret :: "config \<Rightarrow> env \<Rightarrow> string \<Rightarrow> string option io" where
  "getSecret cfg env token s =
     (case map_of (secrets s) token of
        None \<Rightarrow>
          bnd (shellExec cfg env (''secret-tool lookup token '' @ token)) (\<lambda>v s1.
            case v of
              None \<Rightarrow> (Val None, s1)
            | Some x \<Rightarrow> (Val (Some x), s1\<lparr>secrets := (token, x) # secrets s1\<rparr>)) s
      | Some x \<Rightarrow> (Val (Some x), s))"

subsection \<open>utils.js: reading and patching the package\<close>

definition readFile :: "env \<Rightarrow> string \<Rightarrow> string io" where
  "readFile env path s =
     (let s' = s\<lparr>trace := trace s @ [ReadFile path]\<rparr> in
      case read_reply env path (count_list (trace s) (ReadFile path)) of
        None \<Rightarrow> (Throw ''Error'', s')
      | Some text \<Rightarrow> (Val text, s'))"

definition writeFile :: "string \<Rightarrow> string \<Rightarrow> unit io" where
  "writeFile path content = emit (WriteFile path content)"

definition parse :: "env \<Rightarrow> string \<Rightarrow> jsval io" where
  "parse env text =
     (case JSON_parse env text of None \<Rightarrow> throw ''SyntaxError'' | Some j \<Rightarrow> ret (Some j))"

text \<open>
  \<^verbatim>\<open>
  export async function getFileFromPackage(packagePath, needlePath) {
      const tempDir = await getTempDir();
      const filePath = await shellExec(`unzip -Z1 ${packagePath} | grep "${needlePath}"`);
      if ( Boolean(filePath) === false ) { return; }
      await shellExec(`unzip ${packagePath} ${filePath} -d ${tempDir}`);
      const text = await fs.readFile(`${tempDir}/${filePath}`, { encoding: 'utf8' });
      if ( text === undefined ) { return; }
      return text;
  }
  export async function getManifestFromPackage(packagePath) {
      const text = await getFileFromPackage(packagePath, 'manifest.json');
      if ( text === undefined ) { return; }
      return JSON.parse(text);
  }
  \<close>
  A path that may be \<open>undefined\<close> is a \<open>string option\<close>; in a template literal it is
  written out by \<open>show_path\<close>.
\<close>

definition show_path :: "string option \<Rightarrow> string" where
  "show_path p = (case p of None \<Rightarrow> ''undefined'' | Some x \<Rightarrow> x)"

definition getFileFromPackage :: "config \<Rightarrow> env \<Rightarrow> string option \<Rightarrow> string \<Rightarrow> string option io" where
  "getFileFromPackage cfg env packagePath needlePath =
     bnd (getTempDir cfg env) (\<lambda>tempDir.
     bnd (shellExec cfg env
            (''unzip -Z1 '' @ show_path packagePath @ '' | grep '' @ dq @ needlePath @ dq))
         (\<lambda>filePath.
     if filePath = None \<or> filePath = Some [] then ret None
     else
       thn (shellExec cfg env
              (''unzip '' @ show_path packagePath @ '' '' @ show_path filePath @ '' -d ''
               @ tempDir))
       (bnd (readFile env (tempDir @ ''/'' @ show_path filePath)) (\<lambda>text.
        ret (Some text)))))"

definition getManifestFromPackage :: "config \<Rightarrow> env \<Rightarrow> string option \<Rightarrow> jsval io" where
  "getManifestFromPackage cfg env packagePath =
     bnd (getFileFromPackage cfg env packagePath ''manifest.json'') (\<lambda>text.
     case text of None \<Rightarrow> ret None | Some t \<Rightarrow> parse env t)"

text \<open>
  \<^verbatim>\<open>
  export async function updateManifestInPackage(packagePath, json) {
      const tempDir = await getTempDir('/tmp/github-deflated-asset-');
      const manifestPath = await shellExec(`unzip -Z1 ${packagePath} | grep manifest.json`);
      if ( Boolean(manifestPath) === false ) { return; }
      const manifestDir = path.dirname(manifestPath);
      if ( manifestDir !== '' && manifestDir !== '. ' ) {
          await shellExec(`mkdir -p ${tempDir}/${manifestDir}`);
      }
      await fs.writeFile(`${tempDir}/${manifestPath}`, JSON.stringify(json, null, 2));
      await shellExec(`cd ${tempDir} && zip -qr ${packagePath} ${manifestPath} && cd -`);
      return true;
  }
  \<close>
  The result is \<open>true\<close> or \<open>undefined\<close>, here \<open>True\<close> or \<open>False\<close>.
\<close>

definition updateManifestInPackage :: "config \<Rightarrow> env \<Rightarrow> string option \<Rightarrow> json \<Rightarrow> bool io" where
  "updateManifestInPackage cfg env packagePath json =
     bnd (getTempDir cfg env) (\<lambda>tempDir.
     bnd (shellExec cfg env (''unzip -Z1 '' @ show_path packagePath @ '' | grep manifest.json''))
         (\<lambda>manifestPath.
     if manifestPath = None \<or> manifestPath = Some [] then ret False
     else
       let manifestDir = dirname env (show_path manifestPath) in
       thn (if manifestDir \<noteq> [] \<and> manifestDir \<noteq> ''. ''
            then thn (shellExec cfg env (''mkdir -p '' @ tempDir @ ''/'' @ manifestDir)) (ret ())
            else ret ())
       (thn (writeFile (tempDir @ ''/'' @ show_path manifestPath) (JSON_stringify env json))
       (thn (shellExec cfg env
               (''cd '' @ tempDir @ '' && zip -qr '' @ show_path packagePath @ '' ''
                @ show_path manifestPath @ '' && cd -''))
        (ret True)))))"

text \<open>
  \<^verbatim>\<open>
  export async function getExtensionNameFromPackage(packagePath) {
      const manifest = await getManifestFromPackage(packagePath);
      if ( manifest === undefined ) { return; }
      if ( manifest.name !== "__MSG_extName__" ) { return manifest.name; }
      const lang = manifest.default_locale;
      if ( lang === undefined ) { return; }
      const text = await getFileFromPackage(packagePath, `_locales/${lang}/messages.json`);
      if ( text === undefined ) { return; }
      const messages = JSON.parse(text);
      return messages.extName.message;
  }
  \<close>
\<close>

definition getExtensionNameFromPackage :: "config \<Rightarrow> env \<Rightarrow> string option \<Rightarrow> jsval io" where
  "getExtensionNameFromPackage cfg env packagePath =
     bnd (getManifestFromPackage cfg env packagePath) (\<lambda>manifest.
     if manifest = None then ret None
     else
       bnd (member manifest ''name'') (\<lambda>name.
       if name \<noteq> Some (JStr ''__MSG_extName__'') then ret name
       else
         bnd (member manifest ''default_locale'') (\<lambda>lang.
         if lang = None then ret None
         else
           bnd (getFileFromPackage cfg env packagePath
                  (''_locales/'' @ to_string lang @ ''/messages.json'')) (\<lambda>text.
           case text of
             None \<Rightarrow> ret None
           | Some t \<Rightarrow>
               bnd (parse env t) (\<lambda>messages.
               bnd (member messages ''extName'') (\<lambda>extName.
               member extName ''message''))))))"


section \<open>The GitHub module (src/unnamed/part_000, imported as ghapi)\<close>

text \<open>
  \<^verbatim>\<open>
  const githubAuth = `Bearer ${await getSecret('github_token')}`;
  const githubOwner = commandLineArgs.ghowner;
  const githubRepo = commandLineArgs.ghrepo;
  const githubTag = commandLineArgs.ghtag;
  const githubAsset = commandLineArgs.ghasset;
  export const details = { auth: githubAuth, owner: githubOwner, repo: githubRepo,
      tag: githubTag, asset: githubAsset };
  \<close>
  The module is evaluated before \<open>main\<close> of the script that imports it.
\<close>

record details =
  auth :: string
  owner :: arg
  repo :: arg
  tag :: arg
  asset :: arg

definition github_api :: "config \<Rightarrow> env \<Rightarrow> details io" where
  "github_api cfg env =
     bnd (getSecret cfg env ''github_token'') (\<lambda>token.
     ret \<lparr>auth = ''Bearer '' @ show_path token, owner = ghowner cfg, repo = ghrepo cfg,
          tag = ghtag cfg, asset = ghasset cfg\<rparr>)"

definition validateGithubToken :: "details \<Rightarrow> unit io" where
  "validateGithubToken gh = (if auth gh = [] then throw ''Need GitHub token'' else ret ())"

definition validateGithubVars :: "details \<Rightarrow> unit io" where
  "validateGithubVars gh =
     thn (validateGithubToken gh)
     (if owner gh = Given [] then throw ''Need GitHub owner''
      else if repo gh = Given [] then throw ''Need GitHub repo''
      else if tag gh = Given [] then throw ''Need GitHub tag''
      else if asset gh = Given [] then throw ''Need GitHub asset name''
      else ret ())"

text \<open>
  \<^verbatim>\<open>
  export async function getReleaseInfo() {
      validateGithubVars();
      console.log(`Fetching release info for ${githubOwner}/${githubRepo}/${githubTag} from GitHub`);
      const releaseInfoUrl = `https://api.github.com/repos/.../releases/tags/${githubTag}`;
      const request = new Request(releaseInfoUrl, { headers: { Authorization: githubAuth } });
      const { response, data } = await fetchEx(request, 'json');
      if ( response === undefined ) { return; }
      if ( data === undefined ) { return; }
      return data;
  }
  \<close>
\<close>

definition getReleaseInfo :: "details \<Rightarrow> env \<Rightarrow> jsval io" where
  "getReleaseInfo gh env =
     thn (validateGithubVars gh)
     (thn (console_log (''Fetching release info for '' @ show_arg (owner gh) @ ''/''
             @ show_arg (repo gh) @ ''/'' @ show_arg (tag gh) @ '' from GitHub''))
     (bnd (fetchEx env [Resource GhReleaseInfo, Str ''json'']) (\<lambda>f.
      if response f = None then ret None
      else if data f = None then ret None
      else ret (data f))))"

text \<open>
  \<^verbatim>\<open>
  export async function getAssetInfo() {
      const releaseInfo = await getReleaseInfo();
      if ( releaseInfo === undefined ) { return; }
      if ( releaseInfo.assets === undefined ) { return; }
      for ( const asset of releaseInfo.assets ) {
          if ( asset.name.includes(githubAsset) ) { return asset; }
      }
  }
  \<close>
  \<open>includes\<close> exists on strings and on arrays. Iterating a non-empty string gives
  one-character strings, whose \<open>name\<close> is \<open>undefined\<close>; the other values are not
  iterable.
\<close>

definition starts_with :: "string \<Rightarrow> string \<Rightarrow> bool" where
  "starts_with pat s = (take (length pat) s = pat)"

fun includes_str :: "string \<Rightarrow> string \<Rightarrow> bool" where
  "includes_str [] needle = (needle = [])"
| "includes_str (c # cs) needle = (starts_with needle (c # cs) \<or> includes_str cs needle)"

definition js_includes :: "jsval \<Rightarrow> arg \<Rightarrow> bool io" where
  "js_includes v needle =
     (case v of
        Some (JStr s) \<Rightarrow> ret (includes_str s (show_arg needle))
      | Some (JArr xs) \<Rightarrow>
          ret (case needle of
                 Absent \<Rightarrow> False
               | Flag \<Rightarrow> JBool True \<in> set xs
               | Given t \<Rightarrow> JStr t \<in> set xs)
      | _ \<Rightarrow> throw ''TypeError'')"

fun find_asset :: "arg \<Rightarrow> json list \<Rightarrow> jsval io" where
  "find_asset githubAsset [] = ret None"
| "find_asset githubAsset (a # assets) =
     bnd (member (Some a) ''name'') (\<lambda>name.
     bnd (js_includes name githubAsset) (\<lambda>found.
     if found then ret (Some a) else find_asset githubAsset assets))"

definition getAssetInfo :: "details \<Rightarrow> env \<Rightarrow> jsval io" where
  "getAssetInfo gh env =
     bnd (getReleaseInfo gh env) (\<lambda>releaseInfo.
     if releaseInfo = None then ret None
     else
       bnd (member releaseInfo ''assets'') (\<lambda>assets.
       case assets of
         None \<Rightarrow> ret None
       | Some (JArr xs) \<Rightarrow> find_asset (asset gh) xs
       | Some (JStr s) \<Rightarrow> (if s = [] then ret None else throw ''TypeError'')
       | Some _ \<Rightarrow> throw ''TypeError''))"

text \<open>
  \<^verbatim>\<open>
  export async function downloadAssetFromRelease(assetInfo) {
      validateGithubToken();
      const assetURL = assetInfo.url;
      console.log(`Fetching ${assetURL}`);
      const request = new Request(assetURL, { headers: { ... } });
      const { response, data } = await fetchEx(request, 'bytes');
      if ( response === undefined ) { return; }
      if ( data === undefined ) { return; }
      const tempDir = await getTempDir();
      const fileName = `${tempDir}/${assetInfo.name}`;
      await fs.writeFile(fileName, data);
      return fileName;
  }
  \<close>
\<close>

definition downloadAssetFromRelease :: "details \<Rightarrow> config \<Rightarrow> env \<Rightarrow> jsval \<Rightarrow> string option io" where
  "downloadAssetFromRelease gh cfg env assetInfo =
     thn (validateGithubToken gh)
     (bnd (member assetInfo ''url'') (\<lambda>assetURL.
     thn (console_log (''Fetching '' @ to_string assetURL))
     (thn (new_Request env assetURL)
     (bnd (fetchEx env [Resource GhAsset, Str ''bytes'']) (\<lambda>f.
      if response f = None then ret None
      else if data f = None then ret None
      else
        bnd (getTempDir cfg env) (\<lambda>tempDir.
        bnd (member assetInfo ''name'') (\<lambda>name.
        let fileName = tempDir @ ''/'' @ to_string name in
        thn (writeFile fileName (to_string (data f)))
            (ret (Some fileName)))))))))"

text \<open>
  \<^verbatim>\<open>
  export async function uploadAssetToRelease(assetPath, mimeType) {
      validateGithubToken();
      console.log(`Uploading "${assetPath}" to GitHub...`);
      const data = await fs.readFile(assetPath).catch(( ) => { });
      if ( data === undefined ) { return; }
      const releaseInfo = await getReleaseInfo();
      if ( releaseInfo.upload_url === undefined ) { return; }
      const assetName = path.basename(assetPath);
      const uploadURL = releaseInfo.upload_url.replace('{?name,label}', `?name=${assetName}`);
      console.log('Upload URL:', uploadURL);
      const request = new Request(uploadURL, { body: ..., headers: ..., method: 'POST' });
      const { response, data: json } = await fetchEx(request, 'json');
      if ( response === undefined ) { return; }
      return json;
  }
  \<close>
  \<open>replace\<close> with a string pattern replaces the first occurrence (the replacement
  strings of the scripts are taken to hold no \<open>$\<close> pattern); it exists on strings only.
\<close>

fun replace_first :: "string \<Rightarrow> string \<Rightarrow> string \<Rightarrow> string" where
  "replace_first pat rep [] = (if pat = [] then rep else [])"
| "replace_first pat rep (c # cs) =
     (if starts_with pat (c # cs) then rep @ drop (length pat) (c # cs)
      else c # replace_first pat rep cs)"

definition try_readFile :: "env \<Rightarrow> string \<Rightarrow> string option io" where
  "try_readFile env path s =
     (Val (read_reply env path (count_list (trace s) (ReadFile path))),
      s\<lparr>trace := trace s @ [ReadFile path]\<rparr>)"

definition uploadAssetToRelease :: "details \<Rightarrow> env \<Rightarrow> string \<Rightarrow> string \<Rightarrow> jsval io" where
  "uploadAssetToRelease gh env assetPath mimeType =
     thn (validateGithubToken gh)
     (thn (console_log (''Uploading '' @ dq @ assetPath @ dq @ '' to GitHub...''))
     (bnd (try_readFile env assetPath) (\<lambda>bytes.
      if bytes = None then ret None
      else
        bnd (getReleaseInfo gh env) (\<lambda>releaseInfo.
        bnd (member releaseInfo ''upload_url'') (\<lambda>upload_url.
        if upload_url = None then ret None
        else
          let assetName = basename env assetPath in
          bnd (case upload_url of
                 Some (JStr u) \<Rightarrow> ret (replace_first ''{?name,label}'' (''?name='' @ assetName) u)
               | _ \<Rightarrow> throw ''TypeError'') (\<lambda>uploadURL.
          thn (console_log (''Upload URL: '' @ uploadURL))
          (thn (new_Request env (Some (JStr uploadURL)))
          (bnd (fetchEx env [Resource GhUpload, Str ''json'']) (\<lambda>f.
           if response f = None then ret None
           else ret (data f))))))))))"

text \<open>
  \<^verbatim>\<open>
  export async function deleteAssetFromRelease(assetURL) {
      validateGithubToken();
      console.log(`Remove ${assetURL} from GitHub release ${githubTag}...`);
      const request = new Request(assetURL, { headers: ..., method: 'DELETE' });
      const { response } = await fetchEx(request);
      return response?.ok;
  }
  \<close>
\<close>

definition deleteAssetFromRelease :: "details \<Rightarrow> env \<Rightarrow> jsval \<Rightarrow> bool option io" where
  "deleteAssetFromRelease gh env assetURL =
     thn (validateGithubToken gh)
     (thn (console_log (''Remove '' @ to_string assetURL @ '' from GitHub release ''
             @ show_arg (tag gh) @ ''...''))
     (thn (new_Request env assetURL)
     (bnd (fetchEx env [Resource GhDelete]) (\<lambda>f.
      ret (map_option ok (response f))))))"

subsection \<open>The auto-update descriptor\<close>

text \<open>
  \<^verbatim>\<open>
  export async function updateFirefoxAutoUpdateFile(updateFilePath, details) {
      validateGithubVars();
      const { amoExtensionId, manifest, signedPackageName } = details;
      if ( amoExtensionId === undefined ) { console.log(...); return; }
      if ( manifest === undefined ) { console.log(...); return; }
      if ( signedPackageName === undefined ) { console.log(...); return; }
      let r = await shellExec(`git diff --staged`);
      if ( r ) { console.log(`git diff --staged = ${r}`); return; }
      const text = await fs.readFile(updateFilePath, { encoding: 'utf8' }).catch(reason => {
          console.log(`${reason}`);
      });
      if ( text === undefined ) { console.log(`fs.readFile = ${text}`); return; }
      const data = JSON.parse(text);
      const update = data.addons[amoExtensionId].updates[0];
      if ( intFromVersion(manifest.version) < intFromVersion(update.version) ) {
          console.log(`New version older than current version: ${update.version} < ${manifest.version}`);
          return;
      }
      update.version = manifest.version;
      update.update_link = `https://github.com/${githubOwner}/${githubRepo}/releases/download/${githubTag}/${signedPackageName}`;
      await fs.writeFile(updateFilePath, JSON.stringify(data, null, 2));
      await shellExec(`git add -u "${updateFilePath}"`);
      r = await shellExec(`git status -s "${updateFilePath}"`);
      if ( Boolean(r) === false ) { console.log(...); return; }
      shellExec(`
          git commit -m 'Make Firefox dev build auto-update' "${updateFilePath}"
          git push origin HEAD
      `, { stdio: 'inherit' });
      return true;
  }
  \<close>
  The result is \<open>true\<close> or \<open>undefined\<close>, here \<open>True\<close> or \<open>False\<close>. The objects of a parsed
  JSON text share nothing, so the two assignments to \<open>update\<close> change \<open>data\<close> at
  \<open>addons[amoExtensionId].updates[0]\<close> and nowhere else. An object is a list of members
  with distinct names; an assignment replaces the member of that name or adds it at the
  end.
\<close>

definition index0 :: "jsval \<Rightarrow> jsval io" where
  "index0 v =
     (case v of
        None \<Rightarrow> throw ''TypeError''
      | Some JNull \<Rightarrow> throw ''TypeError''
      | Some (JArr xs) \<Rightarrow> ret (case xs of [] \<Rightarrow> None | x # rest \<Rightarrow> Some x)
      | Some (JObj kvs) \<Rightarrow> ret (map_of kvs ''0'')
      | Some (JStr s) \<Rightarrow> ret (case s of [] \<Rightarrow> None | c # rest \<Rightarrow> Some (JStr [c]))
      | Some _ \<Rightarrow> ret None)"

fun obj_set :: "(string \<times> json) list \<Rightarrow> string \<Rightarrow> json \<Rightarrow> (string \<times> json) list" where
  "obj_set [] k v = [(k, v)]"
| "obj_set ((k', v') # kvs) k v = (if k' = k then (k, v) # kvs else (k', v') # obj_set kvs k v)"

definition set_member :: "json \<Rightarrow> string \<Rightarrow> json \<Rightarrow> json" where
  "set_member j k v = (case j of JObj kvs \<Rightarrow> JObj (obj_set kvs k v) | _ \<Rightarrow> j)"

definition set_index0 :: "json \<Rightarrow> json \<Rightarrow> json" where
  "set_index0 j v =
     (case j of
        JArr xs \<Rightarrow> (case xs of [] \<Rightarrow> JArr [v] | x # rest \<Rightarrow> JArr (v # rest))
      | JObj kvs \<Rightarrow> JObj (obj_set kvs ''0'' v)
      | _ \<Rightarrow> j)"

text \<open>\<open>intFromVersion\<close> on a value: \<open>matchAll\<close> exists on strings only.\<close>

definition intFromVersion_of :: "jsval \<Rightarrow> int io" where
  "intFromVersion_of v =
     (case v of Some (JStr s) \<Rightarrow> ret (intFromVersion s) | _ \<Rightarrow> throw ''TypeError'')"

text \<open>The assignment \<open>update.version = ...\<close>: a \<open>TypeError\<close> when \<open>update\<close> is not an
  object (module code is strict).\<close>

definition assign :: "jsval \<Rightarrow> string \<Rightarrow> json \<Rightarrow> json io" where
  "assign target k v =
     (case target of
        Some (JObj kvs) \<Rightarrow> ret (JObj (obj_set kvs k v))
      | Some (JArr xs) \<Rightarrow> ret (JArr xs)
      | _ \<Rightarrow> throw ''TypeError'')"

definition the_json :: "jsval \<Rightarrow> json" where
  "the_json v = (case v of None \<Rightarrow> JNull | Some j \<Rightarrow> j)"

definition commit_and_push :: "string \<Rightarrow> string" where
  "commit_and_push updateFilePath =
     nl @ ''        git commit -m '' @ sq @ ''Make Firefox dev build auto-update'' @ sq
     @ '' '' @ dq @ updateFilePath @ dq @ nl
     @ ''        git push origin HEAD'' @ nl @ ''    ''"

text \<open>The function up to the comparison of the versions: the \<open>undefined\<close> of an early return,
  or \<open>data\<close>, \<open>data.addons\<close>, \<open>data.addons[amoExtensionId]\<close>, its \<open>updates\<close>, \<open>update\<close>,
  \<open>manifest.version\<close>, \<open>update.version\<close> and the two values of \<open>intFromVersion\<close>.\<close>

definition read_update ::
  "details \<Rightarrow> config \<Rightarrow> env \<Rightarrow> string \<Rightarrow> arg \<Rightarrow> jsval \<Rightarrow> string option
   \<Rightarrow> (jsval \<times> jsval \<times> jsval \<times> jsval \<times> jsval \<times> jsval \<times> jsval \<times> int \<times> int) option io" where
  "read_update gh cfg env updateFilePath amoExtensionId manifest signedPackageName =
     thn (validateGithubVars gh)
     (if amoExtensionId = Absent then
        thn (console_log ''amoExtensionId = undefined'') (ret None)
      else if manifest = None then
        thn (console_log ''manifest = undefined'') (ret None)
      else if signedPackageName = None then
        thn (console_log ''signedPackageName = undefined'') (ret None)
      else
        bnd (shellExec cfg env ''git diff --staged'') (\<lambda>r.
        if r \<noteq> None \<and> r \<noteq> Some [] then
          thn (console_log (''git diff --staged = '' @ show_path r)) (ret None)
        else
          bnd (try_readFile env updateFilePath) (\<lambda>text.
          case text of
            None \<Rightarrow>
              thn (console_log ''Error'')
              (thn (console_log ''fs.readFile = undefined'') (ret None))
          | Some t \<Rightarrow>
              bnd (parse env t) (\<lambda>data.
              bnd (member data ''addons'') (\<lambda>addons.
              bnd (member addons (show_arg amoExtensionId)) (\<lambda>entry.
              bnd (member entry ''updates'') (\<lambda>updates.
              bnd (index0 updates) (\<lambda>update.
              bnd (member manifest ''version'') (\<lambda>manifest_version.
              bnd (intFromVersion_of manifest_version) (\<lambda>new_int.
              bnd (member update ''version'') (\<lambda>update_version.
              bnd (intFromVersion_of update_version) (\<lambda>old_int.
              ret (Some (data, addons, entry, updates, update, manifest_version,
                         update_version, new_int, old_int))))))))))))))"

text \<open>The function after \<open>fs.writeFile\<close>.\<close>

definition commit_update :: "config \<Rightarrow> env \<Rightarrow> string \<Rightarrow> bool io" where
  "commit_update cfg env updateFilePath =
     thn (shellExec cfg env (''git add -u '' @ dq @ updateFilePath @ dq))
     (bnd (shellExec cfg env (''git status -s '' @ dq @ updateFilePath @ dq)) (\<lambda>r2.
      if r2 = None \<or> r2 = Some [] then
        thn (console_log (''git status -s '' @ dq @ updateFilePath @ dq @ '' = ''
               @ show_path r2))
            (ret False)
      else
        thn (detached (shellExec cfg env (commit_and_push updateFilePath)))
            (ret True)))"

definition update_link :: "details \<Rightarrow> string option \<Rightarrow> string" where
  "update_link gh signedPackageName =
     ''https://github.com/'' @ show_arg (owner gh) @ ''/'' @ show_arg (repo gh)
     @ ''/releases/download/'' @ show_arg (tag gh) @ ''/'' @ show_path signedPackageName"

definition updateFirefoxAutoUpdateFile ::
  "details \<Rightarrow> config \<Rightarrow> env \<Rightarrow> string \<Rightarrow> arg \<Rightarrow> jsval \<Rightarrow> string option \<Rightarrow> bool io" where
  "updateFirefoxAutoUpdateFile gh cfg env updateFilePath amoExtensionId manifest signedPackageName =
     bnd (read_update gh cfg env updateFilePath amoExtensionId manifest signedPackageName) (\<lambda>v.
     case v of
       None \<Rightarrow> ret False
     | Some (data1, addons, entry, updates, update, manifest_version, update_version,
             new_int, old_int) \<Rightarrow>
         if new_int < old_int then
           thn (console_log (''New version older than current version: ''
                  @ to_string update_version @ '' < '' @ to_string manifest_version))
               (ret False)
         else
           bnd (assign update ''version'' (the_json manifest_version)) (\<lambda>update1.
           bnd (assign (Some update1) ''update_link'' (JStr (update_link gh signedPackageName)))
               (\<lambda>update2.
           let data2 =
             set_member (the_json data1) ''addons''
               (set_member (the_json addons) (show_arg amoExtensionId)
                 (set_member (the_json entry) ''updates''
                   (set_index0 (the_json updates) update2)))
           in
           thn (writeFile updateFilePath (JSON_stringify env data2))
               (commit_update cfg env updateFilePath))))"


section \<open>The poll loop of the two asynchronous stores\<close>

text \<open>
  publish-firefox.js, in \<open>requestSignature\<close>:
  \<^verbatim>\<open>
    const interval = 180 // check every 3 minutes
    let countdown = 30 * 60 / interval // for at most 30 minutes
    let downloadURL;
    for (;;) {
        await utils.sleep(60);
        countdown -= 1
        if ( countdown <= 0 ) {
            console.log('Error: AMO signing timed out');
            process.exit(1);
        }
        ... one status check: process.exit(1), continue, or break ...
    }
  \<close>
  publish-edge.js, in \<open>publishToEdgeStore\<close>:
  \<^verbatim>\<open>
    const interval = 60;                // check every 60 seconds
    let countdown = 15 * 60 / interval; // for at most 15 minutes
    for (;;) {
        await utils.sleep(interval);
        countdown -= 1
        if ( countdown <= 0 ) {
            console.log('Error: Microsoft store timed out')
            process.exit(1);
        }
        ... one status check: process.exit(1), continue, or break ...
    }
  \<close>
  The two loops differ in the seconds slept, the message and the status check. The check
  returns \<open>None\<close> for \<open>continue\<close> and \<open>Some x\<close> for \<open>break\<close>, \<open>x\<close> being what the
  code after the loop uses.
\<close>

function poll_loop :: "nat \<Rightarrow> string \<Rightarrow> 'a option io \<Rightarrow> int \<Rightarrow> 'a io" where
  "poll_loop seconds timed_out check countdown s =
     (let s1 = snd (sleep seconds s);
          countdown1 = countdown - 1
      in
        if countdown1 \<le> 0 then thn (console_log timed_out) (process_exit 1) s1
        else
          case check s1 of
            (Val None, s2) \<Rightarrow> poll_loop seconds timed_out check countdown1 s2
          | (Val (Some x), s2) \<Rightarrow> (Val x, s2)
          | (Exit c, s2) \<Rightarrow> (Exit c, s2)
          | (Throw e, s2) \<Rightarrow> (Throw e, s2))"
  by pat_completeness auto
termination
  by (relation "measure (\<lambda>(seconds, timed_out, check, countdown, s). nat countdown)") auto

declare poll_loop.simps [simp del]

definition exit_with :: "string \<Rightarrow> 'a io" where
  "exit_with msg = thn (console_log msg) (process_exit 1)"

section \<open>publish-firefox.js\<close>

text \<open>
  The status check of the AMO loop:
  \<^verbatim>\<open>
        const signingCheckRequest = new Request(signingCheckURL, { headers: ... });
        const {
            response: signingCheckResponse,
            data: signingCheckDetails,
        } = await utils.fetchEx(signingCheckRequest, 'json');
        if ( signingCheckResponse.ok !== true ) {
            console.log(`Error: AMO signing failed -- server error ${signingCheckResponse.status}`);
            process.exit(1);
        }
        if ( signingCheckDetails.processed !== true ) { continue; }
        if ( signingCheckDetails.valid !== true ) {
            console.log('Error: AMO validation failed')
            process.exit(1);
        }
        if ( Array.isArray(signingCheckDetails.files) === false ) { continue; }
        if ( signingCheckDetails.files.length === 0 ) { continue; }
        if ( signingCheckDetails.files[0].signed !== true ) { continue; }
        downloadURL = signingCheckDetails.files[0].download_url;
        if ( Boolean(downloadURL) === false ) {
            console.log('Error: AMO signing failed')
            process.exit(1);
        }
        break;
  \<close>
\<close>

definition amo_check :: "env \<Rightarrow> jsval \<Rightarrow> jsval option io" where
  "amo_check env signingCheckURL =
     thn (new_Request env signingCheckURL)
     (bnd (fetchEx env [Resource AmoCheck, Str ''json'']) (\<lambda>f.
      bnd (the_response f) (\<lambda>signingCheckResponse.
      if \<not> ok signingCheckResponse then
        exit_with (''Error: AMO signing failed -- server error ''
                   @ show_nat (status signingCheckResponse))
      else
        bnd (member (data f) ''processed'') (\<lambda>processed.
        if processed \<noteq> Some (JBool True) then ret None
        else
          bnd (member (data f) ''valid'') (\<lambda>valid.
          if valid \<noteq> Some (JBool True) then exit_with ''Error: AMO validation failed''
          else
            bnd (member (data f) ''files'') (\<lambda>files.
            case files of
              Some (JArr xs) \<Rightarrow>
                (case xs of
                   [] \<Rightarrow> ret None
                 | file # rest \<Rightarrow>
                     bnd (member (Some file) ''signed'') (\<lambda>signed.
                     if signed \<noteq> Some (JBool True) then ret None
                     else
                       bnd (member (Some file) ''download_url'') (\<lambda>downloadURL.
                       if \<not> truthy downloadURL then exit_with ''Error: AMO signing failed''
                       else ret (Some downloadURL))))
            | _ \<Rightarrow> ret None))))))"

text \<open>The loop with its two constants, \<open>interval\<close> and the first value of
  \<open>countdown\<close>; the sleep is 60 seconds whatever \<open>interval\<close> is.\<close>

definition amo_poll :: "env \<Rightarrow> jsval \<Rightarrow> jsval io" where
  "amo_poll env signingCheckURL =
     (let interval = 180;
          countdown = 30 * 60 div interval
      in poll_loop 60 ''Error: AMO signing timed out'' (amo_check env signingCheckURL) countdown)"

text \<open>\<open>Promise.all\<close> of two calls: both calls run up to their first suspension, which
  for \<open>getSecret\<close> is after the command has been executed, before either result is
  looked at.\<close>

definition promise_all2 :: "'a io \<Rightarrow> 'b io \<Rightarrow> ('a \<times> 'b) io" where
  "promise_all2 m1 m2 s =
     (case m1 s of
        (Exit c, s1) \<Rightarrow> (Exit c, s1)
      | (r1, s1) \<Rightarrow>
          (case m2 s1 of
             (Exit c, s2) \<Rightarrow> (Exit c, s2)
           | (r2, s2) \<Rightarrow>
               (case r1 of
                  Throw e \<Rightarrow> (Throw e, s2)
                | Exit c \<Rightarrow> (Exit c, s2)
                | Val a \<Rightarrow>
                    (case r2 of
                       Throw e \<Rightarrow> (Throw e, s2)
                     | Exit c \<Rightarrow> (Exit c, s2)
                     | Val b \<Rightarrow> (Val (a, b), s2)))))"

text \<open>
  \<^verbatim>\<open>
  async function requestSignature(packagePathIn, packagePathOut, manifest) {
      const [ amoApiKey, amoSecret ] = await Promise.all([
          utils.getSecret('amo_api_key'),
          utils.getSecret('amo_secret'),
      ]);
      const jwt = new utils.JWT(amoApiKey, amoSecret);
      const signingRequestURL =`https://addons.mozilla.org/api/v4/addons/${amoExtensionId}/versions/${manifest.version}/`;
      const formData = new FormData();
      formData.set('channel', amoChannel);
      formData.set('upload', await fileFromSync(packagePathIn));
      const signingRequest = new Request(signingRequestURL, { ... method: 'PUT' });
      console.log('Submitting package to be signed...');
      console.log(' ', signingRequestURL);
      const { response: signingRequestResponse, data: signingRequestDetails, }
          = await utils.fetchEx(signingRequest, 'json');
      if ( signingRequestResponse.ok !== true ) {
          console.log(`Error: Creating new version failed -- server error ${signingRequestResponse.status}`);
          process.exit(1);
      }
      console.log('Request for signing xpi package succeeded');
      if ( amoChannel !== 'unlisted' ) { return; }
      console.log('Waiting for AMO to process the request to sign the self-hosted xpi package...');
      const signingCheckURL = signingRequestDetails.url;
      ... the loop ...
      console.log('Self-hosted xpi package successfully signed')
      console.log(`Downloading signed self-hosted xpi package from ${downloadURL}...`);
      const downloadRequest = new Request(downloadURL, { headers: ... });
      const { response: downloadResponse, data: signedPackage, }
          = await utils.fetchEx(downloadRequest, 'bytes');
      if ( downloadResponse.ok !== true ) {
          console.log(`Error: Download signed package failed -- server error ${downloadResponse.status}`);
          process.exit(1);
      }
      await fs.writeFile(packagePathOut, signedPackage);
      console.log(`Signed self-hosted xpi package downloaded at${packagePathOut}`);
  }
  \<close>
  Building the token, the form and a request with a fixed URL prefix is taken to succeed.
  \<open>fileFromSync\<close> reads the package and throws when that fails.
\<close>

definition amoChannel :: "config \<Rightarrow> arg" where
  "amoChannel cfg = or_empty (channel cfg)"

definition autoUpdatepath :: "config \<Rightarrow> arg" where
  "autoUpdatepath cfg = or_empty (updatepath cfg)"

definition fileFromSync :: "env \<Rightarrow> string option \<Rightarrow> string io" where
  "fileFromSync env filePath =
     (case filePath of None \<Rightarrow> throw ''TypeError'' | Some p \<Rightarrow> readFile env p)"

definition amo_download :: "env \<Rightarrow> string \<Rightarrow> jsval \<Rightarrow> unit io" where
  "amo_download env packagePathOut downloadURL =
     thn (console_log ''Self-hosted xpi package successfully signed'')
     (thn (console_log (''Downloading signed self-hosted xpi package from ''
             @ to_string downloadURL @ ''...''))
     (thn (new_Request env downloadURL)
     (bnd (fetchEx env [Resource AmoDownload, Str ''bytes'']) (\<lambda>f.
      bnd (the_response f) (\<lambda>downloadResponse.
      if \<not> ok downloadResponse then
        exit_with (''Error: Download signed package failed -- server error ''
                   @ show_nat (status downloadResponse))
      else
        thn (writeFile packagePathOut (to_string (data f)))
            (console_log (''Signed self-hosted xpi package downloaded at'' @ packagePathOut)))))))"

text \<open>The function in three parts: the submission up to the loop, which gives
  \<open>signingCheckURL\<close>, or \<open>None\<close> when the function returns at
  \<open>if ( amoChannel !== 'unlisted' ) { return; }\<close>; the loop; the download.\<close>

definition amo_submit :: "config \<Rightarrow> env \<Rightarrow> string option \<Rightarrow> jsval \<Rightarrow> jsval option io" where
  "amo_submit cfg env packagePathIn manifest =
     bnd (promise_all2 (getSecret cfg env ''amo_api_key'') (getSecret cfg env ''amo_secret''))
         (\<lambda>keys.
     bnd (member manifest ''version'') (\<lambda>version.
     let signingRequestURL =
           ''https://addons.mozilla.org/api/v4/addons/'' @ show_arg (storeid cfg)
           @ ''/versions/'' @ to_string version @ ''/''
     in
     bnd (fileFromSync env packagePathIn) (\<lambda>upload.
     thn (console_log ''Submitting package to be signed...'')
     (thn (console_log (''  '' @ signingRequestURL))
     (bnd (fetchEx env [Resource AmoSubmit, Str ''json'']) (\<lambda>f.
      bnd (the_response f) (\<lambda>signingRequestResponse.
      if \<not> ok signingRequestResponse then
        exit_with (''Error: Creating new version failed -- server error ''
                   @ show_nat (status signingRequestResponse))
      else
        thn (console_log ''Request for signing xpi package succeeded'')
        (if amoChannel cfg \<noteq> Given ''unlisted'' then ret None
         else
           thn (console_log
                  ''Waiting for AMO to process the request to sign the self-hosted xpi package...'')
           (bnd (member (data f) ''url'') (\<lambda>signingCheckURL.
            ret (Some signingCheckURL)))))))))))"

definition requestSignature ::
  "config \<Rightarrow> env \<Rightarrow> string option \<Rightarrow> string \<Rightarrow> jsval \<Rightarrow> unit io" where
  "requestSignature cfg env packagePathIn packagePathOut manifest =
     bnd (amo_submit cfg env packagePathIn manifest) (\<lambda>submitted.
     case submitted of
       None \<Rightarrow> ret ()
     | Some signingCheckURL \<Rightarrow>
         bnd (amo_poll env signingCheckURL) (\<lambda>downloadURL.
         amo_download env packagePathOut downloadURL))"

text \<open>
  \<^verbatim>\<open>
  async function main() {
      if ( /^(un)?listed$/.test(amoChannel) === false ) { return 'Need AMO channel'; }
      const assetInfo = await ghapi.getAssetInfo('firefox');
      if ( assetInfo === undefined ) { process.exit(1); }
      await utils.prompt([ 'Publish to AMO store:', ..., `Publish? (enter "yes"): `, ].join('\n'));
      // Fetch asset from GitHub repo
      const packagePath = await ghapi.downloadAssetFromRelease(assetInfo);
      console.log(`Unsigned asset saved at ${packagePath}`);
      const manifest = await utils.getManifestFromPackage(packagePath);
      if ( manifest === undefined ) {
          console.log('Error: Unable to find manifest file');
          process.exit(1);
      }
      // If self-hosted, modify manifest with auto-update information
      if ( amoChannel === 'unlisted' ) {
          manifest.browser_specific_settings.gecko.update_url =
          `https://raw.githubusercontent.com/${ghapi.details.owner}/${ghapi.details.repo}/master/dist/firefox/updates.json`;
          const r = await utils.updateManifestInPackage(packagePath, manifest);
          if ( r !== true ) {
              console.log('Error: Unable to update manifest file');
              process.exit(1);
          }
      }
      const tempDir = await utils.getTempDir();
      const signedPackageName = assetInfo.name.replace('.xpi', '.signed.xpi');
      const signedPackagePath = `${tempDir}/${signedPackageName}`
      await requestSignature(packagePath, signedPackagePath, manifest);
      // Upload to GitHub
      if ( amoChannel === 'unlisted' ) {
          const uploadResult = await ghapi.uploadAssetToRelease(signedPackagePath, 'application/zip');
          if ( uploadResult === undefined ) {
              console.log(`Failed to upload signed package to ...`);
              process.exit(1);
          }
          // Delete unsigned package from GitHub
          await ghapi.deleteAssetFromRelease(assetInfo.url);
          // Patch update file and commit
          if ( autoUpdatepath !== '' ) {
              const r = await ghapi.updateFirefoxAutoUpdateFile(autoUpdatepath, {
                  amoExtensionId, manifest, signedPackageName, });
              if ( Boolean(r) === false ) {
                  console.log('Auto-update details not brought up to date');
              }
          }
      }
      console.log('Done');
  }
  main().then(result => {
      utils.cleanDo();
      if ( result !== undefined ) {
          console.log(result);
          process.exit(1);
      }
      process.exit(0);
  });
  \<close>
\<close>

definition firefox_prompt_text :: "string \<Rightarrow> details \<Rightarrow> config \<Rightarrow> jsval \<Rightarrow> string" where
  "firefox_prompt_text title gh cfg name =
     join nl
       [title,
        ''  GitHub owner: '' @ dq @ show_arg (owner gh) @ dq,
        ''  GitHub repo: '' @ dq @ show_arg (repo gh) @ dq,
        ''  Release tag: '' @ dq @ show_arg (tag gh) @ dq,
        ''  Asset name: '' @ dq @ to_string name @ dq,
        ''  Extension id: '' @ show_arg (storeid cfg),
        ''  channel: '' @ show_arg (amoChannel cfg),
        ''Publish? (enter '' @ dq @ ''yes'' @ dq @ ''): '']"

definition signed_name :: "jsval \<Rightarrow> string io" where
  "signed_name name =
     (case name of
        Some (JStr n) \<Rightarrow> ret (replace_first ''.xpi'' ''.signed.xpi'' n)
      | _ \<Rightarrow> throw ''TypeError'')"

definition set_update_url :: "details \<Rightarrow> jsval \<Rightarrow> json io" where
  "set_update_url gh manifest =
     bnd (member manifest ''browser_specific_settings'') (\<lambda>settings.
     bnd (member settings ''gecko'') (\<lambda>gecko.
     bnd (assign gecko ''update_url''
            (JStr (''https://raw.githubusercontent.com/'' @ show_arg (owner gh) @ ''/''
                   @ show_arg (repo gh) @ ''/master/dist/firefox/updates.json'')))
         (\<lambda>gecko1.
     ret (set_member (the_json manifest) ''browser_specific_settings''
            (set_member (the_json settings) ''gecko'' gecko1)))))"

definition reconcile_update_file ::
  "details \<Rightarrow> config \<Rightarrow> env \<Rightarrow> jsval \<Rightarrow> string \<Rightarrow> unit io" where
  "reconcile_update_file gh cfg env manifest signedPackageName =
     bnd (updateFirefoxAutoUpdateFile gh cfg env (show_arg (autoUpdatepath cfg)) (storeid cfg)
            manifest (Some signedPackageName)) (\<lambda>r.
     if \<not> r then console_log ''Auto-update details not brought up to date'' else ret ())"

definition failed_upload_text :: "details \<Rightarrow> string" where
  "failed_upload_text gh =
     ''Failed to upload signed package to '' @ show_arg (owner gh) @ ''/''
     @ show_arg (repo gh) @ ''/'' @ show_arg (tag gh)"

definition publish_firefox_main :: "details \<Rightarrow> config \<Rightarrow> env \<Rightarrow> string option io" where
  "publish_firefox_main gh cfg env =
     (if amoChannel cfg \<noteq> Given ''listed'' \<and> amoChannel cfg \<noteq> Given ''unlisted''
      then ret (Some ''Need AMO channel'')
      else
        bnd (getAssetInfo gh env) (\<lambda>assetInfo.
        if assetInfo = None then process_exit 1
        else
          bnd (member assetInfo ''name'') (\<lambda>name.
          thn (prompt env (firefox_prompt_text ''Publish to AMO store:'' gh cfg name))
          (bnd (downloadAssetFromRelease gh cfg env assetInfo) (\<lambda>packagePath.
          thn (console_log (''Unsigned asset saved at '' @ show_path packagePath))
          (bnd (getManifestFromPackage cfg env packagePath) (\<lambda>manifest0.
          if manifest0 = None then exit_with ''Error: Unable to find manifest file''
          else
            bnd (if amoChannel cfg = Given ''unlisted'' then
                   bnd (set_update_url gh manifest0) (\<lambda>m.
                   bnd (updateManifestInPackage cfg env packagePath m) (\<lambda>r.
                   if \<not> r then exit_with ''Error: Unable to update manifest file''
                   else ret (Some m)))
                 else ret manifest0) (\<lambda>manifest.
            bnd (getTempDir cfg env) (\<lambda>tempDir.
            bnd (signed_name name) (\<lambda>signedPackageName.
            let signedPackagePath = tempDir @ ''/'' @ signedPackageName in
            thn (requestSignature cfg env packagePath signedPackagePath manifest)
            (thn (if amoChannel cfg = Given ''unlisted'' then
                    bnd (uploadAssetToRelease gh env signedPackagePath ''application/zip'')
                        (\<lambda>uploadResult.
                    if uploadResult = None then exit_with (failed_upload_text gh)
                    else
                      bnd (member assetInfo ''url'') (\<lambda>url.
                      thn (deleteAssetFromRelease gh env url)
                      (if autoUpdatepath cfg \<noteq> Given [] then
                         reconcile_update_file gh cfg env manifest signedPackageName
                       else ret ())))
                  else ret ())
            (thn (console_log ''Done'') (ret None)))))))))))))"

text \<open>The handler given to \<open>main().then(...)\<close>. \<open>cleanDo\<close> is called and not awaited;
  all of its jobs have run when the call returns.\<close>

definition then_cleanDo :: "config \<Rightarrow> env \<Rightarrow> string option \<Rightarrow> unit io" where
  "then_cleanDo cfg env result =
     thn (detached (cleanDo cfg env))
     (case result of
        Some msg \<Rightarrow> thn (console_log msg) (process_exit 1)
      | None \<Rightarrow> process_exit 0)"

definition publish_firefox :: "config \<Rightarrow> env \<Rightarrow> unit io" where
  "publish_firefox cfg env =
     bnd (github_api cfg env) (\<lambda>gh.
     bnd (publish_firefox_main gh cfg env) (then_cleanDo cfg env))"

text \<open>How the process ends. \<open>process.exit(c)\<close> gives \<open>c\<close>. A rejected promise that
  nothing handles (the scripts attach no \<open>catch\<close>) is an uncaught exception, on which
  Node ends the process with status 1. A script that just returns ends with status 0.\<close>

definition exit_status :: "'a result \<Rightarrow> nat" where
  "exit_status r = (case r of Exit c \<Rightarrow> c | Throw e \<Rightarrow> 1 | Val x \<Rightarrow> 0)"


section \<open>publish-chromium.js and publish-edge.js\<close>

subsection \<open>The name on the store listing\<close>

text \<open>
  \<^verbatim>\<open>
  async function extensionNameFromCWS() {
      const { data } = await utils.fetchEx(
          `https://chromewebstore.google.com/detail/${storeId}`, 'text');
      if ( data === undefined ) { return '?'; }
      const match = /<title>([^-<]+)[^<]*?<\/title>/.exec(data);
      if ( match === null ) { return '?'; }
      return match[1].trim();
  }
  \<close>
  \<open>extensionNameFromEdgeStore\<close> is the same function on the Edge listing. The
  expression matches at the leftmost \<open><title>\<close> that is followed by text without
  \<open><\<close>, not starting with \<open>-\<close>, and then \<open></title>\<close>; the group is that text up to
  its first \<open>-\<close>.
\<close>

definition title_at :: "string \<Rightarrow> string option" where
  "title_at s =
     (if starts_with ''<title>'' s then
        let rest = drop 7 s;
            captured = takeWhile (\<lambda>c. c \<noteq> CHR ''-'' \<and> c \<noteq> CHR ''<'') rest;
            after = dropWhile (\<lambda>c. c \<noteq> CHR ''<'') rest
        in if captured \<noteq> [] \<and> starts_with ''</title>'' after then Some captured else None
      else None)"

fun exec_title :: "string \<Rightarrow> string option" where
  "exec_title [] = None"
| "exec_title (c # cs) =
     (case title_at (c # cs) of Some captured \<Rightarrow> Some captured | None \<Rightarrow> exec_title cs)"

definition extensionNameFromStore :: "env \<Rightarrow> site \<Rightarrow> string io" where
  "extensionNameFromStore env listing =
     bnd (fetchEx env [Resource listing, Str ''text'']) (\<lambda>f.
     case data f of
       Some (JStr text) \<Rightarrow>
         (case exec_title text of None \<Rightarrow> ret ''?'' | Some captured \<Rightarrow> ret (trim captured))
     | _ \<Rightarrow> ret ''?'')"

definition extensionNameFromCWS :: "env \<Rightarrow> string io" where
  "extensionNameFromCWS env = extensionNameFromStore env CwsListing"

definition extensionNameFromEdgeStore :: "env \<Rightarrow> string io" where
  "extensionNameFromEdgeStore env = extensionNameFromStore env EdgeListing"

subsection \<open>Chrome Web Store\<close>

text \<open>
  \<^verbatim>\<open>
  async function publishToCWS(filePath) {
      console.log('Generating access token...');
      const authRequest = new Request(authURL, { ... method: 'POST' });
      const { response: authResponse, data: responseDict, }
          = await utils.fetchEx(authRequest, 'json');
      if ( responseDict === undefined ) {
          console.error(`Error: Auth failed -- server error ${authResponse.statusText}`);
          process.exit(1);
      }
      if ( responseDict.access_token === undefined ) {
          console.error('Error: Auth failed -- no access token');
          console.error('Error: Auth failed --', JSON.stringify(responseDict, null, 2));
          process.exit(1);
      }
      const cwsAuth = `Bearer ${responseDict.access_token}`;
      const data = await fs.readFile(filePath);
      console.log('Uploading package...')
      const uploadRequest = new Request(uploadURL, { ... method: 'PUT' });
      const { response: uploadResponse, data: uploadDict, }
          = await utils.fetchEx(uploadRequest, 'json');
      if ( uploadDict === undefined ) {
          console.error(`Upload failed -- server error ${uploadResponse.statusText}`);
          process.exit(1)
      }
      if ( uploadDict.uploadState !== 'SUCCESS' ) {
          console.error(`Upload failed -- server error ${JSON.stringify(uploadDict)}`);
          process.exit(1);
      }
      console.log('Upload succeeded.')
      console.log('Publishing package...')
      const publishRequest = new Request(publishURL, { ... method: 'POST' });
      const { response: publishResponse, data: publishDict, }
          = await utils.fetchEx(publishRequest, 'json');
      if ( publishDict === undefined ) {
          console.error(`Error: Chrome store publishing failed -- server error ${publishResponse.statusText}`);
          process.exit(1);
      }
      if ( Array.isArray(publishDict.status) === false ||
           publishDict.status.includes('OK') === false ) {
          console.error(`Publishing failed -- server error ${publishDict.status}`);
          process.exit(1);
      }
      console.log('Publishing succeeded.')
  }
  \<close>
\<close>

definition error_exit :: "string \<Rightarrow> 'a io" where
  "error_exit msg = thn (console_error msg) (process_exit 1)"

definition publishToCWS :: "env \<Rightarrow> string option \<Rightarrow> unit io" where
  "publishToCWS env filePath =
     thn (console_log ''Generating access token...'')
     (bnd (fetchEx env [Resource CwsAuth, Str ''json'']) (\<lambda>auth_f.
      if data auth_f = None then
        bnd (the_response auth_f) (\<lambda>authResponse.
        error_exit (''Error: Auth failed -- server error '' @ statusText authResponse))
      else
        bnd (member (data auth_f) ''access_token'') (\<lambda>access_token.
        if access_token = None then
          thn (console_error ''Error: Auth failed -- no access token'')
          (error_exit (''Error: Auth failed -- '' @ JSON_stringify env (the_json (data auth_f))))
        else
          bnd (fileFromSync env filePath) (\<lambda>bytes.
          thn (console_log ''Uploading package...'')
          (bnd (fetchEx env [Resource CwsUpload, Str ''json'']) (\<lambda>upload_f.
           if data upload_f = None then
             bnd (the_response upload_f) (\<lambda>uploadResponse.
             error_exit (''Upload failed -- server error '' @ statusText uploadResponse))
           else
             bnd (member (data upload_f) ''uploadState'') (\<lambda>uploadState.
             if uploadState \<noteq> Some (JStr ''SUCCESS'') then
               error_exit (''Upload failed -- server error ''
                           @ JSON_stringify env (the_json (data upload_f)))
             else
               thn (console_log ''Upload succeeded.'')
               (thn (console_log ''Publishing package...'')
               (bnd (fetchEx env [Resource CwsPublish, Str ''json'']) (\<lambda>publish_f.
                if data publish_f = None then
                  bnd (the_response publish_f) (\<lambda>publishResponse.
                  error_exit (''Error: Chrome store publishing failed -- server error ''
                              @ statusText publishResponse))
                else
                  bnd (member (data publish_f) ''status'') (\<lambda>st.
                  if (case st of Some (JArr xs) \<Rightarrow> JStr ''OK'' \<notin> set xs | _ \<Rightarrow> True) then
                    error_exit (''Publishing failed -- server error '' @ to_string st)
                  else console_log ''Publishing succeeded.'')))))))))))"

text \<open>
  \<^verbatim>\<open>
  async function main() {
      const assetInfo = await ghapi.getAssetInfo();
      if ( assetInfo === undefined ) { process.exit(1); }
      // Fetch asset from GitHub repo
      const packagePath = await ghapi.downloadAssetFromRelease(assetInfo);
      console.log('Asset saved at', packagePath);
      // Confirm the package being uploaded matches the store listing
      const cwsName = await extensionNameFromCWS();
      const manifestName = await utils.getExtensionNameFromPackage(packagePath);
      if ( manifestName && manifestName !== cwsName ) {
          console.log(`Extension name mismatch between manifest and CWS:\n  "${manifest.name}" != "${cwsName}"`);
          process.exit(1);
      }
      const manifest = await utils.getManifestFromPackage(packagePath);
      if ( manifest === undefined ) { process.exit(1); }
      let updateManifest = false;
      const versionName = ghapi.details.tag.replace(/^\D+/, '');
      if ( versionName !== manifest.version ) {
          manifest.version_name = versionName;
          updateManifest = true;
      }
      if ( updateManifest ) {
          await utils.updateManifestInPackage(packagePath, manifest);
      }
      await utils.prompt([ 'Publish to Chrome store:', ..., `Publish? (enter "yes"): `, ].join('\n'));
      // Upload to Chrome Web Store
      await publishToCWS(packagePath);
      // Clean up
      if ( commandLineArgs.keep !== true ) {
          const tmpdir = path.dirname(packagePath);
          console.log(`Removing ${tmpdir}`);
          utils.shellExec(`rm -rf "${tmpdir}"`);
      }
      console.log('Done');
  }
  main().then(result => {
      utils.cleanDo();
      if ( result !== undefined ) { console.log(result); process.exit(1); }
      process.exit(0);
  });
  \<close>
  In the branch of the name mismatch the template literal reads \<open>manifest\<close>, which is
  declared with \<open>const\<close> further down in the same block: the read throws a
  \<open>ReferenceError\<close> before anything is logged.
\<close>

text \<open>\<open>ghapi.details.tag.replace(/^\D+/, '')\<close>; \<open>replace\<close> exists on strings only.\<close>

definition version_of_tag :: "details \<Rightarrow> string io" where
  "version_of_tag gh =
     (case tag gh of
        Given t \<Rightarrow> ret (dropWhile (\<lambda>c. \<not> is_digit c) t)
      | _ \<Rightarrow> throw ''TypeError'')"

text \<open>The part of \<open>main\<close> that sets \<open>version_name\<close>; the result is the manifest and
  \<open>updateManifest\<close>.\<close>

definition set_version_name :: "details \<Rightarrow> jsval \<Rightarrow> bool \<Rightarrow> (jsval \<times> bool) io" where
  "set_version_name gh manifest updateManifest =
     bnd (version_of_tag gh) (\<lambda>versionName.
     bnd (member manifest ''version'') (\<lambda>version.
     if Some (JStr versionName) \<noteq> version then
       bnd (assign manifest ''version_name'' (JStr versionName)) (\<lambda>m.
       ret (Some m, True))
     else ret (manifest, updateManifest)))"

definition store_prompt_text ::
  "string \<Rightarrow> details \<Rightarrow> config \<Rightarrow> jsval \<Rightarrow> jsval \<Rightarrow> string \<Rightarrow> jsval \<Rightarrow> jsval \<Rightarrow> string list \<Rightarrow> string" where
  "store_prompt_text title gh cfg name manifestName storeName version version_name extra =
     join nl
       ([title,
         ''  GitHub owner: '' @ dq @ show_arg (owner gh) @ dq,
         ''  GitHub repo: '' @ dq @ show_arg (repo gh) @ dq,
         ''  Release tag: '' @ dq @ show_arg (tag gh) @ dq,
         ''  Asset name: '' @ dq @ to_string name @ dq,
         ''  Extension names: '' @ dq @ to_string manifestName @ dq @ '' / '' @ dq @ storeName @ dq,
         ''  Extension id: '' @ show_arg (storeid cfg),
         ''  Extension version: '' @ to_string version,
         ''  Extension version name: ''
           @ (if truthy version_name then to_string version_name else ''[empty]'')]
        @ extra @ [''Publish? (enter '' @ dq @ ''yes'' @ dq @ ''): ''])"

definition store_prompt ::
  "string \<Rightarrow> details \<Rightarrow> config \<Rightarrow> env \<Rightarrow> jsval \<Rightarrow> jsval \<Rightarrow> string \<Rightarrow> jsval \<Rightarrow> string list \<Rightarrow> bool io" where
  "store_prompt title gh cfg env assetInfo manifestName storeName manifest extra =
     bnd (member assetInfo ''name'') (\<lambda>name.
     bnd (member manifest ''version'') (\<lambda>version.
     bnd (member manifest ''version_name'') (\<lambda>version_name.
     prompt env
       (store_prompt_text title gh cfg name manifestName storeName version version_name extra))))"

text \<open>The block under \<open>// Clean up\<close>; \<open>path.dirname\<close> throws on \<open>undefined\<close>.\<close>

definition remove_dir_of :: "config \<Rightarrow> env \<Rightarrow> string option \<Rightarrow> unit io" where
  "remove_dir_of cfg env path =
     (case path of
        None \<Rightarrow> throw ''TypeError''
      | Some p \<Rightarrow>
          let tmpdir = dirname env p in
          thn (console_log (''Removing '' @ tmpdir))
              (detached (shellExec cfg env (''rm -rf '' @ dq @ tmpdir @ dq))))"

text \<open>The first lines of \<open>main\<close>, up to \<open>manifestName\<close>, are the same in both scripts
  but for the listing that is read. They give \<open>assetInfo\<close>, \<open>packagePath\<close>, the name on
  the listing and \<open>manifestName\<close>.\<close>

definition asset_and_names ::
  "details \<Rightarrow> config \<Rightarrow> env \<Rightarrow> string io \<Rightarrow> (jsval \<times> string option \<times> string \<times> jsval) io" where
  "asset_and_names gh cfg env extensionNameFromListing =
     bnd (getAssetInfo gh env) (\<lambda>assetInfo.
     if assetInfo = None then process_exit 1
     else
       bnd (downloadAssetFromRelease gh cfg env assetInfo) (\<lambda>packagePath.
       thn (console_log (''Asset saved at '' @ show_path packagePath))
       (bnd extensionNameFromListing (\<lambda>storeName.
       bnd (getExtensionNameFromPackage cfg env packagePath) (\<lambda>manifestName.
       ret (assetInfo, packagePath, storeName, manifestName))))))"

definition publish_chromium_main :: "details \<Rightarrow> config \<Rightarrow> env \<Rightarrow> string option io" where
  "publish_chromium_main gh cfg env =
     bnd (asset_and_names gh cfg env (extensionNameFromCWS env))
         (\<lambda>(assetInfo, packagePath, cwsName, manifestName).
     if truthy manifestName \<and> manifestName \<noteq> Some (JStr cwsName) then
       throw ''ReferenceError''
     else
       bnd (getManifestFromPackage cfg env packagePath) (\<lambda>manifest0.
       if manifest0 = None then process_exit 1
       else
         bnd (set_version_name gh manifest0 False) (\<lambda>(manifest, updateManifest).
         thn (if updateManifest then
                thn (updateManifestInPackage cfg env packagePath (the_json manifest)) (ret ())
              else ret ())
         (thn (store_prompt ''Publish to Chrome store:'' gh cfg env assetInfo manifestName
                 cwsName manifest [])
         (thn (publishToCWS env packagePath)
         (thn (if keep cfg \<noteq> Flag then remove_dir_of cfg env packagePath else ret ())
         (thn (console_log ''Done'') (ret None))))))))"

definition publish_chromium :: "config \<Rightarrow> env \<Rightarrow> unit io" where
  "publish_chromium cfg env =
     bnd (github_api cfg env) (\<lambda>gh.
     bnd (publish_chromium_main gh cfg env) (then_cleanDo cfg env))"

subsection \<open>Microsoft Edge Add-ons\<close>

text \<open>
  The status check of the Edge loop:
  \<^verbatim>\<open>
        const uploadStatusRequest = new Request(`${uploadURL}/operations/${operationId}`, ...);
        const { response: uploadStatusResponse, data: uploadStatusDict, }
            = await utils.fetchEx(uploadStatusRequest, 'json');
        if ( uploadStatusResponse.status !== 200 ) {
            console.log(`Upload status check failed -- server error ${uploadStatusResponse.status}`);
            process.exit(1);
        }
        const { status } = uploadStatusDict;
        if ( status === undefined || status === 'Failed' ) {
            console.log(`Upload status check failed -- server error ${status}`);
            process.exit(1);
        }
        if ( status === 'InProgress' ) { continue }
        console.log('Package ready to be published.')
        break;
  \<close>
\<close>

definition edge_check :: "env \<Rightarrow> unit option io" where
  "edge_check env =
     bnd (fetchEx env [Resource EdgeStatus, Str ''json'']) (\<lambda>f.
     bnd (the_response f) (\<lambda>uploadStatusResponse.
     if status uploadStatusResponse \<noteq> 200 then
       exit_with (''Upload status check failed -- server error ''
                  @ show_nat (status uploadStatusResponse))
     else
       bnd (member (data f) ''status'') (\<lambda>st.
       if st = None \<or> st = Some (JStr ''Failed'') then
         exit_with (''Upload status check failed -- server error '' @ to_string st)
       else if st = Some (JStr ''InProgress'') then ret None
       else thn (console_log ''Package ready to be published.'') (ret (Some ())))))"

definition edge_poll :: "env \<Rightarrow> unit io" where
  "edge_poll env =
     (let interval = 60;
          countdown = 15 * 60 div interval
      in poll_loop (nat interval) ''Error: Microsoft store timed out'' (edge_check env) countdown)"

text \<open>
  \<^verbatim>\<open>
  async function publishToEdgeStore(filePath) {
      ...
      const data = await fs.readFile(filePath);
      console.log(`Uploading package to ${uploadURL}`);
      const uploadRequest = new Request(uploadURL, { ... method: 'POST' });
      const { response: uploadResponse } = await utils.fetchEx(uploadRequest);
      if ( uploadResponse.status !== 202 ) {
          console.log(`Upload failed -- server error ${uploadResponse.status}`);
          process.exit(1);
      }
      const operationId = uploadResponse.headers.get('Location');
      if ( operationId === undefined ) {
          console.log(`Upload failed -- missing Location header`);
          process.exit(1);
      }
      console.log(`Upload succeeded`);
      console.log('Checking upload status...');
      ... the loop ...
      console.log('Publish package...')
      const publishRequest = new Request(publishURL, { ... method: 'POST' });
      const { response: publishResponse } = await utils.fetchEx(publishRequest);
      if ( publishResponse.status !== 202 ) {
          console.log(`Publish failed -- server error ${publishResponse.status}`);
          process.exit(1);
      }
      if ( publishResponse.headers.get('Location') === undefined ) {
          console.log(`Publish failed -- missing Location header`);
          process.exit(1);
      }
      console.log('Publish succeeded.')
  }
  \<close>
  \<open>headers.get\<close> gives \<open>null\<close>, not \<open>undefined\<close>, for a header that is not there.
\<close>

definition headers_get_Location :: "http_response \<Rightarrow> jsval" where
  "headers_get_Location r = (case location r of None \<Rightarrow> Some JNull | Some l \<Rightarrow> Some (JStr l))"

text \<open>The function in three parts: the upload, the loop, the publication.\<close>

definition edge_upload :: "config \<Rightarrow> env \<Rightarrow> string option \<Rightarrow> unit io" where
  "edge_upload cfg env filePath =
     (let uploadURL = ''https://api.addons.microsoftedge.microsoft.com/v1/products/''
                      @ show_arg (productid cfg) @ ''/submissions/draft/package''
      in
      bnd (fileFromSync env filePath) (\<lambda>bytes.
      thn (console_log (''Uploading package to '' @ uploadURL))
      (bnd (fetchEx env [Resource EdgeUpload]) (\<lambda>upload_f.
       bnd (the_response upload_f) (\<lambda>uploadResponse.
       if status uploadResponse \<noteq> 202 then
         exit_with (''Upload failed -- server error '' @ show_nat (status uploadResponse))
       else
         let operationId = headers_get_Location uploadResponse in
         if operationId = None then exit_with ''Upload failed -- missing Location header''
         else
           thn (console_log ''Upload succeeded'')
               (console_log ''Checking upload status...''))))))"

definition edge_publish :: "env \<Rightarrow> unit io" where
  "edge_publish env =
     thn (console_log ''Publish package...'')
     (bnd (fetchEx env [Resource EdgePublish]) (\<lambda>publish_f.
      bnd (the_response publish_f) (\<lambda>publishResponse.
      if status publishResponse \<noteq> 202 then
        exit_with (''Publish failed -- server error '' @ show_nat (status publishResponse))
      else if headers_get_Location publishResponse = None then
        exit_with ''Publish failed -- missing Location header''
      else console_log ''Publish succeeded.'')))"

definition publishToEdgeStore :: "config \<Rightarrow> env \<Rightarrow> string option \<Rightarrow> unit io" where
  "publishToEdgeStore cfg env filePath =
     thn (edge_upload cfg env filePath)
     (thn (edge_poll env)
          (edge_publish env))"

text \<open>
  \<^verbatim>\<open>
  async function main() {
      const assetInfo = await ghapi.getAssetInfo();
      if ( assetInfo === undefined ) { process.exit(1); }
      const packagePath = await ghapi.downloadAssetFromRelease(assetInfo);
      console.log('Asset saved at', packagePath);
      // Confirm the package being uploaded matches the store listing
      const edgeStoreName = await extensionNameFromEdgeStore();
      const manifestName = await utils.getExtensionNameFromPackage(packagePath);
      if ( manifestName && manifestName !== edgeStoreName ) {
          console.log(`Extension name mismatch between manifest and Edge Store:\n  "${manifestName}" != "${edgeStoreName}"`);
          process.exit(1);
      }
      const manifest = await utils.getManifestFromPackage(packagePath);
      if ( manifest === undefined ) { process.exit(1); }
      let updateManifest = false;
      if ( commandLineArgs.datebasedmajor !== undefined ) {
          const now = new Date();
          const year = now.getUTCFullYear();
          const month = now.getUTCMonth() + 1;
          const day = now.getUTCDate();
          const major = `${year}.${month * 100 + day}`;
          manifest.version = manifest.version.replace(/^\d+/, major);
          updateManifest = true;
      }
      const versionName = ghapi.details.tag.replace(/^\D+/, '');
      if ( versionName !== manifest.version ) {
          manifest.version_name = versionName;
          updateManifest = true;
      }
      if ( updateManifest ) {
          await utils.updateManifestInPackage(packagePath, manifest);
      }
      await utils.prompt([ 'Publish to Edge store:', ..., `  Product id: ${productId}`,
          `Publish? (enter "yes"): `, ].join('\n'));

      process.exit(1);

      // Upload to Edge Store
      await publishToEdgeStore(packagePath);
      // Clean up
      if ( commandLineArgs.keep !== true ) {
          const tmpdir = path.dirname(packagePath);
          console.log(`Removing ${tmpdir}`);
          utils.shellExec(`rm -rf "${tmpdir}"`);
      }
      console.log('Done');
  }
  main().then(result => {
      if ( result !== undefined ) { console.log(result); process.exit(1); }
      process.exit(0);
  });
  \<close>
\<close>

definition set_datebased_major :: "config \<Rightarrow> env \<Rightarrow> jsval \<Rightarrow> (jsval \<times> bool) io" where
  "set_datebased_major cfg env manifest =
     (if datebasedmajor cfg \<noteq> Absent then
        (case today env of (year, month, day) \<Rightarrow>
           let major = show_nat year @ ''.'' @ show_nat (month * 100 + day) in
           bnd (member manifest ''version'') (\<lambda>version.
           case version of
             Some (JStr v) \<Rightarrow>
               bnd (assign manifest ''version''
                      (JStr (case v of
                               [] \<Rightarrow> []
                             | c # cs \<Rightarrow> if is_digit c then major @ dropWhile is_digit v else v)))
                   (\<lambda>m. ret (Some m, True))
           | _ \<Rightarrow> throw ''TypeError''))
      else ret (manifest, False))"

definition then_exit :: "string option \<Rightarrow> unit io" where
  "then_exit result =
     (case result of
        Some msg \<Rightarrow> thn (console_log msg) (process_exit 1)
      | None \<Rightarrow> process_exit 0)"

definition publish_edge_main :: "details \<Rightarrow> config \<Rightarrow> env \<Rightarrow> string option io" where
  "publish_edge_main gh cfg env =
     bnd (asset_and_names gh cfg env (extensionNameFromEdgeStore env))
         (\<lambda>(assetInfo, packagePath, edgeStoreName, manifestName).
     if truthy manifestName \<and> manifestName \<noteq> Some (JStr edgeStoreName) then
       exit_with (''Extension name mismatch between manifest and Edge Store:'' @ nl @ ''  ''
                  @ dq @ to_string manifestName @ dq @ '' != '' @ dq @ edgeStoreName @ dq)
     else
       bnd (getManifestFromPackage cfg env packagePath) (\<lambda>manifest0.
       if manifest0 = None then process_exit 1
       else
         bnd (set_datebased_major cfg env manifest0) (\<lambda>(manifest1, updateManifest1).
         bnd (set_version_name gh manifest1 updateManifest1) (\<lambda>(manifest, updateManifest).
         thn (if updateManifest then
                thn (updateManifestInPackage cfg env packagePath (the_json manifest)) (ret ())
              else ret ())
         (thn (store_prompt ''Publish to Edge store:'' gh cfg env assetInfo manifestName
                 edgeStoreName manifest [''  Product id: '' @ show_arg (productid cfg)])
         (thn (process_exit 1 :: unit io)
         (thn (publishToEdgeStore cfg env packagePath)
         (thn (if keep cfg \<noteq> Flag then remove_dir_of cfg env packagePath else ret ())
         (thn (console_log ''Done'') (ret None))))))))))"

definition publish_edge :: "config \<Rightarrow> env \<Rightarrow> unit io" where
  "publish_edge cfg env =
     bnd (github_api cfg env) (\<lambda>gh.
     bnd (publish_edge_main gh cfg env) then_exit)"

section \<open>upload-firefox.js\<close>

text \<open>
  \<^verbatim>\<open>
  async function checkSignature(packagePathIn, packagePathOut, manifest) {
      const jwt = new utils.JWT(process.env.AMO_API_KEY, process.env.AMO_SECRET);
      console.log('Waiting for AMO to process the request to sign the self-hosted xpi package...');
      const signingCheckURL =
      `https://addons.mozilla.org/api/v5/addons/addon/${amoExtensionId}/versions/${manifest.version}/`;
      const signingCheckRequest = new Request(signingCheckURL, { headers: ... });
      const { response: signingCheckResponse, data: signingCheckDetails, }
          = await utils.fetchEx(signingCheckRequest, 'json');
      if ( signingCheckResponse.ok !== true ) {
          console.log(`Error: AMO lookup failed -- server error ${signingCheckResponse.status}`);
          process.exit(1);
      }
      const { file } = signingCheckDetails;
      console.log(`AMO validation: ${file?.status}`);
      if ( file.status === 'disabled' ) {
          console.log('Error: AMO signing failed')
          process.exit(1);
      }
      if ( file.status === 'unreviewed' ) {
          console.log('Error: AMO signing is pending')
          process.exit(1);
      }
      console.log('Success: xpi package successfully signed')
      console.log(`Downloading signed self-hosted xpi package from ${file.url}...`);
      const downloadRequest = new Request(file.url, { headers: ... });
      const { response: downloadResponse, data: signedPackage, }
          = await utils.fetchEx(downloadRequest, 'bytes');
      if ( downloadResponse.ok !== true ) {
          console.log(`Error: Download signed package failed -- server error ${downloadResponse.status}`);
          process.exit(1);
      }
      await fs.writeFile(packagePathOut, signedPackage);
      console.log(`Signed self-hosted xpi package downloaded at${packagePathOut}`);
  }
  \<close>
\<close>

definition optional_member :: "jsval \<Rightarrow> string \<Rightarrow> jsval io" where
  "optional_member v name =
     (if v = None \<or> v = Some JNull then ret None else member v name)"

text \<open>The function in two parts: the lookup, which gives \<open>file\<close> when the status is
  neither \<open>disabled\<close> nor \<open>unreviewed\<close>, and the download.\<close>

definition amo_lookup :: "config \<Rightarrow> env \<Rightarrow> jsval \<Rightarrow> jsval io" where
  "amo_lookup cfg env manifest =
     thn (console_log
            ''Waiting for AMO to process the request to sign the self-hosted xpi package...'')
     (bnd (member manifest ''version'') (\<lambda>version.
     bnd (fetchEx env [Resource AmoLookup, Str ''json'']) (\<lambda>f.
     bnd (the_response f) (\<lambda>signingCheckResponse.
     if \<not> ok signingCheckResponse then
       exit_with (''Error: AMO lookup failed -- server error ''
                  @ show_nat (status signingCheckResponse))
     else
       bnd (member (data f) ''file'') (\<lambda>file.
       bnd (optional_member file ''status'') (\<lambda>shown.
       thn (console_log (''AMO validation: '' @ to_string shown))
       (bnd (member file ''status'') (\<lambda>st.
        if st = Some (JStr ''disabled'') then exit_with ''Error: AMO signing failed''
        else if st = Some (JStr ''unreviewed'') then exit_with ''Error: AMO signing is pending''
        else
          thn (console_log ''Success: xpi package successfully signed'')
              (ret file)))))))))"

definition amo_file_download :: "env \<Rightarrow> string \<Rightarrow> jsval \<Rightarrow> unit io" where
  "amo_file_download env packagePathOut file =
     bnd (member file ''url'') (\<lambda>url.
     thn (console_log (''Downloading signed self-hosted xpi package from ''
            @ to_string url @ ''...''))
     (thn (new_Request env url)
     (bnd (fetchEx env [Resource AmoFile, Str ''bytes'']) (\<lambda>download_f.
      bnd (the_response download_f) (\<lambda>downloadResponse.
      if \<not> ok downloadResponse then
        exit_with (''Error: Download signed package failed -- server error ''
                   @ show_nat (status downloadResponse))
      else
        thn (writeFile packagePathOut (to_string (data download_f)))
            (console_log (''Signed self-hosted xpi package downloaded at''
                          @ packagePathOut)))))))"

definition checkSignature :: "config \<Rightarrow> env \<Rightarrow> string option \<Rightarrow> string \<Rightarrow> jsval \<Rightarrow> unit io" where
  "checkSignature cfg env packagePathIn packagePathOut manifest =
     bnd (amo_lookup cfg env manifest) (\<lambda>file.
     amo_file_download env packagePathOut file)"

text \<open>
  \<^verbatim>\<open>
  async function main() {
      if ( /^(un)?listed$/.test(amoChannel) === false ) { return 'Need AMO channel'; }
      const assetInfo = await ghapi.getAssetInfo('firefox');
      if ( assetInfo === undefined ) { process.exit(1); }
      await utils.prompt([ 'Upload to GitHub:', ..., `Publish? (enter "yes"): `, ].join('\n'));
      const packagePath = await ghapi.downloadAssetFromRelease(assetInfo);
      console.log(`Unsigned asset saved at ${packagePath}`);
      const manifest = await utils.getManifestFromPackage(packagePath);
      if ( manifest === undefined ) {
          console.log('Error: Unable to find manifest file');
          process.exit(1);
      }
      const tempDir = await fs.mkdtemp('/tmp/github-asset-');
      const signedPackageName = assetInfo.name.replace('.xpi', '.signed.xpi');
      const signedPackagePath = `${tempDir}/${signedPackageName}`
      await checkSignature(packagePath, signedPackagePath, manifest);
      // Upload to GitHub
      const uploadResult = await ghapi.uploadAssetToRelease(signedPackagePath, 'application/zip');
      if ( uploadResult === undefined ) {
          console.log(`Failed to upload signed package to ...`);
          process.exit(1);
      }
      // Delete unsigned package from GitHub
      await ghapi.deleteAssetFromRelease(assetInfo.url);
      // If self-hosted, patch update file and commit
      if ( amoChannel === 'unlisted' && autoUpdatepath !== '' ) {
          const r = await ghapi.updateFirefoxAutoUpdateFile(autoUpdatepath, {
              amoExtensionId, manifest, signedPackageName, });
          if ( Boolean(r) === false ) {
              console.log('Auto-update details not brought up to date');
          }
      }
      // Clean up
      if ( commandLineArgs.keep !== true ) {
          { const tmpdir = path.dirname(packagePath); ... utils.shellExec(`rm -rf "${tmpdir}"`); }
          { const tmpdir = path.dirname(signedPackagePath); ... utils.shellExec(`rm -rf "${tmpdir}"`); }
      }
      console.log('Done');
  }
  main().then(result => {
      if ( result !== undefined ) { console.log(result); process.exit(1); }
      process.exit(0);
  });
  \<close>
\<close>

definition upload_firefox_main :: "details \<Rightarrow> config \<Rightarrow> env \<Rightarrow> string option io" where
  "upload_firefox_main gh cfg env =
     (if amoChannel cfg \<noteq> Given ''listed'' \<and> amoChannel cfg \<noteq> Given ''unlisted''
      then ret (Some ''Need AMO channel'')
      else
        bnd (getAssetInfo gh env) (\<lambda>assetInfo.
        if assetInfo = None then process_exit 1
        else
          bnd (member assetInfo ''name'') (\<lambda>name.
          thn (prompt env (firefox_prompt_text ''Upload to GitHub:'' gh cfg name))
          (bnd (downloadAssetFromRelease gh cfg env assetInfo) (\<lambda>packagePath.
          thn (console_log (''Unsigned asset saved at '' @ show_path packagePath))
          (bnd (getManifestFromPackage cfg env packagePath) (\<lambda>manifest.
          if manifest = None then exit_with ''Error: Unable to find manifest file''
          else
            bnd (mkdtemp env ''/tmp/github-asset-'') (\<lambda>tempDir.
            bnd (signed_name name) (\<lambda>signedPackageName.
            let signedPackagePath = tempDir @ ''/'' @ signedPackageName in
            thn (checkSignature cfg env packagePath signedPackagePath manifest)
            (bnd (uploadAssetToRelease gh env signedPackagePath ''application/zip'')
                 (\<lambda>uploadResult.
             if uploadResult = None then exit_with (failed_upload_text gh)
             else
               bnd (member assetInfo ''url'') (\<lambda>url.
               thn (deleteAssetFromRelease gh env url)
               (thn (if amoChannel cfg = Given ''unlisted'' \<and> autoUpdatepath cfg \<noteq> Given []
                     then reconcile_update_file gh cfg env manifest signedPackageName
                     else ret ())
               (thn (if keep cfg \<noteq> Flag then
                       thn (remove_dir_of cfg env packagePath)
                           (remove_dir_of cfg env (Some signedPackagePath))
                     else ret ())
               (thn (console_log ''Done'') (ret None))))))))))))))))"

definition upload_firefox :: "config \<Rightarrow> env \<Rightarrow> unit io" where
  "upload_firefox cfg env =
     bnd (github_api cfg env) (\<lambda>gh.
     bnd (upload_firefox_main gh cfg env) then_exit)"


section \<open>Notions used in the statements\<close>

subsection \<open>fetchEx\<close>

text \<open>The last argument is one of the three response types; the answer of the outside
  world to the request that \<open>fetchEx\<close> passes on; the body of a response, read as the
  response type says (\<open>None\<close> when it cannot be read).\<close>

definition tagged :: "fetch_arg list \<Rightarrow> bool" where
  "tagged args = (args \<noteq> [] \<and> last args \<in> {Str ''bytes'', Str ''json'', Str ''text''})"

definition the_reply :: "env \<Rightarrow> fetch_arg list \<Rightarrow> state \<Rightarrow> fetch_result" where
  "the_reply env args s =
     (case args of
        Resource x # rest \<Rightarrow> fetch_reply env x (count_list (trace s) (Fetch x))
      | _ \<Rightarrow> Rejected ''TypeError'')"

definition body_of :: "fetch_arg list \<Rightarrow> http_response \<Rightarrow> jsval" where
  "body_of args r =
     (if last args = Str ''bytes'' then map_option JStr (bytes_body r)
      else if last args = Str ''json'' then json_body r
      else map_option JStr (text_body r))"

definition readable :: "fetch_arg list \<Rightarrow> http_response \<Rightarrow> bool" where
  "readable args r = (body_of args r \<noteq> None)"

subsection \<open>What a status check answers\<close>

text \<open>The member of an object, \<open>undefined\<close> on any other value.\<close>

definition jget :: "json \<Rightarrow> string \<Rightarrow> jsval" where
  "jget j name = (case j of JObj kvs \<Rightarrow> map_of kvs name | _ \<Rightarrow> None)"

text \<open>The status-check call got a response, and the response is not successful.\<close>

definition http_failed :: "fetch_result \<Rightarrow> bool" where
  "http_failed rep = (case rep of Rejected reason \<Rightarrow> False | Responded r \<Rightarrow> \<not> ok r)"

text \<open>The JSON document of a successful response.\<close>

definition document :: "fetch_result \<Rightarrow> json option" where
  "document rep =
     (case rep of Rejected reason \<Rightarrow> None | Responded r \<Rightarrow> if ok r then json_body r else None)"

text \<open>AMO (publish-firefox.js). Rejected: processed and not valid. Ready: processed,
  valid, and the first file is signed and has a download URL. Pending: not yet processed,
  or processed and valid with no signed first file yet.\<close>

definition first_file :: "json \<Rightarrow> json option" where
  "first_file j =
     (case jget j ''files'' of
        Some (JArr xs) \<Rightarrow> (case xs of [] \<Rightarrow> None | file # rest \<Rightarrow> Some file)
      | _ \<Rightarrow> None)"

definition amo_rejected :: "fetch_result \<Rightarrow> bool" where
  "amo_rejected rep =
     (case document rep of
        None \<Rightarrow> False
      | Some j \<Rightarrow> jget j ''processed'' = Some (JBool True) \<and> jget j ''valid'' \<noteq> Some (JBool True))"

definition amo_ready :: "fetch_result \<Rightarrow> bool" where
  "amo_ready rep =
     (case document rep of
        None \<Rightarrow> False
      | Some j \<Rightarrow>
          jget j ''processed'' = Some (JBool True) \<and> jget j ''valid'' = Some (JBool True)
          \<and> (case first_file j of
                None \<Rightarrow> False
              | Some file \<Rightarrow>
                  jget file ''signed'' = Some (JBool True)
                  \<and> truthy (jget file ''download_url'')))"

definition amo_pending :: "fetch_result \<Rightarrow> bool" where
  "amo_pending rep =
     (case document rep of
        None \<Rightarrow> False
      | Some j \<Rightarrow>
          j \<noteq> JNull
          \<and> (jget j ''processed'' \<noteq> Some (JBool True)
               \<or> jget j ''valid'' = Some (JBool True)
                 \<and> (case first_file j of
                       None \<Rightarrow> True
                     | Some file \<Rightarrow> file \<noteq> JNull \<and> jget file ''signed'' \<noteq> Some (JBool True))))"

text \<open>The claim's wording of an AMO rejection: \<open>valid !== true\<close>, whatever \<open>processed\<close>
  is.\<close>

definition amo_not_valid :: "fetch_result \<Rightarrow> bool" where
  "amo_not_valid rep =
     (case document rep of None \<Rightarrow> False | Some j \<Rightarrow> jget j ''valid'' \<noteq> Some (JBool True))"

text \<open>Edge (publish-edge.js): the \<open>status\<close> member of the document of a response with
  status 200.\<close>

definition edge_document :: "fetch_result \<Rightarrow> json option" where
  "edge_document rep =
     (case rep of
        Rejected reason \<Rightarrow> None
      | Responded r \<Rightarrow> if status r = 200 then json_body r else None)"

definition edge_rejected :: "fetch_result \<Rightarrow> bool" where
  "edge_rejected rep =
     (case edge_document rep of
        None \<Rightarrow> False
      | Some j \<Rightarrow> j \<noteq> JNull \<and> (jget j ''status'' = None \<or> jget j ''status'' = Some (JStr ''Failed'')))"

definition edge_pending :: "fetch_result \<Rightarrow> bool" where
  "edge_pending rep =
     (case edge_document rep of
        None \<Rightarrow> False
      | Some j \<Rightarrow> jget j ''status'' = Some (JStr ''InProgress''))"

definition edge_completed :: "fetch_result \<Rightarrow> bool" where
  "edge_completed rep =
     (case edge_document rep of
        None \<Rightarrow> False
      | Some j \<Rightarrow>
          jget j ''status'' \<noteq> None \<and> jget j ''status'' \<noteq> Some (JStr ''Failed'')
          \<and> jget j ''status'' \<noteq> Some (JStr ''InProgress''))"

text \<open>AMO (upload-firefox.js): the \<open>status\<close> of the \<open>file\<close> member.\<close>

definition lookup_rejected :: "fetch_result \<Rightarrow> bool" where
  "lookup_rejected rep =
     (case document rep of
        None \<Rightarrow> False
      | Some j \<Rightarrow>
          (case jget j ''file'' of
             None \<Rightarrow> False
           | Some file \<Rightarrow> jget file ''status'' = Some (JStr ''disabled'')))"

definition lookup_ready :: "fetch_result \<Rightarrow> bool" where
  "lookup_ready rep =
     (case document rep of
        None \<Rightarrow> False
      | Some j \<Rightarrow>
          (case jget j ''file'' of
             None \<Rightarrow> False
           | Some file \<Rightarrow>
               file \<noteq> JNull \<and> jget file ''status'' \<noteq> Some (JStr ''disabled'')
               \<and> jget file ''status'' \<noteq> Some (JStr ''unreviewed'')))"

subsection \<open>Traces\<close>

text \<open>The seconds slept in a sequence of events.\<close>

fun slept :: "event list \<Rightarrow> nat" where
  "slept [] = 0"
| "slept (Sleep n # es) = n + slept es"
| "slept (e # es) = slept es"

definition is_request :: "event \<Rightarrow> bool" where
  "is_request e = (case e of Fetch x \<Rightarrow> True | _ \<Rightarrow> False)"

definition is_question :: "event \<Rightarrow> bool" where
  "is_question e = (case e of Question q \<Rightarrow> True | _ \<Rightarrow> False)"

definition is_sleep :: "event \<Rightarrow> bool" where
  "is_sleep e = (case e of Sleep n \<Rightarrow> True | _ \<Rightarrow> False)"

text \<open>A computation only appends events, and every event it appends satisfies \<open>A\<close>.\<close>

definition emits :: "(event \<Rightarrow> bool) \<Rightarrow> 'a io \<Rightarrow> bool" where
  "emits A m = (\<forall>s. \<exists>es. trace (snd (m s)) = trace s @ es \<and> list_all A es)"

text \<open>From a state that satisfies \<open>P\<close> the computation returns in a state that satisfies
  \<open>Q\<close>, or ends (by \<open>process.exit\<close>, with the status, or by an exception) in a state that
  satisfies \<open>E\<close>.\<close>

definition triple ::
  "(state \<Rightarrow> bool) \<Rightarrow> 'a io \<Rightarrow> ('a \<Rightarrow> state \<Rightarrow> bool) \<Rightarrow> (nat option \<Rightarrow> state \<Rightarrow> bool) \<Rightarrow> bool" where
  "triple P m Q E =
     (\<forall>s. P s \<longrightarrow>
        (case m s of
           (Val x, s') \<Rightarrow> Q x s'
         | (Exit c, s') \<Rightarrow> E (Some c) s'
         | (Throw e, s') \<Rightarrow> E None s'))"

text \<open>\<open>A\<close> holds of every event that is not a request.\<close>

definition local_events :: "(event \<Rightarrow> bool) \<Rightarrow> bool" where
  "local_events A = (\<forall>e. (\<forall>x. e \<noteq> Fetch x) \<longrightarrow> A e)"

text \<open>What a cleanup job registered for the directory \<open>d\<close> does: it prints a line and runs
  one command (\<open>shellExec\<close> prints the command first when \<open>verbose\<close> is given).\<close>

definition removal :: "config \<Rightarrow> string \<Rightarrow> event list" where
  "removal cfg d =
     Log (''Removing '' @ d)
     # (if arg_truthy (verbose cfg) then [Log (''Executing: rm -rf '' @ dq @ d @ dq)] else [])
     @ [Exec (''rm -rf '' @ dq @ d @ dq)]"

definition is_removal :: "event \<Rightarrow> bool" where
  "is_removal e = (case e of Exec c \<Rightarrow> take 7 c = ''rm -rf '' | _ \<Rightarrow> False)"

text \<open>A name without line break (\<open>shellExec\<close> splits its text into lines).\<close>

definition one_line :: "string \<Rightarrow> bool" where
  "one_line d = list_all (\<lambda>c. \<not> is_nl c) d"

text \<open>How a script whose handler calls \<open>cleanDo\<close> ends, given how \<open>main\<close> ended. When
  \<open>main\<close> returned, every job of the queue is run once, in the order of registration, the
  queue is left empty, a returned message is printed, and the status is 0 with no message
  and 1 with one. When \<open>main\<close> called \<open>process.exit\<close> or was rejected, the run ends in the
  state \<open>main\<close> left.\<close>

definition after_main :: "config \<Rightarrow> string option result \<times> state \<Rightarrow> unit result \<times> state" where
  "after_main cfg outcome =
     (case outcome of
        (Val result, s) \<Rightarrow>
          (Exit (if result = None then 0 else 1),
           s\<lparr>cleanupJobs := [],
             trace := trace s @ concat (map (removal cfg) (cleanupJobs s))
                      @ (case result of None \<Rightarrow> [] | Some msg \<Rightarrow> [Log msg])\<rparr>)
      | (Exit c, s) \<Rightarrow> (Exit c, s)
      | (Throw e, s) \<Rightarrow> (Throw e, s))"

text \<open>A write to a file, and the command that commits.\<close>

definition is_write :: "event \<Rightarrow> bool" where
  "is_write e = (case e of WriteFile path content \<Rightarrow> True | _ \<Rightarrow> False)"

definition is_commit :: "event \<Rightarrow> bool" where
  "is_commit e = (case e of Exec c \<Rightarrow> take 10 c = ''git commit'' | _ \<Rightarrow> False)"

text \<open>The update recorded in a descriptor for an extension: \<open>addons[id].updates[0]\<close>.\<close>

definition first_of :: "json \<Rightarrow> jsval" where
  "first_of j =
     (case j of
        JArr xs \<Rightarrow> (case xs of [] \<Rightarrow> None | x # rest \<Rightarrow> Some x)
      | JObj kvs \<Rightarrow> map_of kvs ''0''
      | JStr s \<Rightarrow> (case s of [] \<Rightarrow> None | c # rest \<Rightarrow> Some (JStr [c]))
      | _ \<Rightarrow> None)"

definition recorded :: "json \<Rightarrow> string \<Rightarrow> jsval" where
  "recorded j ext =
     (case jget j ''addons'' of
        None \<Rightarrow> None
      | Some addons \<Rightarrow>
          (case jget addons ext of
             None \<Rightarrow> None
           | Some entry \<Rightarrow>
               (case jget entry ''updates'' of None \<Rightarrow> None | Some updates \<Rightarrow> first_of updates)))"

text \<open>The line that \<open>shellExec\<close> prints before a command when \<open>verbose\<close> is given, and the
  first command of the text that commits and pushes the descriptor.\<close>

definition vlog :: "config \<Rightarrow> string \<Rightarrow> event list" where
  "vlog cfg c = (if arg_truthy (verbose cfg) then [Log (''Executing: '' @ c)] else [])"

definition commit_line :: "string \<Rightarrow> string" where
  "commit_line path = ''git commit -m '' @ sq @ ''Make Firefox dev build auto-update'' @ sq
     @ '' '' @ dq @ path @ dq"


section \<open>Sample configurations and oracles\<close>

text \<open>An outside world in which the network is down, no file can be read, every command
  prints nothing and the operator answers yes. The examples below change it where they
  need an answer.\<close>

definition offline :: env where
  "offline =
     \<lparr>fetch_reply = (\<lambda>x k. Rejected ''TypeError: fetch failed''),
      exec_reply = (\<lambda>command k. Some []),
      read_reply = (\<lambda>path k. None),
      mkdtemp_reply = (\<lambda>k. ''/tmp/github-asset-'' @ show_nat k),
      answer = (\<lambda>message k. ''yes''),
      JSON_parse = (\<lambda>text. None),
      JSON_stringify = (\<lambda>j. ''{}''),
      today = (2025, 1, 1),
      valid_url = (\<lambda>url. True),
      dirname = (\<lambda>path. ''/tmp''),
      basename = (\<lambda>path. path)\<rparr>"

definition reply :: "nat \<Rightarrow> json option \<Rightarrow> fetch_result" where
  "reply code j =
     Responded \<lparr>status = code, statusText = [], location = Some ''op'', json_body = j,
                text_body = Some [], bytes_body = Some []\<rparr>"

definition no_args :: config where
  "no_args =
     \<lparr>storeid = Absent, productid = Absent, channel = Absent, updatepath = Absent,
      ghowner = Absent, ghrepo = Absent, ghtag = Absent, ghasset = Absent, keep = Absent,
      datebasedmajor = Absent, verbose = Absent\<rparr>"

text \<open>A store that answers every status check with a pending status.\<close>

definition pending_world :: env where
  "pending_world =
     offline\<lparr>fetch_reply :=
       (\<lambda>x k. reply 200 (Some (JObj [(''processed'', JBool False),
                                        (''status'', JStr ''InProgress'')])))\<rparr>"

text \<open>A store that answers pending to the first \<open>n\<close> requests to a site and \<open>rep\<close> from
  then on.\<close>

definition pending_doc :: json where
  "pending_doc =
     JObj [(''processed'', JBool False), (''valid'', JBool False),
           (''status'', JStr ''InProgress'')]"

definition pending_then :: "nat \<Rightarrow> fetch_result \<Rightarrow> env" where
  "pending_then n rep =
     offline\<lparr>fetch_reply := (\<lambda>x k. if k < n then reply 200 (Some pending_doc) else rep)\<rparr>"

text \<open>A store that answers pending once and then fails with status 500.\<close>

definition flaky_world :: env where
  "flaky_world = pending_then 1 (reply 500 None)"

text \<open>AMO accepts the submission, answers the first status check with a document that
  is neither processed nor valid yet, and the second with a signed file.\<close>

definition ready_doc :: json where
  "ready_doc =
     JObj [(''processed'', JBool True), (''valid'', JBool True),
           (''files'', JArr [JObj [(''signed'', JBool True),
                                   (''download_url'', JStr ''https://addons.mozilla.org/file.xpi'')]])]"

definition signing_world :: env where
  "signing_world =
     offline\<lparr>fetch_reply :=
       (\<lambda>x k. case x of
            AmoSubmit \<Rightarrow> reply 201 (Some (JObj [(''url'', JStr ''https://addons.mozilla.org/upload'')]))
          | AmoCheck \<Rightarrow> if k < 1 then reply 200 (Some pending_doc) else reply 200 (Some ready_doc)
          | _ \<Rightarrow> reply 200 (Some (JObj []))),
       read_reply := (\<lambda>path k. Some ''PK'')\<rparr>"

definition unlisted :: config where
  "unlisted = no_args\<lparr>storeid := Given ''ext@example'', channel := Given ''unlisted''\<rparr>"

text \<open>Stores that accept the submission and answer the status check with a rejection.\<close>

definition rejecting_world :: env where
  "rejecting_world =
     offline\<lparr>fetch_reply :=
       (\<lambda>x k. case x of
            AmoSubmit \<Rightarrow> reply 201 (Some (JObj [(''url'', JStr ''https://addons.mozilla.org/upload'')]))
          | AmoCheck \<Rightarrow> reply 200 (Some (JObj [(''processed'', JBool True), (''valid'', JBool False)]))
          | AmoLookup \<Rightarrow> reply 200 (Some (JObj [(''file'', JObj [(''status'', JStr ''disabled'')])]))
          | EdgeUpload \<Rightarrow> reply 202 None
          | EdgeStatus \<Rightarrow> reply 200 (Some (JObj [(''status'', JStr ''Failed'')]))
          | _ \<Rightarrow> reply 200 (Some (JObj []))),
       read_reply := (\<lambda>path k. Some ''PK'')\<rparr>"

definition manifest_1_0 :: jsval where
  "manifest_1_0 = Some (JObj [(''name'', JStr ''Foo''), (''version'', JStr ''1.0'')])"

text \<open>A release with one asset \<open>ext.zip\<close>, a package whose manifest names the extension
  \<open>Foo\<close> in version 1.0, a store listing titled \<open>Foo\<close>, an operator who answers yes, and
  an Edge store that accepts the upload, answers \<open>InProgress\<close> to the first three status
  checks and \<open>Succeeded\<close> from then on, and accepts the publication.\<close>

definition page :: "string \<Rightarrow> fetch_result" where
  "page t =
     Responded \<lparr>status = 200, statusText = [], location = None, json_body = None,
                text_body = Some t, bytes_body = None\<rparr>"

definition release_doc :: json where
  "release_doc =
     JObj [(''upload_url'', JStr ''https://uploads.github.com/assets{?name,label}''),
           (''assets'', JArr [JObj [(''name'', JStr ''ext.zip''),
                                    (''url'', JStr ''https://api.github.com/assets/1'')]])]"

definition edge_world :: env where
  "edge_world =
     offline\<lparr>fetch_reply :=
       (\<lambda>x k. case x of
            GhReleaseInfo \<Rightarrow> reply 200 (Some release_doc)
          | EdgeListing \<Rightarrow> page ''<html><title>Foo - Microsoft Edge Addons</title></html>''
          | CwsListing \<Rightarrow> page ''<html><title>Foo - Chrome Web Store</title></html>''
          | EdgeUpload \<Rightarrow> reply 202 None
          | EdgeStatus \<Rightarrow>
              if k < 3 then reply 200 (Some (JObj [(''status'', JStr ''InProgress'')]))
              else reply 200 (Some (JObj [(''status'', JStr ''Succeeded'')]))
          | EdgePublish \<Rightarrow> reply 202 None
          | _ \<Rightarrow> reply 200 (Some (JObj []))),
       exec_reply := (\<lambda>command k. Some ''manifest.json''),
       read_reply := (\<lambda>path k. Some ''{}''),
       JSON_parse := (\<lambda>text. manifest_1_0)\<rparr>"

definition release_1_0 :: config where
  "release_1_0 =
     no_args\<lparr>storeid := Given ''abcdef'', productid := Given ''0001'',
             ghowner := Given ''gorhill'', ghrepo := Given ''uBlock'', ghtag := Given ''1.0'',
             ghasset := Given ''ext''\<rparr>"

text \<open>The same world with a store listing titled \<open>Bar\<close>.\<close>

definition mismatch_world :: env where
  "mismatch_world =
     edge_world\<lparr>fetch_reply :=
       (\<lambda>x k. case x of
            EdgeListing \<Rightarrow> page ''<html><title>Bar - Microsoft Edge Addons</title></html>''
          | CwsListing \<Rightarrow> page ''<html><title>Bar - Chrome Web Store</title></html>''
          | _ \<Rightarrow> fetch_reply edge_world x k)\<rparr>"

text \<open>The world of the Edge scenario with an operator who answers no.\<close>

definition declining_world :: env where
  "declining_world = edge_world\<lparr>answer := (\<lambda>message k. ''no'')\<rparr>"

text \<open>A world in which every step of the Chromium and of the Firefox script succeeds: the
  listing is titled \<open>Foo\<close>, the Chrome store gives a token, accepts the upload and
  publishes, AMO accepts the submission and answers the first status check with a signed
  file, and GitHub accepts the signed package and the deletion of the unsigned one.\<close>

definition gecko_manifest :: jsval where
  "gecko_manifest =
     Some (JObj [(''name'', JStr ''Foo''), (''version'', JStr ''1.0''),
                 (''browser_specific_settings'', JObj [(''gecko'', JObj [])])])"

definition release_world :: env where
  "release_world =
     offline\<lparr>fetch_reply :=
       (\<lambda>x k. case x of
            GhReleaseInfo \<Rightarrow> reply 200 (Some release_doc)
          | CwsListing \<Rightarrow> page ''<html><title>Foo - Chrome Web Store</title></html>''
          | CwsAuth \<Rightarrow> reply 200 (Some (JObj [(''access_token'', JStr ''token'')]))
          | CwsUpload \<Rightarrow> reply 200 (Some (JObj [(''uploadState'', JStr ''SUCCESS'')]))
          | CwsPublish \<Rightarrow> reply 200 (Some (JObj [(''status'', JArr [JStr ''OK''])]))
          | AmoSubmit \<Rightarrow> reply 201 (Some (JObj [(''url'', JStr ''https://addons.mozilla.org/upload'')]))
          | AmoCheck \<Rightarrow> reply 200 (Some ready_doc)
          | _ \<Rightarrow> reply 200 (Some (JObj []))),
       exec_reply := (\<lambda>command k. Some ''manifest.json''),
       read_reply := (\<lambda>path k. Some ''{}''),
       JSON_parse := (\<lambda>text. gecko_manifest),
       dirname := (\<lambda>path. if path = ''manifest.json'' then ''.'' else ''/tmp/github-asset-0'')\<rparr>"

definition release_unlisted :: config where
  "release_unlisted = release_1_0\<lparr>channel := Given ''unlisted''\<rparr>"

text \<open>A descriptor that records version 1.0 of the extension \<open>abcdef\<close>, in a working tree
  with nothing staged. \<open>JSON.stringify\<close> is cut down to the two fields of the recorded
  update. In \<open>update_world\<close> git reports the file as modified after the write; in
  \<open>unchanged_world\<close> it reports nothing, as it does when the file written is the file
  already committed.\<close>

definition descriptor :: jsval where
  "descriptor =
     Some (JObj [(''addons'', JObj [(''abcdef'', JObj [(''updates'',
       JArr [JObj [(''version'', JStr ''1.0''),
                   (''update_link'',
                    JStr ''https://github.com/gorhill/uBlock/releases/download/1.0/ext.signed.xpi'')]])])])])"

definition update_world :: env where
  "update_world =
     offline\<lparr>exec_reply :=
         (\<lambda>command k. Some (if command = ''git diff --staged'' then []
                             else '' M dist/firefox/updates.json'')),
       read_reply := (\<lambda>path k. Some ''{}''),
       JSON_parse := (\<lambda>text. descriptor),
       JSON_stringify :=
         (\<lambda>j. case recorded j ''abcdef'' of
                None \<Rightarrow> ''{}''
              | Some u \<Rightarrow> to_string (jget u ''version'') @ '' '' @ to_string (jget u ''update_link''))\<rparr>"

definition unchanged_world :: env where
  "unchanged_world = update_world\<lparr>exec_reply := (\<lambda>command k. Some [])\<rparr>"

definition uBlock_1_0 :: details where
  "uBlock_1_0 =
     \<lparr>auth = ''Bearer token'', owner = Given ''gorhill'', repo = Given ''uBlock'',
      tag = Given ''1.0'', asset = Given ''ext''\<rparr>"

definition uBlock_1_1 :: details where
  "uBlock_1_1 = uBlock_1_0\<lparr>tag := Given ''1.1''\<rparr>"

definition manifest_1_1 :: jsval where
  "manifest_1_1 = Some (JObj [(''name'', JStr ''Foo''), (''version'', JStr ''1.1'')])"


section \<open>Properties\<close>

subsection \<open>Computations\<close>

lemma bnd_ret [simp]: "bnd (ret x) f = f x"
  by (rule ext) (simp add: bnd_def ret_def)

lemma bnd_process_exit [simp]: "bnd (process_exit c) f = process_exit c"
  by (rule ext) (simp add: bnd_def process_exit_def)

lemma bnd_throw [simp]: "bnd (throw e) f = throw e"
  by (rule ext) (simp add: bnd_def throw_def)

lemma thn_ret [simp]: "thn (ret x) n = n"
  by (simp add: thn_def)

lemma thn_process_exit [simp]: "thn (process_exit c) n = process_exit c"
  by (simp add: thn_def)

lemma thn_throw [simp]: "thn (throw e) n = throw e"
  by (simp add: thn_def)

lemma bnd_apply:
  "bnd m f s =
     (case fst (m s) of
        Val x \<Rightarrow> f x (snd (m s))
      | Exit c \<Rightarrow> (Exit c, snd (m s))
      | Throw e \<Rightarrow> (Throw e, snd (m s)))"
  by (cases "m s") (simp add: bnd_def split: result.splits)

lemma bnd_Val: "m s = (Val x, s') \<Longrightarrow> bnd m f s = f x s'"
  by (simp add: bnd_def)

lemma bnd_Exit: "m s = (Exit c, s') \<Longrightarrow> bnd m f s = (Exit c, s')"
  by (simp add: bnd_def)

lemma bnd_Throw: "m s = (Throw e, s') \<Longrightarrow> bnd m f s = (Throw e, s')"
  by (simp add: bnd_def)

lemma thn_Val: "m s = (Val x, s') \<Longrightarrow> thn m n s = n s'"
  by (simp add: thn_def bnd_def)

lemma thn_Exit: "m s = (Exit c, s') \<Longrightarrow> thn m n s = (Exit c, s')"
  by (simp add: thn_def bnd_def)

lemma thn_Throw: "m s = (Throw e, s') \<Longrightarrow> thn m n s = (Throw e, s')"
  by (simp add: thn_def bnd_def)

lemma emit_apply: "emit e s = (Val (), s\<lparr>trace := trace s @ [e]\<rparr>)"
  by (simp add: emit_def)

lemma console_log_apply: "console_log msg s = (Val (), s\<lparr>trace := trace s @ [Log msg]\<rparr>)"
  by (simp add: console_log_def emit_def)

lemma exit_with_apply: "exit_with msg s = (Exit 1, s\<lparr>trace := trace s @ [Log msg]\<rparr>)"
  by (simp add: exit_with_def thn_def bnd_def console_log_apply process_exit_def)


subsection \<open>fetchEx\<close>


lemma fetch_butlast:
  "fst (fetch env (if tagged args then butlast args else args) s) = Val (the_reply env args s)"
  apply (cases args rule: rev_cases)
   apply (simp add: fetch_def the_reply_def tagged_def)
  subgoal for ys y
    apply (cases ys)
     apply (auto simp: fetch_def the_reply_def tagged_def split: list.splits fetch_arg.splits)
    done
  done

lemma fetchEx_apply:
  "fetchEx env args s =
    (let s1 = snd (fetch env (if tagged args then butlast args else args) s) in
     case the_reply env args s of
       Rejected reason \<Rightarrow>
         (Val \<lparr>response = None, data = None\<rparr>, s1\<lparr>trace := trace s1 @ [Log reason]\<rparr>)
     | Responded r \<Rightarrow>
         if \<not> ok r then
           (Val \<lparr>response = Some r, data = None\<rparr>, s1\<lparr>trace := trace s1 @ [Log (statusText r)]\<rparr>)
         else if \<not> tagged args then (Val \<lparr>response = Some r, data = None\<rparr>, s1)
         else
           (case body_of args r of
              None \<Rightarrow> (Throw ''body cannot be read'', s1)
            | Some d \<Rightarrow> (Val \<lparr>response = Some r, data = Some d\<rparr>, s1)))"
  (is "_ = ?rhs")
proof -
  let ?fetchArgs = "if tagged args then butlast args else args"
  obtain s1 where f: "fetch env ?fetchArgs s = (Val (the_reply env args s), s1)"
    using fetch_butlast [of env args s] by (cases "fetch env ?fetchArgs s") auto
  have eq: "(if (if args = [] then None else Some (last args)) = Some (Str ''bytes'') \<or>
        (if args = [] then None else Some (last args)) = Some (Str ''json'') \<or>
        (if args = [] then None else Some (last args)) = Some (Str ''text'') then butlast args else args)
        = ?fetchArgs"
    by (auto simp: tagged_def)
  have "fetchEx env args s =
    (case the_reply env args s of
         Rejected reason \<Rightarrow>
           thn (console_log reason) (ret \<lparr>response = None, data = None\<rparr>) s1
         | Responded r \<Rightarrow>
             if \<not> ok r then
               thn (console_log (statusText r)) (ret \<lparr>response = Some r, data = None\<rparr>) s1
             else
               bnd (if (if args = [] then None else Some (last args)) = Some (Str ''bytes'') then read_body (bytes_body r) JStr
                    else if (if args = [] then None else Some (last args)) = Some (Str ''json'') then read_body (json_body r) id
                    else if (if args = [] then None else Some (last args)) = Some (Str ''text'') then read_body (text_body r) JStr
                    else ret None) (\<lambda>d.
               ret \<lparr>response = Some r, data = d\<rparr>) s1)"
    unfolding fetchEx_def Let_def eq
    by (simp add: bnd_def f split: fetch_result.splits)
  also have "\<dots> = ?rhs"
    unfolding Let_def f snd_conv
    by (cases "the_reply env args s")
       (auto simp: thn_def bnd_def console_log_apply ret_def read_body_def throw_def
          tagged_def body_of_def split: option.splits)
  finally show ?thesis .
qed

lemma fetchEx_tagged:
  assumes "t = ''bytes'' \<or> t = ''json'' \<or> t = ''text''"
  shows "fetchEx env [Resource x, Str t] s =
    (let s1 = s\<lparr>trace := trace s @ [Fetch x]\<rparr> in
     case fetch_reply env x (count_list (trace s) (Fetch x)) of
       Rejected reason \<Rightarrow>
         (Val \<lparr>response = None, data = None\<rparr>, s1\<lparr>trace := trace s @ [Fetch x, Log reason]\<rparr>)
     | Responded r \<Rightarrow>
         if \<not> ok r then
           (Val \<lparr>response = Some r, data = None\<rparr>,
            s1\<lparr>trace := trace s @ [Fetch x, Log (statusText r)]\<rparr>)
         else
           (case body_of [Resource x, Str t] r of
              None \<Rightarrow> (Throw ''body cannot be read'', s1)
            | Some d \<Rightarrow> (Val \<lparr>response = Some r, data = Some d\<rparr>, s1)))"
  using assms
  by (auto simp: fetchEx_apply Let_def tagged_def the_reply_def fetch_def
      split: fetch_result.splits option.splits)

lemma fetchEx_plain:
  "fetchEx env [Resource x] s =
    (let s1 = s\<lparr>trace := trace s @ [Fetch x]\<rparr> in
     case fetch_reply env x (count_list (trace s) (Fetch x)) of
       Rejected reason \<Rightarrow>
         (Val \<lparr>response = None, data = None\<rparr>, s1\<lparr>trace := trace s @ [Fetch x, Log reason]\<rparr>)
     | Responded r \<Rightarrow>
         if \<not> ok r then
           (Val \<lparr>response = Some r, data = None\<rparr>,
            s1\<lparr>trace := trace s @ [Fetch x, Log (statusText r)]\<rparr>)
         else (Val \<lparr>response = Some r, data = None\<rparr>, s1))"
  by (auto simp: fetchEx_apply Let_def tagged_def the_reply_def fetch_def
      split: fetch_result.splits option.splits)

text \<open>
  Claim C10, as the code supports it. \<open>fetchEx\<close> never ends the process, and it rejects
  exactly when the response is ok, a response type was given and the body cannot be read
  as that type. When \<open>fetch\<close> rejects, the result has neither \<open>response\<close> nor \<open>data\<close>;
  when the response is not ok, or no response type was given, it has the response and no
  data; and whenever \<open>fetchEx\<close> resolves, \<open>data\<close> is there exactly when the response was
  ok and a response type was given.
\<close>

theorem fetchEx_contract:
  "(the_reply env args s = Rejected reason \<longrightarrow>
      fst (fetchEx env args s) = Val \<lparr>response = None, data = None\<rparr>)
   \<and> (the_reply env args s = Responded r \<and> \<not> ok r \<longrightarrow>
      fst (fetchEx env args s) = Val \<lparr>response = Some r, data = None\<rparr>)
   \<and> (the_reply env args s = Responded r \<and> ok r \<and> \<not> tagged args \<longrightarrow>
      fst (fetchEx env args s) = Val \<lparr>response = Some r, data = None\<rparr>)
   \<and> (the_reply env args s = Responded r \<and> ok r \<and> tagged args \<and> readable args r \<longrightarrow>
      fst (fetchEx env args s) = Val \<lparr>response = Some r, data = body_of args r\<rparr>)
   \<and> ((\<exists>e. fst (fetchEx env args s) = Throw e) \<longleftrightarrow>
      (\<exists>r'. the_reply env args s = Responded r' \<and> ok r' \<and> tagged args \<and> \<not> readable args r'))
   \<and> (\<forall>c. fst (fetchEx env args s) \<noteq> Exit c)
   \<and> (\<forall>f. fst (fetchEx env args s) = Val f \<longrightarrow>
        (data f \<noteq> None \<longleftrightarrow>
         (\<exists>r'. the_reply env args s = Responded r' \<and> ok r' \<and> tagged args)))"
  by (cases "the_reply env args s")
     (auto simp: fetchEx_apply Let_def readable_def split: option.splits)

theorem fetchEx_contract_witness:
  "fst (fetchEx offline [Resource GhDelete] init) = Val \<lparr>response = None, data = None\<rparr>
   \<and> fst (fetchEx (offline\<lparr>fetch_reply := \<lambda>x k. reply 404 None\<rparr>) [Resource GhAsset, Str ''bytes''] init)
       = Val \<lparr>response = Some \<lparr>status = 404, statusText = [], location = Some ''op'',
               json_body = None, text_body = Some [], bytes_body = Some []\<rparr>, data = None\<rparr>
   \<and> fst (fetchEx (offline\<lparr>fetch_reply := \<lambda>x k. reply 200 (Some JNull)\<rparr>)
            [Resource GhReleaseInfo, Str ''json''] init)
       = Val \<lparr>response = Some \<lparr>status = 200, statusText = [], location = Some ''op'',
               json_body = Some JNull, text_body = Some [], bytes_body = Some []\<rparr>,
              data = Some JNull\<rparr>"
  using fetchEx_contract [of offline "[Resource GhDelete]" init "''TypeError: fetch failed''"]
    fetchEx_contract [of "offline\<lparr>fetch_reply := \<lambda>x k. reply 404 None\<rparr>"
      "[Resource GhAsset, Str ''bytes'']" init _
      "\<lparr>status = 404, statusText = [], location = Some ''op'',
               json_body = None, text_body = Some [], bytes_body = Some []\<rparr>"]
    fetchEx_contract [of "offline\<lparr>fetch_reply := \<lambda>x k. reply 200 (Some JNull)\<rparr>"
      "[Resource GhReleaseInfo, Str ''json'']" init _
      "\<lparr>status = 200, statusText = [], location = Some ''op'',
               json_body = Some JNull, text_body = Some [], bytes_body = Some []\<rparr>"]
  by (simp add: the_reply_def offline_def reply_def ok_def tagged_def readable_def body_of_def
      init_def)

text \<open>
  Claim C10 as stated fails: an ok response whose body is not JSON makes
  \<open>response.json()\<close> reject, and \<open>fetchEx\<close> rejects with it.
\<close>

theorem fetchEx_rejects_counterexample:
  "fst (fetchEx (offline\<lparr>fetch_reply := \<lambda>x k. reply 200 None\<rparr>)
          [Resource GhReleaseInfo, Str ''json''] init) = Throw ''body cannot be read''"
  by (simp add: fetchEx_tagged offline_def reply_def ok_def body_of_def init_def)


subsection \<open>One status check\<close>


lemma member_Some:
  "member (Some j) name = (if j = JNull then throw ''TypeError'' else ret (jget j name))"
  by (cases j) (simp_all add: member_def jget_def)

lemma member_None [simp]: "member None name = throw ''TypeError''"
  by (simp add: member_def)

lemma new_Request_apply:
  "new_Request env url s = (if valid_url env (to_string url) then (Val (), s) else (Throw ''TypeError'', s))"
  by (simp add: new_Request_def ret_def throw_def)

lemmas io_defs = thn_def bnd_def ret_def throw_def process_exit_def exit_with_apply
  console_log_apply the_response_def new_Request_apply

lemma body_of_json [simp]: "body_of [Resource x, Str ''json''] r = json_body r"
  by (simp add: body_of_def)

lemma body_of_bytes [simp]: "body_of [Resource x, Str ''bytes''] r = map_option JStr (bytes_body r)"
  by (simp add: body_of_def)

lemma body_of_text [simp]: "body_of [Resource x, Str ''text''] r = map_option JStr (text_body r)"
  by (simp add: body_of_def)

lemma amo_check_retry:
  "amo_check env url s = (Val None, s') \<longleftrightarrow>
     valid_url env (to_string url)
     \<and> amo_pending (fetch_reply env AmoCheck (count_list (trace s) (Fetch AmoCheck)))
     \<and> s' = s\<lparr>trace := trace s @ [Fetch AmoCheck]\<rparr>"
  by (auto simp: amo_check_def io_defs fetchEx_tagged member_Some Let_def
        amo_pending_def document_def first_file_def
      split: fetch_result.splits option.splits json.splits list.splits if_splits)


lemma amo_check_failed:
  assumes "fetch_reply env AmoCheck (count_list (trace s) (Fetch AmoCheck)) = Responded r"
    and "\<not> ok r" and "valid_url env (to_string url)"
  shows "amo_check env url s =
     (Exit 1, s\<lparr>trace := trace s @ [Fetch AmoCheck, Log (statusText r),
        Log (''Error: AMO signing failed -- server error '' @ show_nat (status r))]\<rparr>)"
  using assms by (simp add: amo_check_def io_defs fetchEx_tagged Let_def)

lemma amo_check_rejected:
  assumes "amo_rejected (fetch_reply env AmoCheck (count_list (trace s) (Fetch AmoCheck)))"
    and "valid_url env (to_string url)"
  shows "amo_check env url s =
     (Exit 1, s\<lparr>trace := trace s @ [Fetch AmoCheck, Log ''Error: AMO validation failed'']\<rparr>)"
  using assms
  by (auto simp: amo_check_def io_defs fetchEx_tagged member_Some Let_def
        amo_rejected_def document_def jget_def
      split: fetch_result.splits option.splits if_splits)

lemma amo_check_ready:
  "(\<exists>u. amo_check env url s = (Val (Some u), s')) \<longleftrightarrow>
     valid_url env (to_string url)
     \<and> amo_ready (fetch_reply env AmoCheck (count_list (trace s) (Fetch AmoCheck)))
     \<and> s' = s\<lparr>trace := trace s @ [Fetch AmoCheck]\<rparr>"
  by (auto simp: amo_check_def io_defs fetchEx_tagged member_Some Let_def
        amo_ready_def document_def first_file_def jget_def
      split: fetch_result.splits option.splits json.splits list.splits if_splits)

lemma amo_check_trace:
  "\<exists>es. trace (snd (amo_check env url s)) = trace s @ es
        \<and> (es = [] \<or> (\<exists>logs. es = Fetch AmoCheck # logs \<and> (\<forall>e\<in>set logs. \<exists>m. e = Log m)))"
  by (auto simp: amo_check_def io_defs fetchEx_tagged member_Some Let_def
      split: fetch_result.splits option.splits json.splits list.splits if_splits)

lemma edge_check_retry:
  "edge_check env s = (Val None, s') \<longleftrightarrow>
     edge_pending (fetch_reply env EdgeStatus (count_list (trace s) (Fetch EdgeStatus)))
     \<and> s' = s\<lparr>trace := trace s @ [Fetch EdgeStatus]\<rparr>"
  by (auto simp: edge_check_def io_defs fetchEx_tagged member_Some Let_def
        edge_pending_def edge_document_def jget_def ok_def
      split: fetch_result.splits option.splits if_splits)

lemma edge_check_failed:
  assumes "fetch_reply env EdgeStatus (count_list (trace s) (Fetch EdgeStatus)) = Responded r"
    and "\<not> ok r"
  shows "edge_check env s =
     (Exit 1, s\<lparr>trace := trace s @ [Fetch EdgeStatus, Log (statusText r),
        Log (''Upload status check failed -- server error '' @ show_nat (status r))]\<rparr>)"
  using assms by (auto simp: edge_check_def io_defs fetchEx_tagged Let_def ok_def)

lemma edge_check_rejected:
  assumes "edge_rejected (fetch_reply env EdgeStatus (count_list (trace s) (Fetch EdgeStatus)))"
  shows "\<exists>msg. edge_check env s =
     (Exit 1, s\<lparr>trace := trace s @ [Fetch EdgeStatus, Log msg]\<rparr>)"
  using assms
  by (auto simp: edge_check_def io_defs fetchEx_tagged member_Some Let_def
        edge_rejected_def edge_document_def ok_def
      split: fetch_result.splits option.splits if_splits)

lemma edge_check_completed:
  "edge_check env s = (Val (Some ()), s') \<longleftrightarrow>
     edge_completed (fetch_reply env EdgeStatus (count_list (trace s) (Fetch EdgeStatus)))
     \<and> s' = s\<lparr>trace := trace s @ [Fetch EdgeStatus, Log ''Package ready to be published.'']\<rparr>"
  by (auto simp: edge_check_def io_defs fetchEx_tagged member_Some Let_def
        edge_completed_def edge_document_def jget_def ok_def
      split: fetch_result.splits option.splits if_splits)

lemma edge_check_trace:
  "\<exists>logs. trace (snd (edge_check env s)) = trace s @ Fetch EdgeStatus # logs
        \<and> (\<forall>e\<in>set logs. \<exists>m. e = Log m)"
  by (auto simp: edge_check_def io_defs fetchEx_tagged member_Some Let_def
      split: fetch_result.splits option.splits if_splits)


subsection \<open>The poll loop\<close>


lemma poll_loop_step:
  "poll_loop seconds msg check countdown s =
     (if countdown - 1 \<le> 0
      then (Exit 1, s\<lparr>trace := trace s @ [Sleep seconds, Log msg]\<rparr>)
      else
        case check (s\<lparr>trace := trace s @ [Sleep seconds]\<rparr>) of
          (Val None, s2) \<Rightarrow> poll_loop seconds msg check (countdown - 1) s2
        | (Val (Some x), s2) \<Rightarrow> (Val x, s2)
        | (Exit c, s2) \<Rightarrow> (Exit c, s2)
        | (Throw e, s2) \<Rightarrow> (Throw e, s2))"
  by (subst poll_loop.simps) (simp add: Let_def sleep_def emit_def io_defs)

lemma count_list_append [simp]: "count_list (xs @ ys) x = count_list xs x + count_list ys x"
  by (induction xs) auto

lemma slept_append [simp]: "slept (xs @ ys) = slept xs + slept ys"
  by (induction xs rule: slept.induct) auto

lemma slept_logs: "\<forall>e\<in>set es. \<exists>m. e = Log m \<Longrightarrow> slept es = 0"
  by (induction es rule: slept.induct) auto

lemma count_logs: "\<forall>e\<in>set es. \<exists>m. e = Log m \<Longrightarrow> count_list es (Fetch x) = 0"
  by (induction es) auto

lemma poll_loop_induct [case_names step]:
  fixes P :: "nat \<Rightarrow> string \<Rightarrow> 'a option io \<Rightarrow> int \<Rightarrow> state \<Rightarrow> bool"
  assumes "\<And>seconds msg check countdown s.
     (\<And>s2. \<not> countdown - 1 \<le> 0 \<Longrightarrow>
        check (s\<lparr>trace := trace s @ [Sleep seconds]\<rparr>) = (Val None, s2) \<Longrightarrow>
        P seconds msg check (countdown - 1) s2) \<Longrightarrow>
     P seconds msg check countdown s"
  shows "P seconds msg check countdown s"
proof (induction seconds msg check countdown s rule: poll_loop.induct)
  case (1 seconds msg check countdown s)
  show ?case
  proof (rule assms)
    fix s2
    assume "\<not> countdown - 1 \<le> 0"
      and "check (s\<lparr>trace := trace s @ [Sleep seconds]\<rparr>) = (Val None, s2)"
    then show "P seconds msg check (countdown - 1) s2"
      by (intro "1.IH" [of _ _ "Val None" s2 None]) (auto simp: sleep_def emit_def)
  qed
qed

lemma poll_loop_budget:
  assumes check: "\<And>s. \<exists>es. trace (snd (check s)) = trace s @ es \<and> slept es = 0
                       \<and> count_list es (Fetch x) \<le> 1"
  shows "\<exists>es. trace (snd (poll_loop seconds msg check countdown s)) = trace s @ es
              \<and> slept es \<le> seconds * nat (max 1 countdown)
              \<and> count_list es (Fetch x) < nat (max 1 countdown)"
  using check
proof (induction seconds msg check countdown s rule: poll_loop_induct)
  case (step seconds msg check countdown s)
  let ?s1 = "s\<lparr>trace := trace s @ [Sleep seconds]\<rparr>"
  show ?case
  proof (cases "countdown - 1 \<le> 0")
    case True
    then show ?thesis
      by (subst poll_loop_step) simp
  next
    case False
    obtain r s2 where c: "check ?s1 = (r, s2)" by (cases "check ?s1")
    from step.prems [of ?s1] obtain es1 where
      "trace (snd (check ?s1)) = trace ?s1 @ es1" and es1: "slept es1 = 0" "count_list es1 (Fetch x) \<le> 1"
      by blast
    with c have tr: "trace s2 = trace s @ Sleep seconds # es1" by simp
    show ?thesis
    proof (cases "r = Val None")
      case True
      with step.IH [OF False _ step.prems, of s2] c
      obtain es where es: "trace (snd (poll_loop seconds msg check (countdown - 1) s2)) = trace s2 @ es"
        "slept es \<le> seconds * nat (max 1 (countdown - 1))"
        "count_list es (Fetch x) < nat (max 1 (countdown - 1))" by blast
      from False have n: "nat (max 1 countdown) = Suc (nat (max 1 (countdown - 1)))"
        by simp
      from es(2) have "seconds + slept es \<le> seconds * nat (max 1 countdown)"
        unfolding n by simp
      moreover from es(3) have "Suc (count_list es (Fetch x)) < nat (max 1 countdown)"
        unfolding n by simp
      ultimately show ?thesis using False c True es(1) es1 tr
        by (subst poll_loop_step) (auto intro!: exI [of _ "Sleep seconds # es1 @ es"])
    next
      case other: False
      have "seconds \<le> seconds * nat (max 1 countdown)" using False by (cases "nat countdown") auto
      moreover have "1 < nat (max 1 countdown)" using False by simp
      ultimately show ?thesis using False c other es1 tr
        by (subst poll_loop_step)
           (auto intro!: exI [of _ "Sleep seconds # es1"] split: result.splits option.splits)
    qed
  qed
qed

lemma poll_loop_all_pending:
  assumes check: "\<And>s. fst (check s) = Val None"
  shows "fst (poll_loop seconds msg check countdown s) = Exit 1
         \<and> last (trace (snd (poll_loop seconds msg check countdown s))) = Log msg"
  using check
proof (induction seconds msg check countdown s rule: poll_loop_induct)
  case (step seconds msg check countdown s)
  let ?s1 = "s\<lparr>trace := trace s @ [Sleep seconds]\<rparr>"
  show ?case
  proof (cases "countdown - 1 \<le> 0")
    case True
    then show ?thesis by (subst (1 2) poll_loop_step) simp
  next
    case False
    obtain r s2 where c: "check ?s1 = (r, s2)" by (cases "check ?s1")
    with step.prems [of ?s1] have r: "r = Val None" by simp
    from step.IH [OF False _ step.prems, of s2] c r False show ?thesis
      by (subst (1 2) poll_loop_step) simp
  qed
qed

text \<open>Every check but the last one of a run of the loop asked for a retry, and a check
  that makes the check function end the process is the last one.\<close>

lemma poll_loop_checks:
  assumes check: "\<And>s. \<exists>es. trace (snd (check s)) = trace s @ es
        \<and> count_list es (Fetch x) \<le> 1
        \<and> (fst (check s) = Val None \<longrightarrow>
              count_list es (Fetch x) = 1 \<and> retry (count_list (trace s) (Fetch x)))
        \<and> (count_list es (Fetch x) = 1 \<and> bad (count_list (trace s) (Fetch x)) \<longrightarrow>
              fst (check s) = Exit 1)"
    and k: "count_list (trace s) (Fetch x) \<le> k"
      "k < count_list (trace (snd (poll_loop seconds msg check countdown s))) (Fetch x)"
  shows "(bad k \<longrightarrow> fst (poll_loop seconds msg check countdown s) = Exit 1
            \<and> count_list (trace (snd (poll_loop seconds msg check countdown s))) (Fetch x) = k + 1)
       \<and> (k + 1 < count_list (trace (snd (poll_loop seconds msg check countdown s))) (Fetch x)
            \<longrightarrow> retry k)"
  using check k
proof (induction seconds msg check countdown s rule: poll_loop_induct)
  case (step seconds msg check countdown s)
  let ?s1 = "s\<lparr>trace := trace s @ [Sleep seconds]\<rparr>"
  let ?n = "count_list (trace s) (Fetch x)"
  show ?case
  proof (cases "countdown - 1 \<le> 0")
    case True
    with step.prems(2,3) show ?thesis by (subst (asm) poll_loop_step) simp
  next
    case False
    obtain r s2 where c: "check ?s1 = (r, s2)" by (cases "check ?s1")
    from step.prems(1) [of ?s1] c obtain es1 where
      tr: "trace s2 = trace s @ Sleep seconds # es1"
      and le: "count_list es1 (Fetch x) \<le> 1"
      and none: "r = Val None \<Longrightarrow> count_list es1 (Fetch x) = 1 \<and> retry ?n"
      and bad: "count_list es1 (Fetch x) = 1 \<Longrightarrow> bad ?n \<Longrightarrow> r = Exit 1"
      by auto
    show ?thesis
    proof (cases "r = Val None")
      case True
      with c False have eq: "poll_loop seconds msg check countdown s
          = poll_loop seconds msg check (countdown - 1) s2"
        by (subst poll_loop_step) simp
      from none [OF True] tr have n2: "count_list (trace s2) (Fetch x) = ?n + 1" by simp
      show ?thesis
      proof (cases "k = ?n")
        case k: True
        from none [OF True] bad True have "\<not> bad ?n" by auto
        with k none [OF True] show ?thesis by simp
      next
        case k: False
        with step.prems(2) n2 have "count_list (trace s2) (Fetch x) \<le> k" by simp
        from step.IH [OF False _ step.prems(1) this] c True step.prems(3) show ?thesis
          by (simp add: eq)
      qed
    next
      case other: False
      with c False have eq: "snd (poll_loop seconds msg check countdown s) = s2"
        and ex: "r = Exit 1 \<Longrightarrow> fst (poll_loop seconds msg check countdown s) = Exit 1"
        by (subst poll_loop_step; auto split: result.splits option.splits)+
      from step.prems(2,3) tr le have "k = ?n" "count_list es1 (Fetch x) = 1"
        by (simp_all add: eq)
      with bad ex tr show ?thesis by (auto simp: eq)
    qed
  qed
qed


subsection \<open>Termination of the poll loops within their budget\<close>


lemma amo_check_quiet:
  "\<exists>es. trace (snd (amo_check env url s)) = trace s @ es \<and> slept es = 0
        \<and> count_list es (Fetch AmoCheck) \<le> 1"
proof -
  from amo_check_trace [of env url s] obtain es where
    "trace (snd (amo_check env url s)) = trace s @ es"
    "es = [] \<or> (\<exists>logs. es = Fetch AmoCheck # logs \<and> (\<forall>e\<in>set logs. \<exists>m. e = Log m))"
    by blast
  then show ?thesis by (auto simp: slept_logs count_logs)
qed

lemma edge_check_quiet:
  "\<exists>es. trace (snd (edge_check env s)) = trace s @ es \<and> slept es = 0
        \<and> count_list es (Fetch EdgeStatus) \<le> 1"
proof -
  from edge_check_trace [of env s] obtain logs where
    "trace (snd (edge_check env s)) = trace s @ Fetch EdgeStatus # logs"
    "\<forall>e\<in>set logs. \<exists>m. e = Log m"
    by blast
  then show ?thesis by (auto simp: slept_logs count_logs)
qed

lemma amo_poll_eq:
  "amo_poll env url = poll_loop 60 ''Error: AMO signing timed out'' (amo_check env url) 10"
  by (simp add: amo_poll_def)

lemma edge_poll_eq:
  "edge_poll env = poll_loop 60 ''Error: Microsoft store timed out'' (edge_check env) 15"
  by (simp add: edge_poll_def)




subsection \<open>Failed checks and retries\<close>


lemma amo_check_step:
  "\<exists>es. trace (snd (amo_check env url s)) = trace s @ es
     \<and> count_list es (Fetch AmoCheck) \<le> 1
     \<and> (fst (amo_check env url s) = Val None \<longrightarrow>
          count_list es (Fetch AmoCheck) = 1
          \<and> amo_pending (fetch_reply env AmoCheck (count_list (trace s) (Fetch AmoCheck))))
     \<and> (count_list es (Fetch AmoCheck) = 1
          \<and> (http_failed (fetch_reply env AmoCheck (count_list (trace s) (Fetch AmoCheck)))
             \<or> amo_rejected (fetch_reply env AmoCheck (count_list (trace s) (Fetch AmoCheck))))
          \<longrightarrow> fst (amo_check env url s) = Exit 1)"
proof (cases "valid_url env (to_string url)")
  case False
  then have "amo_check env url s = (Throw ''TypeError'', s)"
    by (simp add: amo_check_def io_defs)
  then show ?thesis by simp
next
  case True
  let ?rep = "fetch_reply env AmoCheck (count_list (trace s) (Fetch AmoCheck))"
  from amo_check_trace [of env url s] obtain es where
    es: "trace (snd (amo_check env url s)) = trace s @ es"
    "es = [] \<or> (\<exists>logs. es = Fetch AmoCheck # logs \<and> (\<forall>e\<in>set logs. \<exists>m. e = Log m))"
    by blast
  have 1: "count_list es (Fetch AmoCheck) \<le> 1" using es(2) by (auto simp: count_logs)
  have 2: "count_list es (Fetch AmoCheck) = 1 \<and> amo_pending ?rep"
    if "fst (amo_check env url s) = Val None"
  proof -
    from that obtain s' where "amo_check env url s = (Val None, s')"
      by (cases "amo_check env url s") auto
    with es(1) show ?thesis by (auto simp: amo_check_retry)
  qed
  have 3: "fst (amo_check env url s) = Exit 1" if "http_failed ?rep \<or> amo_rejected ?rep"
    using that True amo_check_failed [of env s _ url] amo_check_rejected [of env s url]
    by (auto simp: http_failed_def split: fetch_result.splits)
  from es(1) 1 2 3 show ?thesis by blast
qed

lemma edge_check_step:
  "\<exists>es. trace (snd (edge_check env s)) = trace s @ es
     \<and> count_list es (Fetch EdgeStatus) \<le> 1
     \<and> (fst (edge_check env s) = Val None \<longrightarrow>
          count_list es (Fetch EdgeStatus) = 1
          \<and> edge_pending (fetch_reply env EdgeStatus (count_list (trace s) (Fetch EdgeStatus))))
     \<and> (count_list es (Fetch EdgeStatus) = 1
          \<and> (http_failed (fetch_reply env EdgeStatus (count_list (trace s) (Fetch EdgeStatus)))
             \<or> edge_rejected (fetch_reply env EdgeStatus (count_list (trace s) (Fetch EdgeStatus))))
          \<longrightarrow> fst (edge_check env s) = Exit 1)"
proof -
  let ?rep = "fetch_reply env EdgeStatus (count_list (trace s) (Fetch EdgeStatus))"
  from edge_check_trace [of env s] obtain logs where
    es: "trace (snd (edge_check env s)) = trace s @ Fetch EdgeStatus # logs"
    "\<forall>e\<in>set logs. \<exists>m. e = Log m"
    by blast
  have 1: "count_list (Fetch EdgeStatus # logs) (Fetch EdgeStatus) = 1"
    using es(2) by (simp add: count_logs)
  have 2: "edge_pending ?rep" if "fst (edge_check env s) = Val None"
  proof -
    from that obtain s' where "edge_check env s = (Val None, s')"
      by (cases "edge_check env s") auto
    then show ?thesis by (simp add: edge_check_retry)
  qed
  have 3: "fst (edge_check env s) = Exit 1" if "http_failed ?rep \<or> edge_rejected ?rep"
    using that edge_check_failed [of env s] edge_check_rejected [of env s]
    by (auto simp: http_failed_def split: fetch_result.splits)
  from es(1) 1 2 3 show ?thesis by (intro exI [of _ "Fetch EdgeStatus # logs"]) simp
qed

text \<open>
  Claim C4. In a run of either loop, take any status check that the run issues, the
  \<open>k\<close>-th one to that store. If its response is not successful, the run ends the process
  with status 1 and this check is the last one it issues. If it is not the last one, that
  is, the loop retried after it, then its status was a pending one.
\<close>

theorem failed_check_is_fatal_and_only_pending_retries:
  "(count_list (trace s) (Fetch AmoCheck) \<le> k
      \<and> k < count_list (trace (snd (amo_poll env url s))) (Fetch AmoCheck) \<longrightarrow>
      (http_failed (fetch_reply env AmoCheck k) \<longrightarrow>
         fst (amo_poll env url s) = Exit 1
         \<and> count_list (trace (snd (amo_poll env url s))) (Fetch AmoCheck) = k + 1)
      \<and> (k + 1 < count_list (trace (snd (amo_poll env url s))) (Fetch AmoCheck) \<longrightarrow>
         amo_pending (fetch_reply env AmoCheck k)))
   \<and> (count_list (trace s) (Fetch EdgeStatus) \<le> k
      \<and> k < count_list (trace (snd (edge_poll env s))) (Fetch EdgeStatus) \<longrightarrow>
      (http_failed (fetch_reply env EdgeStatus k) \<longrightarrow>
         fst (edge_poll env s) = Exit 1
         \<and> count_list (trace (snd (edge_poll env s))) (Fetch EdgeStatus) = k + 1)
      \<and> (k + 1 < count_list (trace (snd (edge_poll env s))) (Fetch EdgeStatus) \<longrightarrow>
         edge_pending (fetch_reply env EdgeStatus k)))"
proof (intro conjI impI; (elim conjE)?)
  assume k: "count_list (trace s) (Fetch AmoCheck) \<le> k"
    "k < count_list (trace (snd (amo_poll env url s))) (Fetch AmoCheck)"
  note * = poll_loop_checks [of "amo_check env url" AmoCheck
      "\<lambda>k. amo_pending (fetch_reply env AmoCheck k)"
      "\<lambda>k. http_failed (fetch_reply env AmoCheck k) \<or> amo_rejected (fetch_reply env AmoCheck k)"
      s k 60 "''Error: AMO signing timed out''" 10, OF amo_check_step k(1), folded amo_poll_eq, OF k(2)]
  { assume "http_failed (fetch_reply env AmoCheck k)"
    with * show "fst (amo_poll env url s) = Exit 1"
      and "count_list (trace (snd (amo_poll env url s))) (Fetch AmoCheck) = k + 1" by simp_all }
  { assume "k + 1 < count_list (trace (snd (amo_poll env url s))) (Fetch AmoCheck)"
    with * show "amo_pending (fetch_reply env AmoCheck k)" by simp }
next
  assume k: "count_list (trace s) (Fetch EdgeStatus) \<le> k"
    "k < count_list (trace (snd (edge_poll env s))) (Fetch EdgeStatus)"
  note * = poll_loop_checks [of "edge_check env" EdgeStatus
      "\<lambda>k. edge_pending (fetch_reply env EdgeStatus k)"
      "\<lambda>k. http_failed (fetch_reply env EdgeStatus k) \<or> edge_rejected (fetch_reply env EdgeStatus k)"
      s k 60 "''Error: Microsoft store timed out''" 15, OF edge_check_step k(1), folded edge_poll_eq, OF k(2)]
  { assume "http_failed (fetch_reply env EdgeStatus k)"
    with * show "fst (edge_poll env s) = Exit 1"
      and "count_list (trace (snd (edge_poll env s))) (Fetch EdgeStatus) = k + 1" by simp_all }
  { assume "k + 1 < count_list (trace (snd (edge_poll env s))) (Fetch EdgeStatus)"
    with * show "edge_pending (fetch_reply env EdgeStatus k)" by simp }
qed

lemma pending_then_simps [simp]:
  "fetch_reply (pending_then n rep) x k = (if k < n then reply 200 (Some pending_doc) else rep)"
  "valid_url (pending_then n rep) u"
  by (simp_all add: pending_then_def offline_def)

lemma pending_doc_pending [simp]:
  "amo_pending (reply 200 (Some pending_doc))" "edge_pending (reply 200 (Some pending_doc))"
  by (simp_all add: pending_doc_def reply_def amo_pending_def edge_pending_def document_def
      edge_document_def ok_def jget_def)

lemma failed_500 [simp]: "http_failed (reply 500 None)"
  "\<not> amo_pending (reply 500 None)" "\<not> edge_pending (reply 500 None)"
  by (simp_all add: http_failed_def reply_def ok_def amo_pending_def edge_pending_def document_def
      edge_document_def)

lemma flaky_world_simps [simp]:
  "fetch_reply flaky_world x k = (if k < 1 then reply 200 (Some pending_doc) else reply 500 None)"
  "valid_url flaky_world u"
  by (simp_all add: flaky_world_def)

lemma init_simps [simp]: "trace init = []" "cleanupJobs init = []" "secrets init = []"
  by (simp_all add: init_def)

lemma amo_check_pending:
  assumes "amo_pending (fetch_reply env AmoCheck (count_list (trace s) (Fetch AmoCheck)))"
    and "valid_url env (to_string url)"
  shows "amo_check env url s = (Val None, s\<lparr>trace := trace s @ [Fetch AmoCheck]\<rparr>)"
  using assms by (simp add: amo_check_retry)

lemma edge_check_pending:
  assumes "edge_pending (fetch_reply env EdgeStatus (count_list (trace s) (Fetch EdgeStatus)))"
  shows "edge_check env s = (Val None, s\<lparr>trace := trace s @ [Fetch EdgeStatus]\<rparr>)"
  using assms by (simp add: edge_check_retry)

lemma edge_check_done:
  assumes "edge_completed (fetch_reply env EdgeStatus (count_list (trace s) (Fetch EdgeStatus)))"
  shows "edge_check env s =
    (Val (Some ()), s\<lparr>trace := trace s @ [Fetch EdgeStatus, Log ''Package ready to be published.'']\<rparr>)"
  using assms by (simp add: edge_check_completed)

lemma reply_500:
  "reply 500 None = Responded \<lparr>status = 500, statusText = [], location = Some ''op'',
     json_body = None, text_body = Some [], bytes_body = Some []\<rparr>"
  by (simp add: reply_def)

lemma amo_run_flaky:
  "amo_poll flaky_world (Some (JStr ''u'')) init
   = (Exit 1, init\<lparr>trace := [Sleep 60, Fetch AmoCheck, Sleep 60, Fetch AmoCheck, Log [],
        Log ''Error: AMO signing failed -- server error 500'']\<rparr>)"
  by (simp add: amo_poll_eq poll_loop_step amo_check_pending amo_check_failed init_def ok_def
      show_nat.simps reply_500)

lemma edge_run_flaky:
  "edge_poll flaky_world init
   = (Exit 1, init\<lparr>trace := [Sleep 60, Fetch EdgeStatus, Sleep 60, Fetch EdgeStatus, Log [],
        Log ''Upload status check failed -- server error 500'']\<rparr>)"
  by (simp add: edge_poll_eq poll_loop_step edge_check_pending edge_check_failed init_def ok_def
      show_nat.simps reply_500)

theorem failed_check_is_fatal_and_only_pending_retries_witness:
  "fst (amo_poll flaky_world (Some (JStr ''u'')) init) = Exit 1
   \<and> count_list (trace (snd (amo_poll flaky_world (Some (JStr ''u'')) init))) (Fetch AmoCheck) = 2
   \<and> amo_pending (fetch_reply flaky_world AmoCheck 0)
   \<and> http_failed (fetch_reply flaky_world AmoCheck 1)
   \<and> fst (edge_poll flaky_world init) = Exit 1
   \<and> count_list (trace (snd (edge_poll flaky_world init))) (Fetch EdgeStatus) = 2
   \<and> edge_pending (fetch_reply flaky_world EdgeStatus 0)
   \<and> http_failed (fetch_reply flaky_world EdgeStatus 1)"
  using failed_check_is_fatal_and_only_pending_retries [of init 0 flaky_world "Some (JStr ''u'')"]
    failed_check_is_fatal_and_only_pending_retries [of init 1 flaky_world "Some (JStr ''u'')"]
  by (simp add: amo_run_flaky edge_run_flaky)


subsection \<open>What a computation can emit\<close>


named_theorems emits_intros

lemma emitsI:
  assumes "\<And>s. \<exists>es. trace (snd (m s)) = trace s @ es \<and> list_all A es"
  shows "emits A m"
  using assms by (simp add: emits_def)

lemma emitsD:
  assumes "emits A m"
  obtains es where "trace (snd (m s)) = trace s @ es" "list_all A es"
  using assms unfolding emits_def by blast

lemma emits_ret [emits_intros]: "emits A (ret x)"
  by (simp add: emits_def ret_def)

lemma emits_process_exit [emits_intros]: "emits A (process_exit c)"
  by (simp add: emits_def process_exit_def)

lemma emits_throw [emits_intros]: "emits A (throw e)"
  by (simp add: emits_def throw_def)

lemma emits_emit [emits_intros]: "A e \<Longrightarrow> emits A (emit e)"
  by (simp add: emits_def emit_def)

lemma emits_bnd [emits_intros]:
  assumes "emits A m" and "\<And>x. emits A (f x)"
  shows "emits A (bnd m f)"
proof (rule emitsI)
  fix s
  from assms(1) obtain es where es: "trace (snd (m s)) = trace s @ es" "list_all A es"
    by (rule emitsD)
  show "\<exists>es. trace (snd (bnd m f s)) = trace s @ es \<and> list_all A es"
  proof (cases "fst (m s)")
    case (Val x)
    from assms(2) [of x] obtain es' where
      "trace (snd (f x (snd (m s)))) = trace (snd (m s)) @ es'" "list_all A es'"
      by (rule emitsD)
    with es Val show ?thesis
      by (intro exI [of _ "es @ es'"]) (simp add: bnd_apply)
  next
    case (Exit c)
    with es show ?thesis by (intro exI [of _ es]) (simp add: bnd_apply)
  next
    case (Throw e)
    with es show ?thesis by (intro exI [of _ es]) (simp add: bnd_apply)
  qed
qed

lemma emits_thn [emits_intros]: "emits A m \<Longrightarrow> emits A n \<Longrightarrow> emits A (thn m n)"
  by (simp add: thn_def emits_bnd)

lemma emits_detached [emits_intros]: "emits A m \<Longrightarrow> emits A (detached m)"
  by (simp add: emits_def detached_def)

lemma emits_if [emits_intros]:
  "(c \<Longrightarrow> emits A a) \<Longrightarrow> (\<not> c \<Longrightarrow> emits A b) \<Longrightarrow> emits A (if c then a else b)"
  by simp

lemma emits_let [emits_intros]: "emits A (f v) \<Longrightarrow> emits A (let x = v in f x)"
  by simp

lemma emits_case_option [emits_intros]:
  "(v = None \<Longrightarrow> emits A a) \<Longrightarrow> (\<And>x. v = Some x \<Longrightarrow> emits A (b x))
   \<Longrightarrow> emits A (case v of None \<Rightarrow> a | Some x \<Rightarrow> b x)"
  by (cases v) simp_all

lemma emits_case_list [emits_intros]:
  "(v = [] \<Longrightarrow> emits A a) \<Longrightarrow> (\<And>x xs. v = x # xs \<Longrightarrow> emits A (b x xs))
   \<Longrightarrow> emits A (case v of [] \<Rightarrow> a | x # xs \<Rightarrow> b x xs)"
  by (cases v) simp_all

lemma emits_case_prod [emits_intros]:
  "(\<And>x y. v = (x, y) \<Longrightarrow> emits A (f x y)) \<Longrightarrow> emits A (case v of (x, y) \<Rightarrow> f x y)"
  by (cases v) simp

lemma emits_console_log [emits_intros]: "A (Log msg) \<Longrightarrow> emits A (console_log msg)"
  by (simp add: console_log_def emits_emit)

lemma emits_console_error [emits_intros]: "A (LogError msg) \<Longrightarrow> emits A (console_error msg)"
  by (simp add: console_error_def emits_emit)

lemma emits_exit_with [emits_intros]: "A (Log msg) \<Longrightarrow> emits A (exit_with msg)"
  by (simp add: exit_with_def emits_intros)

lemma emits_error_exit [emits_intros]: "A (LogError msg) \<Longrightarrow> emits A (error_exit msg)"
  by (simp add: error_exit_def emits_intros)

lemma emits_sleep [emits_intros]: "A (Sleep n) \<Longrightarrow> emits A (sleep n)"
  by (simp add: sleep_def emits_emit)

lemma emits_writeFile [emits_intros]: "A (WriteFile path content) \<Longrightarrow> emits A (writeFile path content)"
  by (simp add: writeFile_def emits_emit)

lemma emits_question [emits_intros]: "A (Question message) \<Longrightarrow> emits A (question env message)"
  by (simp add: emits_def question_def)

lemma emits_mkdtemp [emits_intros]: "A (Mkdtemp prefix) \<Longrightarrow> emits A (mkdtemp env prefix)"
  by (simp add: emits_def mkdtemp_def)

lemma emits_execSync [emits_intros]: "A (Exec command) \<Longrightarrow> emits A (execSync env command)"
  by (simp add: emits_def execSync_def Let_def split: option.splits)

lemma emits_readFile [emits_intros]: "A (ReadFile path) \<Longrightarrow> emits A (readFile env path)"
  by (simp add: emits_def readFile_def Let_def split: option.splits)

lemma emits_try_readFile [emits_intros]: "A (ReadFile path) \<Longrightarrow> emits A (try_readFile env path)"
  by (simp add: emits_def try_readFile_def)

lemma emits_cleanupAdd [emits_intros]: "emits A (cleanupAdd fn)"
  by (simp add: emits_def cleanupAdd_def)

lemma emits_member [emits_intros]: "emits A (member v name)"
  by (simp add: member_def emits_intros split: option.splits json.splits)

lemma emits_index0 [emits_intros]: "emits A (index0 v)"
  by (simp add: index0_def emits_intros split: option.splits json.splits)

lemma emits_assign [emits_intros]: "emits A (assign v k x)"
  by (simp add: assign_def emits_intros split: option.splits json.splits)

lemma emits_optional_member [emits_intros]: "emits A (optional_member v name)"
  by (simp add: optional_member_def emits_intros)

lemma emits_intFromVersion_of [emits_intros]: "emits A (intFromVersion_of v)"
  by (simp add: intFromVersion_of_def emits_intros split: option.splits json.splits)

lemma emits_parse [emits_intros]: "emits A (parse env text)"
  by (simp add: parse_def emits_intros split: option.splits)

lemma emits_new_Request [emits_intros]: "emits A (new_Request env url)"
  by (simp add: new_Request_def emits_intros)

lemma emits_the_response [emits_intros]: "emits A (the_response f)"
  by (simp add: the_response_def emits_intros split: option.splits)

lemma emits_js_includes [emits_intros]: "emits A (js_includes v needle)"
  by (simp add: js_includes_def emits_intros split: option.splits json.splits)

lemma emits_signed_name [emits_intros]: "emits A (signed_name v)"
  by (simp add: signed_name_def emits_intros split: option.splits json.splits)

lemma emits_version_of_tag [emits_intros]: "emits A (version_of_tag gh)"
  by (simp add: version_of_tag_def emits_intros split: arg.splits)

lemma emits_validateGithubToken [emits_intros]: "emits A (validateGithubToken gh)"
  by (simp add: validateGithubToken_def emits_intros)

lemma emits_validateGithubVars [emits_intros]: "emits A (validateGithubVars gh)"
  by (simp add: validateGithubVars_def emits_intros)

lemma local_events [simp]:
  assumes "local_events A"
  shows "A (Log m)" "A (LogError m)" "A (Sleep n)" "A (Exec c)" "A (ReadFile p)"
    "A (WriteFile p t)" "A (Mkdtemp p)" "A (Question q)"
  using assms by (simp_all add: local_events_def)

lemma emits_fetchEx [emits_intros]:
  assumes "A (Fetch x)" and "local_events A"
  shows "emits A (fetchEx env (Resource x # rest))"
proof (rule emitsI)
  fix s
  have "fetch env (if tagged (Resource x # rest) then butlast (Resource x # rest) else Resource x # rest) s
      = (Val (fetch_reply env x (count_list (trace s) (Fetch x))), s\<lparr>trace := trace s @ [Fetch x]\<rparr>)"
    by (cases rest rule: rev_cases) (auto simp: fetch_def tagged_def)
  then show "\<exists>es. trace (snd (fetchEx env (Resource x # rest) s)) = trace s @ es \<and> list_all A es"
    using assms
    by (auto simp: fetchEx_apply Let_def split: fetch_result.splits option.splits)
qed

lemma emits_shellExec_loop:
  assumes "local_events A"
  shows "emits A (shellExec_loop cfg env lines command r)"
  using assms
  by (induction cfg env lines command r rule: shellExec_loop.induct)
     (auto simp: Let_def intro!: emits_intros)

lemma emits_shellExec [emits_intros]: "local_events A \<Longrightarrow> emits A (shellExec cfg env text)"
  by (simp add: shellExec_def emits_intros emits_shellExec_loop)

lemma emits_getSecret [emits_intros]:
  assumes "local_events A"
  shows "emits A (getSecret cfg env token)"
proof (rule emitsI)
  fix s
  from emits_shellExec [OF assms, of cfg env "''secret-tool lookup token '' @ token"]
  obtain es where "trace (snd (shellExec cfg env (''secret-tool lookup token '' @ token) s)) = trace s @ es"
    "list_all A es" by (rule emitsD)
  then show "\<exists>es. trace (snd (getSecret cfg env token s)) = trace s @ es \<and> list_all A es"
    by (auto simp: getSecret_def bnd_apply split: option.splits result.splits)
qed

lemma emits_promise_all2 [emits_intros]:
  assumes "emits A m1" and "emits A m2"
  shows "emits A (promise_all2 m1 m2)"
proof (rule emitsI)
  fix s
  from assms(1) obtain es1 where 1: "trace (snd (m1 s)) = trace s @ es1" "list_all A es1"
    by (rule emitsD)
  from assms(2) obtain es2 where 2: "trace (snd (m2 (snd (m1 s)))) = trace (snd (m1 s)) @ es2"
    "list_all A es2" by (rule emitsD)
  show "\<exists>es. trace (snd (promise_all2 m1 m2 s)) = trace s @ es \<and> list_all A es"
  proof (cases "\<exists>c. fst (m1 s) = Exit c")
    case True
    with 1 show ?thesis
      by (intro exI [of _ es1]) (cases "m1 s", auto simp: promise_all2_def)
  next
    case False
    with 1 2 show ?thesis
      by (intro exI [of _ "es1 @ es2"])
         (cases "m1 s"; cases "m2 (snd (m1 s))";
          auto simp: promise_all2_def split: result.splits)
  qed
qed

lemma emits_getTempDir [emits_intros]: "local_events A \<Longrightarrow> emits A (getTempDir cfg env)"
  by (simp add: getTempDir_def emits_intros)

lemma emits_getFileFromPackage [emits_intros]:
  "local_events A \<Longrightarrow> emits A (getFileFromPackage cfg env packagePath needlePath)"
  by (simp add: getFileFromPackage_def emits_intros)

lemma emits_getManifestFromPackage [emits_intros]:
  "local_events A \<Longrightarrow> emits A (getManifestFromPackage cfg env packagePath)"
  by (auto simp: getManifestFromPackage_def intro!: emits_intros)

lemma emits_updateManifestInPackage [emits_intros]:
  "local_events A \<Longrightarrow> emits A (updateManifestInPackage cfg env packagePath j)"
  by (auto simp: updateManifestInPackage_def Let_def intro!: emits_intros)

lemma emits_getExtensionNameFromPackage [emits_intros]:
  "local_events A \<Longrightarrow> emits A (getExtensionNameFromPackage cfg env packagePath)"
  by (auto simp: getExtensionNameFromPackage_def intro!: emits_intros)

lemma emits_prompt [emits_intros]: "local_events A \<Longrightarrow> emits A (prompt env message)"
  by (auto simp: prompt_def intro!: emits_intros)

lemma emits_getReleaseInfo [emits_intros]:
  "local_events A \<Longrightarrow> A (Fetch GhReleaseInfo) \<Longrightarrow> emits A (getReleaseInfo gh env)"
  by (auto simp: getReleaseInfo_def intro!: emits_intros)

lemma emits_find_asset [emits_intros]: "emits A (find_asset needle xs)"
  by (induction needle xs rule: find_asset.induct) (auto intro!: emits_intros)

lemma emits_getAssetInfo [emits_intros]:
  "local_events A \<Longrightarrow> A (Fetch GhReleaseInfo) \<Longrightarrow> emits A (getAssetInfo gh env)"
  by (auto simp: getAssetInfo_def intro!: emits_intros split: option.splits json.splits)

lemma emits_downloadAssetFromRelease [emits_intros]:
  "local_events A \<Longrightarrow> A (Fetch GhAsset) \<Longrightarrow> emits A (downloadAssetFromRelease gh cfg env assetInfo)"
  by (auto simp: downloadAssetFromRelease_def Let_def intro!: emits_intros)

lemma emits_uploadAssetToRelease [emits_intros]:
  "local_events A \<Longrightarrow> A (Fetch GhReleaseInfo) \<Longrightarrow> A (Fetch GhUpload)
   \<Longrightarrow> emits A (uploadAssetToRelease gh env assetPath mimeType)"
  by (auto simp: uploadAssetToRelease_def Let_def intro!: emits_intros
      split: option.splits json.splits)

lemma emits_deleteAssetFromRelease [emits_intros]:
  "local_events A \<Longrightarrow> A (Fetch GhDelete) \<Longrightarrow> emits A (deleteAssetFromRelease gh env url)"
  by (auto simp: deleteAssetFromRelease_def intro!: emits_intros)

lemma emits_read_update [emits_intros]:
  "local_events A \<Longrightarrow>
   emits A (read_update gh cfg env path amoExtensionId manifest signedPackageName)"
  by (auto simp: read_update_def intro!: emits_intros)

lemma emits_commit_update [emits_intros]:
  "local_events A \<Longrightarrow> emits A (commit_update cfg env path)"
  by (auto simp: commit_update_def intro!: emits_intros)

lemma emits_updateFirefoxAutoUpdateFile [emits_intros]:
  "local_events A \<Longrightarrow>
   emits A (updateFirefoxAutoUpdateFile gh cfg env path amoExtensionId manifest signedPackageName)"
  by (auto simp: updateFirefoxAutoUpdateFile_def Let_def intro!: emits_intros)

lemma emits_reconcile_update_file [emits_intros]:
  "local_events A \<Longrightarrow> emits A (reconcile_update_file gh cfg env manifest signedPackageName)"
  by (auto simp: reconcile_update_file_def intro!: emits_intros)

lemma emits_extensionNameFromStore [emits_intros]:
  "local_events A \<Longrightarrow> A (Fetch x) \<Longrightarrow> emits A (extensionNameFromStore env x)"
  by (auto simp: extensionNameFromStore_def intro!: emits_intros split: option.splits json.splits)

lemma emits_set_version_name [emits_intros]: "emits A (set_version_name gh manifest u)"
  by (auto simp: set_version_name_def intro!: emits_intros)

lemma emits_set_datebased_major [emits_intros]: "emits A (set_datebased_major cfg env manifest)"
  by (auto simp: set_datebased_major_def Let_def intro!: emits_intros
      split: option.splits json.splits prod.splits)

lemma emits_set_update_url [emits_intros]: "emits A (set_update_url gh manifest)"
  by (auto simp: set_update_url_def intro!: emits_intros)

lemma emits_store_prompt [emits_intros]:
  "local_events A \<Longrightarrow> emits A (store_prompt title gh cfg env assetInfo manifestName storeName manifest extra)"
  by (auto simp: store_prompt_def intro!: emits_intros)

lemma emits_remove_dir_of [emits_intros]:
  "local_events A \<Longrightarrow> emits A (remove_dir_of cfg env path)"
  by (auto simp: remove_dir_of_def Let_def intro!: emits_intros split: option.splits)

lemma emits_fileFromSync [emits_intros]:
  "local_events A \<Longrightarrow> emits A (fileFromSync env path)"
  by (auto simp: fileFromSync_def intro!: emits_intros split: option.splits)

lemma emits_poll_loop [emits_intros]:
  assumes "local_events A" and "emits A check"
  shows "emits A (poll_loop seconds msg check countdown)"
proof (rule emitsI)
  fix s
  show "\<exists>es. trace (snd (poll_loop seconds msg check countdown s)) = trace s @ es \<and> list_all A es"
    using assms
  proof (induction seconds msg check countdown s rule: poll_loop_induct)
    case (step seconds msg check countdown s)
    let ?s1 = "s\<lparr>trace := trace s @ [Sleep seconds]\<rparr>"
    from step.prems(2) obtain es1 where
      es1: "trace (snd (check ?s1)) = trace ?s1 @ es1" "list_all A es1" by (rule emitsD)
    show ?case
    proof (cases "countdown - 1 \<le> 0")
      case True
      with step.prems(1) show ?thesis by (subst poll_loop_step) simp
    next
      case False
      obtain r s2 where c: "check ?s1 = (r, s2)" by (cases "check ?s1")
      show ?thesis
      proof (cases "r = Val None")
        case True
        with step.IH [OF False _ step.prems, of s2] c obtain es where
          "trace (snd (poll_loop seconds msg check (countdown - 1) s2)) = trace s2 @ es"
          "list_all A es" by auto
        with False c True es1 step.prems(1) show ?thesis
          by (subst poll_loop_step) (auto intro!: exI [of _ "Sleep seconds # es1 @ es"])
      next
        case other: False
        with False c es1 step.prems(1) show ?thesis
          by (subst poll_loop_step)
             (auto intro!: exI [of _ "Sleep seconds # es1"] split: result.splits option.splits)
      qed
    qed
  qed
qed

lemma emits_amo_check [emits_intros]:
  "local_events A \<Longrightarrow> A (Fetch AmoCheck) \<Longrightarrow> emits A (amo_check env url)"
  by (auto simp: amo_check_def intro!: emits_intros split: option.splits json.splits list.splits)

lemma emits_edge_check [emits_intros]:
  "local_events A \<Longrightarrow> A (Fetch EdgeStatus) \<Longrightarrow> emits A (edge_check env)"
  by (auto simp: edge_check_def intro!: emits_intros)

lemma emits_amo_poll [emits_intros]:
  "local_events A \<Longrightarrow> A (Fetch AmoCheck) \<Longrightarrow> emits A (amo_poll env url)"
  by (simp add: amo_poll_eq emits_intros)

lemma emits_edge_poll [emits_intros]:
  "local_events A \<Longrightarrow> A (Fetch EdgeStatus) \<Longrightarrow> emits A (edge_poll env)"
  by (simp add: edge_poll_eq emits_intros)

lemma emits_amo_submit [emits_intros]:
  "local_events A \<Longrightarrow> A (Fetch AmoSubmit) \<Longrightarrow> emits A (amo_submit cfg env packagePathIn manifest)"
  by (auto simp: amo_submit_def Let_def intro!: emits_intros)

lemma emits_amo_download [emits_intros]:
  "local_events A \<Longrightarrow> A (Fetch AmoDownload) \<Longrightarrow> emits A (amo_download env out url)"
  by (auto simp: amo_download_def intro!: emits_intros)

lemma emits_edge_upload [emits_intros]:
  "local_events A \<Longrightarrow> A (Fetch EdgeUpload) \<Longrightarrow> emits A (edge_upload cfg env path)"
  by (auto simp: edge_upload_def Let_def intro!: emits_intros)

lemma emits_edge_publish [emits_intros]:
  "local_events A \<Longrightarrow> A (Fetch EdgePublish) \<Longrightarrow> emits A (edge_publish env)"
  by (auto simp: edge_publish_def intro!: emits_intros)

lemma emits_publishToCWS [emits_intros]:
  "local_events A \<Longrightarrow> A (Fetch CwsAuth) \<Longrightarrow> A (Fetch CwsUpload) \<Longrightarrow> A (Fetch CwsPublish)
   \<Longrightarrow> emits A (publishToCWS env path)"
  by (auto simp: publishToCWS_def intro!: emits_intros)

lemma emits_amo_lookup [emits_intros]:
  "local_events A \<Longrightarrow> A (Fetch AmoLookup) \<Longrightarrow> emits A (amo_lookup cfg env manifest)"
  by (auto simp: amo_lookup_def intro!: emits_intros)

lemma emits_amo_file_download [emits_intros]:
  "local_events A \<Longrightarrow> A (Fetch AmoFile) \<Longrightarrow> emits A (amo_file_download env pout file)"
  by (auto simp: amo_file_download_def intro!: emits_intros)

lemma emits_checkSignature [emits_intros]:
  "local_events A \<Longrightarrow> A (Fetch AmoLookup) \<Longrightarrow> A (Fetch AmoFile)
   \<Longrightarrow> emits A (checkSignature cfg env pin pout manifest)"
  by (auto simp: checkSignature_def intro!: emits_intros)

lemma emits_run_jobs: "local_events A \<Longrightarrow> emits A (run_jobs cfg env jobs)"
  by (induction jobs) (auto simp: cleanup_job_def intro!: emits_intros)

lemma emits_cleanDo [emits_intros]: "local_events A \<Longrightarrow> emits A (cleanDo cfg env)"
proof (rule emitsI)
  fix s
  assume "local_events A"
  from emits_run_jobs [OF this, of cfg env "cleanupJobs s"]
  obtain es where "trace (snd (run_jobs cfg env (cleanupJobs s) (s\<lparr>cleanupJobs := []\<rparr>)))
      = trace (s\<lparr>cleanupJobs := []\<rparr>) @ es" "list_all A es" by (rule emitsD)
  then show "\<exists>es. trace (snd (cleanDo cfg env s)) = trace s @ es \<and> list_all A es"
    by (auto simp: cleanDo_def)
qed

lemma emits_github_api [emits_intros]: "local_events A \<Longrightarrow> emits A (github_api cfg env)"
  by (auto simp: github_api_def intro!: emits_intros)


lemma emits_asset_and_names [emits_intros]:
  "local_events A \<Longrightarrow> A (Fetch GhReleaseInfo) \<Longrightarrow> A (Fetch GhAsset) \<Longrightarrow> emits A listing
   \<Longrightarrow> emits A (asset_and_names gh cfg env listing)"
  by (auto simp: asset_and_names_def intro!: emits_intros)


subsection \<open>Commands of one line\<close>

lemma split_lines_one_line: "one_line t \<Longrightarrow> split_lines cur t = [cur @ t]"
  by (induction t arbitrary: cur) (simp_all add: one_line_def)

lemma trim_ends: "\<not> is_space c \<Longrightarrow> \<not> is_space e \<Longrightarrow> trim (c # xs @ [e]) = c # xs @ [e]"
  by (simp add: trim_def)

lemma rm_text: "''rm -rf '' @ dq @ d @ dq = CHR ''r'' # (''m -rf '' @ dq @ d) @ dq"
  by simp

lemma trim_rm: "trim (''rm -rf '' @ dq @ d @ dq) = ''rm -rf '' @ dq @ d @ dq"
  unfolding rm_text unfolding dq_def by (rule trim_ends) (simp_all add: is_space_def)

lemma rm_no_continuation:
  "drop (length (''rm -rf '' @ dq @ d @ dq) - 2) (''rm -rf '' @ dq @ d @ dq) \<noteq> [CHR '' '', CHR 0x5C]"
proof
  assume a: "drop (length (''rm -rf '' @ dq @ d @ dq) - 2) (''rm -rf '' @ dq @ d @ dq) = [CHR '' '', CHR 0x5C]"
  have "last (drop (length (''rm -rf '' @ dq @ d @ dq) - 2) (''rm -rf '' @ dq @ d @ dq)) = CHR 0x22"
    by (simp add: dq_def)
  with a show False by simp
qed

lemma one_line_rm: "one_line d \<Longrightarrow> one_line (''rm -rf '' @ dq @ d @ dq)"
  by (simp add: one_line_def dq_def is_nl_def)

lemma shellExec_one_line:
  assumes "split_lines [] c = [c]" and "trim c = c" and "c \<noteq> []"
    and "drop (length c - 2) c \<noteq> [CHR '' '', CHR 0x5C]"
  shows "snd (shellExec cfg env c s) = s\<lparr>trace := trace s @
      (if arg_truthy (verbose cfg) then [Log (''Executing: '' @ c)] else []) @ [Exec c]\<rparr>"
  using assms
  by (simp add: shellExec_def Let_def execSync_def bnd_def thn_def ret_def
        console_log_def emit_def split: option.splits)

lemma cleanup_job_apply:
  assumes "one_line d"
  shows "cleanup_job cfg env d s = (Val (), s\<lparr>trace := trace s @ removal cfg d\<rparr>)"
proof -
  define c where "c = ''rm -rf '' @ dq @ d @ dq"
  have "split_lines [] c = [c]"
    using split_lines_one_line [OF one_line_rm [OF assms], of "[]"] by (simp add: c_def)
  moreover have "c \<noteq> []" by (simp add: c_def)
  moreover have "trim c = c" unfolding c_def by (rule trim_rm)
  moreover have "drop (length c - 2) c \<noteq> [CHR '' '', CHR 0x5C]"
    unfolding c_def by (rule rm_no_continuation)
  ultimately have "snd (shellExec cfg env c s') = s'\<lparr>trace := trace s' @
      (if arg_truthy (verbose cfg) then [Log (''Executing: '' @ c)] else []) @ [Exec c]\<rparr>" for s'
    by (simp add: shellExec_one_line)
  then have "cleanup_job cfg env d s = (Val (), s\<lparr>trace := trace s @ Log (''Removing '' @ d) #
      (if arg_truthy (verbose cfg) then [Log (''Executing: '' @ c)] else []) @ [Exec c]\<rparr>)"
    unfolding cleanup_job_def c_def [symmetric]
    by (simp add: thn_def bnd_def console_log_def emit_def detached_def)
  then show ?thesis by (simp add: removal_def c_def)
qed

lemma run_jobs_apply:
  "list_all one_line jobs \<Longrightarrow>
   run_jobs cfg env jobs s = (Val (), s\<lparr>trace := trace s @ concat (map (removal cfg) jobs)\<rparr>)"
  by (induction jobs arbitrary: s) (simp_all add: ret_def thn_def bnd_def cleanup_job_apply)

lemma then_cleanDo_apply:
  assumes "list_all one_line (cleanupJobs s)"
  shows "then_cleanDo cfg env result s
    = (Exit (if result = None then 0 else 1),
       s\<lparr>cleanupJobs := [],
         trace := trace s @ concat (map (removal cfg) (cleanupJobs s))
                  @ (case result of None \<Rightarrow> [] | Some msg \<Rightarrow> [Log msg])\<rparr>)"
  using assms
  by (cases result)
     (simp_all add: then_cleanDo_def cleanDo_def detached_def run_jobs_apply thn_def bnd_def
        process_exit_def console_log_def emit_def)


subsection \<open>Rejected statuses\<close>


lemma local_events_neq [simp]: "local_events (\<lambda>e. e \<noteq> Fetch x)"
  by (simp add: local_events_def)

lemma local_events_conj [simp]:
  "local_events (\<lambda>e. A e \<and> B e) \<longleftrightarrow> local_events A \<and> local_events B"
  by (auto simp: local_events_def)

lemma list_all_absent: "list_all (\<lambda>e. e \<noteq> x) es \<Longrightarrow> count_list es x = 0 \<and> x \<notin> set es"
  by (induction es) auto

lemma emits_absent:
  assumes "emits (\<lambda>e. e \<noteq> x) m"
  shows "count_list (trace (snd (m s))) x = count_list (trace s) x"
    and "x \<in> set (trace (snd (m s))) \<longleftrightarrow> x \<in> set (trace s)"
proof -
  from assms obtain es where "trace (snd (m s)) = trace s @ es" "list_all (\<lambda>e. e \<noteq> x) es"
    by (rule emitsD)
  then show "count_list (trace (snd (m s))) x = count_list (trace s) x"
    and "x \<in> set (trace (snd (m s))) \<longleftrightarrow> x \<in> set (trace s)"
    using list_all_absent [of x es] by auto
qed

lemma emits_weaken: "emits A m \<Longrightarrow> (\<And>e. A e \<Longrightarrow> B e) \<Longrightarrow> emits B m"
  unfolding emits_def by (meson list_all_iff list.pred_mono_strong)

lemma amo_poll_checks:
  assumes "count_list (trace s) (Fetch AmoCheck) \<le> k"
    and "k < count_list (trace (snd (amo_poll env url s))) (Fetch AmoCheck)"
    and "http_failed (fetch_reply env AmoCheck k) \<or> amo_rejected (fetch_reply env AmoCheck k)"
  shows "fst (amo_poll env url s) = Exit 1"
    and "count_list (trace (snd (amo_poll env url s))) (Fetch AmoCheck) = k + 1"
  using poll_loop_checks [of "amo_check env url" AmoCheck
      "\<lambda>k. amo_pending (fetch_reply env AmoCheck k)"
      "\<lambda>k. http_failed (fetch_reply env AmoCheck k) \<or> amo_rejected (fetch_reply env AmoCheck k)"
      s k 60 "''Error: AMO signing timed out''" 10, OF amo_check_step assms(1), folded amo_poll_eq,
      OF assms(2)] assms(3)
  by simp_all

lemma edge_poll_checks:
  assumes "count_list (trace s) (Fetch EdgeStatus) \<le> k"
    and "k < count_list (trace (snd (edge_poll env s))) (Fetch EdgeStatus)"
    and "http_failed (fetch_reply env EdgeStatus k) \<or> edge_rejected (fetch_reply env EdgeStatus k)"
  shows "fst (edge_poll env s) = Exit 1"
    and "count_list (trace (snd (edge_poll env s))) (Fetch EdgeStatus) = k + 1"
  using poll_loop_checks [of "edge_check env" EdgeStatus
      "\<lambda>k. edge_pending (fetch_reply env EdgeStatus k)"
      "\<lambda>k. http_failed (fetch_reply env EdgeStatus k) \<or> edge_rejected (fetch_reply env EdgeStatus k)"
      s k 60 "''Error: Microsoft store timed out''" 15, OF edge_check_step assms(1), folded edge_poll_eq,
      OF assms(2)] assms(3)
  by simp_all

lemma requestSignature_rejected:
  assumes nodl: "Fetch AmoDownload \<notin> set (trace s)"
    and k: "count_list (trace s) (Fetch AmoCheck) \<le> k"
      "k < count_list (trace (snd (requestSignature cfg env pin pout manifest s))) (Fetch AmoCheck)"
    and bad: "http_failed (fetch_reply env AmoCheck k) \<or> amo_rejected (fetch_reply env AmoCheck k)"
  shows "fst (requestSignature cfg env pin pout manifest s) = Exit 1
       \<and> Fetch AmoDownload \<notin> set (trace (snd (requestSignature cfg env pin pout manifest s)))
       \<and> count_list (trace (snd (requestSignature cfg env pin pout manifest s))) (Fetch AmoCheck) = k + 1"
proof -
  let ?sub = "amo_submit cfg env pin manifest"
  obtain r1 s1 where sub: "?sub s = (r1, s1)" by (cases "?sub s")
  have e1: "emits (\<lambda>e. e \<noteq> Fetch AmoCheck) ?sub" "emits (\<lambda>e. e \<noteq> Fetch AmoDownload) ?sub"
    by (simp_all add: emits_intros)
  from emits_absent [OF e1(1), of s] emits_absent [OF e1(2), of s] sub nodl
  have s1: "count_list (trace s1) (Fetch AmoCheck) = count_list (trace s) (Fetch AmoCheck)"
    "Fetch AmoDownload \<notin> set (trace s1)" by simp_all
  show ?thesis
  proof (cases r1)
    case (Exit c)
    with sub have "requestSignature cfg env pin pout manifest s = (Exit c, s1)"
      by (simp add: requestSignature_def bnd_def)
    with k s1 show ?thesis by simp
  next
    case (Throw e)
    with sub have "requestSignature cfg env pin pout manifest s = (Throw e, s1)"
      by (simp add: requestSignature_def bnd_def)
    with k s1 show ?thesis by simp
  next
    case (Val submitted)
    show ?thesis
    proof (cases submitted)
      case None
      with sub Val have "requestSignature cfg env pin pout manifest s = (Val (), s1)"
        by (simp add: requestSignature_def bnd_def ret_def)
      with k s1 show ?thesis by simp
    next
      case (Some url)
      with sub Val have rs: "requestSignature cfg env pin pout manifest s
          = bnd (amo_poll env url) (amo_download env pout) s1"
        by (simp add: requestSignature_def bnd_def)
      obtain r2 s2 where loop: "amo_poll env url s1 = (r2, s2)" by (cases "amo_poll env url s1")
      have e2: "emits (\<lambda>e. e \<noteq> Fetch AmoDownload) (amo_poll env url)" by (simp add: emits_intros)
      from emits_absent(2) [OF e2, of s1] loop s1(2) have nodl2: "Fetch AmoDownload \<notin> set (trace s2)"
        by simp
      have e3: "emits (\<lambda>e. e \<noteq> Fetch AmoCheck) (amo_download env pout d)" for d
        by (simp add: emits_intros)
      have k2: "k < count_list (trace s2) (Fetch AmoCheck)"
      proof (cases r2)
        case (Val d)
        with rs loop have "requestSignature cfg env pin pout manifest s = amo_download env pout d s2"
          by (simp add: bnd_def)
        with k(2) emits_absent(1) [OF e3, of d s2] show ?thesis by simp
      next
        case (Exit c)
        with rs loop k(2) show ?thesis by (simp add: bnd_def)
      next
        case (Throw e)
        with rs loop k(2) show ?thesis by (simp add: bnd_def)
      qed
      from amo_poll_checks [of s1 k env url] k(1) s1(1) k2 loop bad
      have "r2 = Exit 1" "count_list (trace s2) (Fetch AmoCheck) = k + 1" by simp_all
      with rs loop nodl2 show ?thesis by (simp add: bnd_def)
    qed
  qed
qed


lemma publishToEdgeStore_rejected:
  assumes nopub: "Fetch EdgePublish \<notin> set (trace s)"
    and k: "count_list (trace s) (Fetch EdgeStatus) \<le> k"
      "k < count_list (trace (snd (publishToEdgeStore cfg env path s))) (Fetch EdgeStatus)"
    and bad: "http_failed (fetch_reply env EdgeStatus k) \<or> edge_rejected (fetch_reply env EdgeStatus k)"
  shows "fst (publishToEdgeStore cfg env path s) = Exit 1
       \<and> Fetch EdgePublish \<notin> set (trace (snd (publishToEdgeStore cfg env path s)))
       \<and> count_list (trace (snd (publishToEdgeStore cfg env path s))) (Fetch EdgeStatus) = k + 1"
proof -
  let ?up = "edge_upload cfg env path"
  obtain r1 s1 where up: "?up s = (r1, s1)" by (cases "?up s")
  have e1: "emits (\<lambda>e. e \<noteq> Fetch EdgeStatus) ?up" "emits (\<lambda>e. e \<noteq> Fetch EdgePublish) ?up"
    by (simp_all add: emits_intros)
  from emits_absent [OF e1(1), of s] emits_absent [OF e1(2), of s] up nopub
  have s1: "count_list (trace s1) (Fetch EdgeStatus) = count_list (trace s) (Fetch EdgeStatus)"
    "Fetch EdgePublish \<notin> set (trace s1)" by simp_all
  show ?thesis
  proof (cases r1)
    case (Exit c)
    with up have "publishToEdgeStore cfg env path s = (Exit c, s1)"
      by (simp add: publishToEdgeStore_def thn_def bnd_def)
    with k s1 show ?thesis by simp
  next
    case (Throw e)
    with up have "publishToEdgeStore cfg env path s = (Throw e, s1)"
      by (simp add: publishToEdgeStore_def thn_def bnd_def)
    with k s1 show ?thesis by simp
  next
    case (Val u)
    with up have rs: "publishToEdgeStore cfg env path s = thn (edge_poll env) (edge_publish env) s1"
      by (simp add: publishToEdgeStore_def thn_def bnd_def)
    obtain r2 s2 where loop: "edge_poll env s1 = (r2, s2)" by (cases "edge_poll env s1")
    have e2: "emits (\<lambda>e. e \<noteq> Fetch EdgePublish) (edge_poll env)" by (simp add: emits_intros)
    from emits_absent(2) [OF e2, of s1] loop s1(2) have nopub2: "Fetch EdgePublish \<notin> set (trace s2)"
      by simp
    have e3: "emits (\<lambda>e. e \<noteq> Fetch EdgeStatus) (edge_publish env)"
      by (simp add: emits_intros)
    have k2: "k < count_list (trace s2) (Fetch EdgeStatus)"
    proof (cases r2)
      case (Val d)
      with rs loop have "publishToEdgeStore cfg env path s = edge_publish env s2"
        by (simp add: thn_def bnd_def)
      with k(2) emits_absent(1) [OF e3, of s2] show ?thesis by simp
    next
      case (Exit c)
      with rs loop k(2) show ?thesis by (simp add: thn_def bnd_def)
    next
      case (Throw e)
      with rs loop k(2) show ?thesis by (simp add: thn_def bnd_def)
    qed
    from edge_poll_checks [of s1 k env] k(1) s1(1) k2 loop bad
    have "r2 = Exit 1" "count_list (trace s2) (Fetch EdgeStatus) = k + 1" by simp_all
    with rs loop nopub2 show ?thesis by (simp add: thn_def bnd_def)
  qed
qed

lemma member_eq:
  "member v name =
     (case v of
        None \<Rightarrow> throw ''TypeError''
      | Some j \<Rightarrow> if j = JNull then throw ''TypeError'' else ret (jget j name))"
  by (cases v) (simp_all add: member_Some)

lemma amo_lookup_rejected:
  assumes "http_failed (fetch_reply env AmoLookup (count_list (trace s) (Fetch AmoLookup)))
       \<or> lookup_rejected (fetch_reply env AmoLookup (count_list (trace s) (Fetch AmoLookup)))"
    and "count_list (trace s) (Fetch AmoLookup)
       < count_list (trace (snd (amo_lookup cfg env manifest s))) (Fetch AmoLookup)"
  shows "fst (amo_lookup cfg env manifest s) = Exit 1"
  using assms
  by (auto simp: amo_lookup_def io_defs fetchEx_tagged member_eq Let_def optional_member_def
        http_failed_def lookup_rejected_def document_def jget_def
      split: fetch_result.splits option.splits if_splits)

lemma amo_lookup_once:
  "count_list (trace (snd (amo_lookup cfg env manifest s))) (Fetch AmoLookup)
     \<le> count_list (trace s) (Fetch AmoLookup) + 1"
  by (auto simp: amo_lookup_def io_defs fetchEx_tagged member_eq Let_def optional_member_def
      split: fetch_result.splits option.splits if_splits)

lemma checkSignature_rejected:
  assumes nofile: "Fetch AmoFile \<notin> set (trace s)"
    and k: "count_list (trace s) (Fetch AmoLookup) \<le> k"
      "k < count_list (trace (snd (checkSignature cfg env pin pout manifest s))) (Fetch AmoLookup)"
    and bad: "http_failed (fetch_reply env AmoLookup k) \<or> lookup_rejected (fetch_reply env AmoLookup k)"
  shows "fst (checkSignature cfg env pin pout manifest s) = Exit 1
       \<and> Fetch AmoFile \<notin> set (trace (snd (checkSignature cfg env pin pout manifest s)))"
proof -
  let ?lk = "amo_lookup cfg env manifest"
  obtain r1 s1 where lk: "?lk s = (r1, s1)" by (cases "?lk s")
  have e1: "emits (\<lambda>e. e \<noteq> Fetch AmoFile) ?lk" by (simp add: emits_intros)
  from emits_absent(2) [OF e1, of s] lk nofile have s1: "Fetch AmoFile \<notin> set (trace s1)" by simp
  have e2: "emits (\<lambda>e. e \<noteq> Fetch AmoLookup) (amo_file_download env pout v)" for v
    by (simp add: emits_intros)
  have "count_list (trace (snd (checkSignature cfg env pin pout manifest s))) (Fetch AmoLookup)
      = count_list (trace s1) (Fetch AmoLookup)"
    using lk emits_absent(1) [OF e2, of _ s1]
    by (cases r1) (simp_all add: checkSignature_def bnd_def)
  with k amo_lookup_once [of cfg env manifest s] lk
  have "k = count_list (trace s) (Fetch AmoLookup)"
    "count_list (trace s) (Fetch AmoLookup) < count_list (trace (snd (?lk s))) (Fetch AmoLookup)"
    by simp_all
  with amo_lookup_rejected [of env s cfg manifest] bad lk have "r1 = Exit 1" by simp
  with lk s1 show ?thesis by (simp add: checkSignature_def bnd_def)
qed


lemma emits_trace:
  assumes "emits A m" and "list_all A (trace s)"
  shows "list_all A (trace (snd (m s)))"
proof -
  from assms(1) obtain es where "trace (snd (m s)) = trace s @ es" "list_all A es"
    by (rule emitsD)
  with assms(2) show ?thesis by simp
qed


lemmas shell_defs = shellExec_def split_lines.simps is_nl_def trim_def is_space_def execSync_def
  arg_truthy_def dq_def sq_def nl_def

lemma signing_world_simps [simp]:
  "fetch_reply signing_world x k =
     (case x of
            AmoSubmit \<Rightarrow> reply 201 (Some (JObj [(''url'', JStr ''https://addons.mozilla.org/upload'')]))
          | AmoCheck \<Rightarrow> if k < 1 then reply 200 (Some pending_doc) else reply 200 (Some ready_doc)
          | _ \<Rightarrow> reply 200 (Some (JObj [])))"
  "read_reply signing_world p k = Some ''PK''"
  "exec_reply signing_world c k = Some []"
  "valid_url signing_world u"
  by (simp_all add: signing_world_def offline_def)

lemma ready_doc_ready [simp]: "amo_ready (reply 200 (Some ready_doc))"
  by (simp add: amo_ready_def document_def reply_def ok_def ready_doc_def jget_def first_file_def
      truthy_def)

lemma amo_submit_signing_world:
  "amo_submit unlisted signing_world (Some ''/tmp/a/ext.xpi'') manifest_1_0 init
   = (Val (Some (Some (JStr ''https://addons.mozilla.org/upload''))),
      init\<lparr>trace := [Exec ''secret-tool lookup token amo_api_key'',
                      Exec ''secret-tool lookup token amo_secret'',
                      ReadFile ''/tmp/a/ext.xpi'',
                      Log ''Submitting package to be signed...'',
                      Log ''  https://addons.mozilla.org/api/v4/addons/ext@example/versions/1.0/'',
                      Fetch AmoSubmit,
                      Log ''Request for signing xpi package succeeded'',
                      Log ''Waiting for AMO to process the request to sign the self-hosted xpi package...''],
            secrets := [(''amo_secret'', []), (''amo_api_key'', [])]\<rparr>)"
  by (simp add: amo_submit_def promise_all2_def getSecret_def shell_defs io_defs Let_def
      unlisted_def no_args_def member_Some jget_def show_arg_def manifest_1_0_def to_string_def fileFromSync_def
      readFile_def fetchEx_tagged reply_def ok_def amoChannel_def or_empty_def init_def)


lemma amo_check_signed:
  assumes "amo_ready (fetch_reply env AmoCheck (count_list (trace s) (Fetch AmoCheck)))"
    and "valid_url env (to_string url)"
  shows "\<exists>u. amo_check env url s = (Val (Some u), s\<lparr>trace := trace s @ [Fetch AmoCheck]\<rparr>)"
  using assms amo_check_ready [of env url s "s\<lparr>trace := trace s @ [Fetch AmoCheck]\<rparr>"] by simp

lemma requestSignature_signing_world:
  "fst (requestSignature unlisted signing_world (Some ''/tmp/a/ext.xpi'') ''/tmp/b/ext.signed.xpi''
          manifest_1_0 init) = Val ()"
  "filter is_request (trace (snd (requestSignature unlisted signing_world (Some ''/tmp/a/ext.xpi'')
          ''/tmp/b/ext.signed.xpi'' manifest_1_0 init)))
     = [Fetch AmoSubmit, Fetch AmoCheck, Fetch AmoCheck, Fetch AmoDownload]"
proof -
  let ?url = "Some (JStr ''https://addons.mozilla.org/upload'')"
  let ?s1 = "init\<lparr>trace := [Exec ''secret-tool lookup token amo_api_key'',
                      Exec ''secret-tool lookup token amo_secret'',
                      ReadFile ''/tmp/a/ext.xpi'',
                      Log ''Submitting package to be signed...'',
                      Log ''  https://addons.mozilla.org/api/v4/addons/ext@example/versions/1.0/'',
                      Fetch AmoSubmit,
                      Log ''Request for signing xpi package succeeded'',
                      Log ''Waiting for AMO to process the request to sign the self-hosted xpi package...''],
            secrets := [(''amo_secret'', []), (''amo_api_key'', [])]\<rparr>"
  have check1: "amo_check signing_world ?url (?s1\<lparr>trace := trace ?s1 @ [Sleep 60]\<rparr>)
      = (Val None, ?s1\<lparr>trace := trace ?s1 @ [Sleep 60, Fetch AmoCheck]\<rparr>)"
    by (subst amo_check_pending) simp_all
  have check2: "amo_check signing_world ?url (?s1\<lparr>trace := trace ?s1 @ [Sleep 60, Fetch AmoCheck, Sleep 60]\<rparr>)
      = (Val (Some (Some (JStr ''https://addons.mozilla.org/file.xpi''))),
         ?s1\<lparr>trace := trace ?s1 @ [Sleep 60, Fetch AmoCheck, Sleep 60, Fetch AmoCheck]\<rparr>)"
    by (simp add: amo_check_def io_defs fetchEx_tagged member_Some jget_def Let_def reply_def ok_def
        ready_doc_def truthy_def)
  have loop: "amo_poll signing_world ?url ?s1
      = (Val (Some (JStr ''https://addons.mozilla.org/file.xpi'')),
         ?s1\<lparr>trace := trace ?s1 @ [Sleep 60, Fetch AmoCheck, Sleep 60, Fetch AmoCheck]\<rparr>)"
    apply (simp add: amo_poll_eq)
    apply (subst poll_loop_step)
    apply (simp add: check1 [simplified])
    apply (subst poll_loop_step)
    apply (simp add: check2 [simplified])
    done
  have rs: "requestSignature unlisted signing_world (Some ''/tmp/a/ext.xpi'') ''/tmp/b/ext.signed.xpi''
          manifest_1_0 init
      = amo_download signing_world ''/tmp/b/ext.signed.xpi''
          (Some (JStr ''https://addons.mozilla.org/file.xpi''))
          (?s1\<lparr>trace := trace ?s1 @ [Sleep 60, Fetch AmoCheck, Sleep 60, Fetch AmoCheck]\<rparr>)"
    by (simp add: requestSignature_def bnd_def amo_submit_signing_world loop [simplified])
  show "fst (requestSignature unlisted signing_world (Some ''/tmp/a/ext.xpi'') ''/tmp/b/ext.signed.xpi''
          manifest_1_0 init) = Val ()"
    unfolding rs
    by (simp add: amo_download_def io_defs fetchEx_tagged reply_def ok_def writeFile_def emit_def)
  show "filter is_request (trace (snd (requestSignature unlisted signing_world (Some ''/tmp/a/ext.xpi'')
          ''/tmp/b/ext.signed.xpi'' manifest_1_0 init)))
     = [Fetch AmoSubmit, Fetch AmoCheck, Fetch AmoCheck, Fetch AmoDownload]"
    unfolding rs
    by (simp add: amo_download_def io_defs fetchEx_tagged reply_def ok_def writeFile_def emit_def
        is_request_def)
qed


lemma rejecting_world_simps [simp]:
  "fetch_reply rejecting_world x k =
     (case x of
            AmoSubmit \<Rightarrow> reply 201 (Some (JObj [(''url'', JStr ''https://addons.mozilla.org/upload'')]))
          | AmoCheck \<Rightarrow> reply 200 (Some (JObj [(''processed'', JBool True), (''valid'', JBool False)]))
          | AmoLookup \<Rightarrow> reply 200 (Some (JObj [(''file'', JObj [(''status'', JStr ''disabled'')])]))
          | EdgeUpload \<Rightarrow> reply 202 None
          | EdgeStatus \<Rightarrow> reply 200 (Some (JObj [(''status'', JStr ''Failed'')]))
          | _ \<Rightarrow> reply 200 (Some (JObj [])))"
  "read_reply rejecting_world p k = Some ''PK''"
  "exec_reply rejecting_world c k = Some []"
  "valid_url rejecting_world u"
  by (simp_all add: rejecting_world_def offline_def)

lemma rejecting_world_rejects:
  "amo_rejected (fetch_reply rejecting_world AmoCheck k)"
  "edge_rejected (fetch_reply rejecting_world EdgeStatus k)"
  "lookup_rejected (fetch_reply rejecting_world AmoLookup k)"
  by (simp_all add: amo_rejected_def edge_rejected_def lookup_rejected_def document_def
      edge_document_def reply_def ok_def jget_def)

lemmas run_defs = shell_defs io_defs Let_def no_args_def member_Some jget_def show_arg_def
  to_string_def fileFromSync_def readFile_def fetchEx_tagged fetchEx_plain reply_def ok_def
  amoChannel_def or_empty_def init_def promise_all2_def getSecret_def writeFile_def emit_def
  show_nat.simps truthy_def optional_member_def headers_get_Location_def

lemma requestSignature_rejecting_world:
  "requestSignature unlisted rejecting_world (Some ''/tmp/a/ext.xpi'') ''/tmp/b/ext.signed.xpi''
     manifest_1_0 init
   = (Exit 1,
      init\<lparr>trace := [Exec ''secret-tool lookup token amo_api_key'',
                      Exec ''secret-tool lookup token amo_secret'',
                      ReadFile ''/tmp/a/ext.xpi'',
                      Log ''Submitting package to be signed...'',
                      Log ''  https://addons.mozilla.org/api/v4/addons/ext@example/versions/1.0/'',
                      Fetch AmoSubmit,
                      Log ''Request for signing xpi package succeeded'',
                      Log ''Waiting for AMO to process the request to sign the self-hosted xpi package...'',
                      Sleep 60, Fetch AmoCheck, Log ''Error: AMO validation failed''],
            secrets := [(''amo_secret'', []), (''amo_api_key'', [])]\<rparr>)"
  by (simp add: requestSignature_def amo_submit_def amo_poll_eq poll_loop_step amo_check_def
      run_defs unlisted_def manifest_1_0_def)

lemma publishToEdgeStore_rejecting_world:
  "publishToEdgeStore no_args rejecting_world (Some ''/tmp/a/ext.zip'') init
   = (Exit 1,
      init\<lparr>trace := [ReadFile ''/tmp/a/ext.zip'',
          Log ''Uploading package to https://api.addons.microsoftedge.microsoft.com/v1/products/undefined/submissions/draft/package'',
          Fetch EdgeUpload, Log ''Upload succeeded'', Log ''Checking upload status...'',
          Sleep 60, Fetch EdgeStatus, Log ''Upload status check failed -- server error Failed'']\<rparr>)"
  by (simp add: publishToEdgeStore_def edge_upload_def edge_poll_eq poll_loop_step edge_check_def
      run_defs)

lemma checkSignature_rejecting_world:
  "checkSignature unlisted rejecting_world (Some ''/tmp/a/ext.xpi'') ''/tmp/b/ext.signed.xpi''
     manifest_1_0 init
   = (Exit 1,
      init\<lparr>trace := [Log ''Waiting for AMO to process the request to sign the self-hosted xpi package...'',
          Fetch AmoLookup, Log ''AMO validation: disabled'', Log ''Error: AMO signing failed'']\<rparr>)"
  by (simp add: checkSignature_def amo_lookup_def run_defs manifest_1_0_def)





subsection \<open>The Edge scenario\<close>


lemma edge_world_simps [simp]:
  "fetch_reply edge_world x k =
     (case x of
            GhReleaseInfo \<Rightarrow> reply 200 (Some release_doc)
          | EdgeListing \<Rightarrow> page ''<html><title>Foo - Microsoft Edge Addons</title></html>''
          | CwsListing \<Rightarrow> page ''<html><title>Foo - Chrome Web Store</title></html>''
          | EdgeUpload \<Rightarrow> reply 202 None
          | EdgeStatus \<Rightarrow>
              if k < 3 then reply 200 (Some (JObj [(''status'', JStr ''InProgress'')]))
              else reply 200 (Some (JObj [(''status'', JStr ''Succeeded'')]))
          | EdgePublish \<Rightarrow> reply 202 None
          | _ \<Rightarrow> reply 200 (Some (JObj [])))"
  "exec_reply edge_world c k = Some ''manifest.json''"
  "read_reply edge_world p k = Some ''{}''"
  "JSON_parse edge_world t = manifest_1_0"
  "valid_url edge_world u"
  "answer edge_world q k = ''yes''"
  "mkdtemp_reply edge_world k = ''/tmp/github-asset-'' @ show_nat k"
  "dirname edge_world p = ''/tmp''"
  "basename edge_world p = p"
  "JSON_stringify edge_world j = ''{}''"
  "today edge_world = (2025, 1, 1)"
  by (simp_all add: edge_world_def offline_def)

lemma release_1_0_simps [simp]:
  "storeid release_1_0 = Given ''abcdef''" "productid release_1_0 = Given ''0001''"
  "ghowner release_1_0 = Given ''gorhill''" "ghrepo release_1_0 = Given ''uBlock''"
  "ghtag release_1_0 = Given ''1.0''" "ghasset release_1_0 = Given ''ext''"
  "channel release_1_0 = Absent" "updatepath release_1_0 = Absent" "keep release_1_0 = Absent"
  "datebasedmajor release_1_0 = Absent" "verbose release_1_0 = Absent"
  by (simp_all add: release_1_0_def no_args_def)

lemmas main_defs = github_api_def asset_and_names_def validateGithubToken_def validateGithubVars_def
  getReleaseInfo_def getAssetInfo_def js_includes_def starts_with_def
  downloadAssetFromRelease_def getTempDir_def mkdtemp_def cleanupAdd_def
  extensionNameFromEdgeStore_def extensionNameFromCWS_def extensionNameFromStore_def
  title_at_def getExtensionNameFromPackage_def getManifestFromPackage_def
  getFileFromPackage_def show_path_def parse_def set_datebased_major_def set_version_name_def
  version_of_tag_def is_digit_def store_prompt_def store_prompt_text_def prompt_def
  question_def then_exit_def then_cleanDo_def page_def release_doc_def manifest_1_0_def
  json_to_string.simps

lemma github_api_edge_world:
  "github_api release_1_0 edge_world init
   = (Val \<lparr>auth = ''Bearer manifest.json'', owner = Given ''gorhill'', repo = Given ''uBlock'',
            tag = Given ''1.0'', asset = Given ''ext''\<rparr>,
      init\<lparr>trace := [Exec ''secret-tool lookup token github_token''],
           secrets := [(''github_token'', ''manifest.json'')]\<rparr>)"
  by (simp add: main_defs run_defs)


lemma edge_world_statuses:
  "edge_pending (fetch_reply edge_world EdgeStatus 0)"
  "edge_pending (fetch_reply edge_world EdgeStatus 1)"
  "edge_pending (fetch_reply edge_world EdgeStatus 2)"
  "edge_completed (fetch_reply edge_world EdgeStatus 3)"
  by (simp_all add: edge_pending_def edge_completed_def edge_document_def reply_def jget_def)

lemma edge_poll_three_pending_then_completed:
  assumes "edge_pending (fetch_reply env EdgeStatus (count_list (trace s) (Fetch EdgeStatus)))"
    and "edge_pending (fetch_reply env EdgeStatus (Suc (count_list (trace s) (Fetch EdgeStatus))))"
    and "edge_pending (fetch_reply env EdgeStatus (Suc (Suc (count_list (trace s) (Fetch EdgeStatus)))))"
    and "edge_completed (fetch_reply env EdgeStatus (Suc (Suc (Suc (count_list (trace s) (Fetch EdgeStatus))))))"
  shows "edge_poll env s =
    (Val (), s\<lparr>trace := trace s @ [Sleep 60, Fetch EdgeStatus, Sleep 60, Fetch EdgeStatus,
        Sleep 60, Fetch EdgeStatus, Sleep 60, Fetch EdgeStatus, Log ''Package ready to be published.'']\<rparr>)"
  using assms
  by (simp add: edge_poll_eq poll_loop_step edge_check_pending edge_check_done)

text \<open>
  Claim C2, as the code supports it, for \<open>publishToEdgeStore\<close>. When the package can be
  read, the store accepts the upload with status 202, answers \<open>InProgress\<close> to the next
  three status checks and a completed status to the fourth, and accepts the publication
  with status 202, the function sleeps 60 seconds before each of exactly four status
  checks, downloads nothing, issues one publication request and returns.
\<close>

theorem publishToEdgeStore_three_pending_then_completed:
  assumes "read_reply env p (count_list (trace s) (ReadFile p)) = Some bytes"
    and "fetch_reply env EdgeUpload (count_list (trace s) (Fetch EdgeUpload)) = Responded up"
    and "status up = 202"
    and "edge_pending (fetch_reply env EdgeStatus (count_list (trace s) (Fetch EdgeStatus)))"
    and "edge_pending (fetch_reply env EdgeStatus (count_list (trace s) (Fetch EdgeStatus) + 1))"
    and "edge_pending (fetch_reply env EdgeStatus (count_list (trace s) (Fetch EdgeStatus) + 2))"
    and "edge_completed (fetch_reply env EdgeStatus (count_list (trace s) (Fetch EdgeStatus) + 3))"
    and "fetch_reply env EdgePublish (count_list (trace s) (Fetch EdgePublish)) = Responded pub"
    and "status pub = 202"
  shows "publishToEdgeStore cfg env (Some p) s =
    (Val (), s\<lparr>trace := trace s @
       [ReadFile p,
        Log (''Uploading package to https://api.addons.microsoftedge.microsoft.com/v1/products/''
             @ show_arg (productid cfg) @ ''/submissions/draft/package''),
        Fetch EdgeUpload, Log ''Upload succeeded'', Log ''Checking upload status...'',
        Sleep 60, Fetch EdgeStatus, Sleep 60, Fetch EdgeStatus, Sleep 60, Fetch EdgeStatus,
        Sleep 60, Fetch EdgeStatus, Log ''Package ready to be published.'',
        Log ''Publish package...'', Fetch EdgePublish, Log ''Publish succeeded.'']\<rparr>)"
proof -
  let ?url = "''https://api.addons.microsoftedge.microsoft.com/v1/products/''
             @ show_arg (productid cfg) @ ''/submissions/draft/package''"
  let ?s1 = "s\<lparr>trace := trace s @ [ReadFile p, Log (''Uploading package to '' @ ?url),
        Fetch EdgeUpload, Log ''Upload succeeded'', Log ''Checking upload status...'']\<rparr>"
  have up: "edge_upload cfg env (Some p) s = (Val (), ?s1)"
    using assms(1-3)
    by (simp add: edge_upload_def fileFromSync_def readFile_def fetchEx_plain io_defs Let_def
        ok_def headers_get_Location_def split: option.splits)
  let ?s2 = "s\<lparr>trace := trace ?s1 @ [Sleep 60, Fetch EdgeStatus, Sleep 60, Fetch EdgeStatus,
        Sleep 60, Fetch EdgeStatus, Sleep 60, Fetch EdgeStatus, Log ''Package ready to be published.'']\<rparr>"
  have loop: "edge_poll env ?s1 = (Val (), ?s2)"
    using assms(4-7)
    by (subst edge_poll_three_pending_then_completed) (simp_all add: numeral_3_eq_3)
  have pub: "edge_publish env ?s2 = (Val (), s\<lparr>trace := trace ?s2 @
      [Log ''Publish package...'', Fetch EdgePublish, Log ''Publish succeeded.'']\<rparr>)"
    using assms(8,9)
    by (simp add: edge_publish_def fetchEx_plain io_defs Let_def ok_def headers_get_Location_def
        split: option.splits)
  show ?thesis
    by (simp add: publishToEdgeStore_def thn_def bnd_def up loop [simplified] pub [simplified])
qed

theorem publishToEdgeStore_three_pending_then_completed_witness:
  "publishToEdgeStore release_1_0 edge_world (Some ''/tmp/github-asset-0/ext.zip'') init =
    (Val (), init\<lparr>trace :=
       [ReadFile ''/tmp/github-asset-0/ext.zip'',
        Log ''Uploading package to https://api.addons.microsoftedge.microsoft.com/v1/products/0001/submissions/draft/package'',
        Fetch EdgeUpload, Log ''Upload succeeded'', Log ''Checking upload status...'',
        Sleep 60, Fetch EdgeStatus, Sleep 60, Fetch EdgeStatus, Sleep 60, Fetch EdgeStatus,
        Sleep 60, Fetch EdgeStatus, Log ''Package ready to be published.'',
        Log ''Publish package...'', Fetch EdgePublish, Log ''Publish succeeded.'']\<rparr>)"
  using publishToEdgeStore_three_pending_then_completed [of edge_world "''/tmp/github-asset-0/ext.zip''"
      init "''{}''"
      "\<lparr>status = 202, statusText = [], location = Some ''op'', json_body = None,
        text_body = Some [], bytes_body = Some []\<rparr>"
      "\<lparr>status = 202, statusText = [], location = Some ''op'', json_body = None,
        text_body = Some [], bytes_body = Some []\<rparr>" release_1_0]
  by (simp add: reply_def show_arg_def edge_pending_def edge_completed_def edge_document_def
      jget_def)

text \<open>
  Claim C2 as stated fails. With a store that behaves as the claim says and an operator
  who confirms, the Edge script asks for the confirmation once and then ends with status
  1: \<open>main\<close> calls \<open>process.exit(1)\<close> right after the prompt. Its only requests are for the
  release, the asset and the store listing; no status check is issued.
\<close>

lemma publish_edge_run:
  "case publish_edge release_1_0 edge_world init of
     (r, s) \<Rightarrow>
       r = Exit 1
       \<and> filter is_request (trace s) = [Fetch GhReleaseInfo, Fetch GhAsset, Fetch EdgeListing]
       \<and> length (filter is_question (trace s)) = 1
       \<and> Log ''Aborted'' \<notin> set (trace s)
       \<and> cleanupJobs s = [''/tmp/github-asset-0'', ''/tmp/github-asset-1'', ''/tmp/github-asset-2'']"
  by (simp add: publish_edge_def publish_edge_main_def main_defs run_defs is_request_def
        is_question_def)

theorem publish_edge_counterexample:
  "edge_pending (fetch_reply edge_world EdgeStatus 0)
   \<and> edge_pending (fetch_reply edge_world EdgeStatus 1)
   \<and> edge_pending (fetch_reply edge_world EdgeStatus 2)
   \<and> edge_completed (fetch_reply edge_world EdgeStatus 3)
   \<and> exit_status (fst (publish_edge release_1_0 edge_world init)) = 1
   \<and> filter is_request (trace (snd (publish_edge release_1_0 edge_world init)))
       = [Fetch GhReleaseInfo, Fetch GhAsset, Fetch EdgeListing]
   \<and> length (filter is_question (trace (snd (publish_edge release_1_0 edge_world init)))) = 1
   \<and> Log ''Aborted'' \<notin> set (trace (snd (publish_edge release_1_0 edge_world init)))"
  using publish_edge_run edge_world_statuses
  by (cases "publish_edge release_1_0 edge_world init") (simp add: exit_status_def)


subsection \<open>The name on the listing and the name in the manifest\<close>

lemma name_mismatch_chromium:
  assumes gh: "fst (github_api cfg env init) = Val gh"
    and names: "fst (asset_and_names gh cfg env (extensionNameFromCWS env) (snd (github_api cfg env init)))
       = Val (assetInfo, packagePath, storeName, manifestName)"
    and mismatch: "truthy manifestName" "manifestName \<noteq> Some (JStr storeName)"
  shows "fst (publish_chromium cfg env init) = Throw ''ReferenceError''"
    and "list_all (\<lambda>e. e \<noteq> Fetch CwsAuth \<and> e \<noteq> Fetch CwsUpload \<and> e \<noteq> Fetch CwsPublish)
           (trace (snd (publish_chromium cfg env init)))"
proof -
  let ?A = "\<lambda>e. e \<noteq> Fetch CwsAuth \<and> e \<noteq> Fetch CwsUpload \<and> e \<noteq> Fetch CwsPublish"
  let ?s0 = "snd (github_api cfg env init)"
  let ?names = "asset_and_names gh cfg env (extensionNameFromCWS env)"
  have run: "publish_chromium cfg env init = (Throw ''ReferenceError'', snd (?names ?s0))"
    using gh names mismatch
    by (simp add: publish_chromium_def publish_chromium_main_def bnd_apply throw_def)
  then show "fst (publish_chromium cfg env init) = Throw ''ReferenceError''" by simp
  have "emits ?A (github_api cfg env)" by (simp add: emits_intros)
  from emits_trace [OF this, of init] have "list_all ?A (trace ?s0)" by simp
  moreover have "emits ?A ?names"
    by (simp add: emits_intros extensionNameFromCWS_def)
  ultimately have "list_all ?A (trace (snd (?names ?s0)))" by (rule emits_trace [rotated])
  with run show "list_all ?A (trace (snd (publish_chromium cfg env init)))" by simp
qed

lemma name_mismatch_edge:
  assumes gh: "fst (github_api cfg env init) = Val gh"
    and names: "fst (asset_and_names gh cfg env (extensionNameFromEdgeStore env) (snd (github_api cfg env init)))
       = Val (assetInfo, packagePath, storeName, manifestName)"
    and mismatch: "truthy manifestName" "manifestName \<noteq> Some (JStr storeName)"
  shows "fst (publish_edge cfg env init) = Exit 1"
    and "list_all (\<lambda>e. e \<noteq> Fetch EdgeUpload \<and> e \<noteq> Fetch EdgeStatus \<and> e \<noteq> Fetch EdgePublish)
           (trace (snd (publish_edge cfg env init)))"
proof -
  let ?A = "\<lambda>e. e \<noteq> Fetch EdgeUpload \<and> e \<noteq> Fetch EdgeStatus \<and> e \<noteq> Fetch EdgePublish"
  let ?s0 = "snd (github_api cfg env init)"
  let ?names = "asset_and_names gh cfg env (extensionNameFromEdgeStore env)"
  let ?s1 = "snd (?names ?s0)"
  obtain msg where run: "publish_edge cfg env init = (Exit 1, ?s1\<lparr>trace := trace ?s1 @ [Log msg]\<rparr>)"
    using gh names mismatch
    by (simp add: publish_edge_def publish_edge_main_def bnd_apply exit_with_apply)
  then show "fst (publish_edge cfg env init) = Exit 1" by simp
  have "emits ?A (github_api cfg env)" by (simp add: emits_intros)
  from emits_trace [OF this, of init] have "list_all ?A (trace ?s0)" by simp
  moreover have "emits ?A ?names"
    by (simp add: emits_intros extensionNameFromEdgeStore_def)
  ultimately have "list_all ?A (trace ?s1)" by (rule emits_trace [rotated])
  with run show "list_all ?A (trace (snd (publish_edge cfg env init)))" by simp
qed


lemma mismatch_world_simps [simp]:
  "fetch_reply mismatch_world x k =
     (case x of
            EdgeListing \<Rightarrow> page ''<html><title>Bar - Microsoft Edge Addons</title></html>''
          | CwsListing \<Rightarrow> page ''<html><title>Bar - Chrome Web Store</title></html>''
          | _ \<Rightarrow> fetch_reply edge_world x k)"
  "exec_reply mismatch_world c k = Some ''manifest.json''"
  "read_reply mismatch_world p k = Some ''{}''"
  "JSON_parse mismatch_world t = manifest_1_0"
  "mkdtemp_reply mismatch_world = mkdtemp_reply edge_world"
  "answer mismatch_world = answer edge_world"
  "valid_url mismatch_world = valid_url edge_world"
  "dirname mismatch_world = dirname edge_world"
  "basename mismatch_world = basename edge_world"
  by (simp_all add: mismatch_world_def edge_world_def)

lemma github_api_mismatch_world:
  "github_api release_1_0 mismatch_world init
   = (Val \<lparr>auth = ''Bearer manifest.json'', owner = Given ''gorhill'', repo = Given ''uBlock'',
            tag = Given ''1.0'', asset = Given ''ext''\<rparr>,
      init\<lparr>trace := [Exec ''secret-tool lookup token github_token''],
           secrets := [(''github_token'', ''manifest.json'')]\<rparr>)"
  by (simp add: main_defs run_defs)

lemma names_mismatch_world:
  "fst (asset_and_names
         \<lparr>auth = ''Bearer manifest.json'', owner = Given ''gorhill'', repo = Given ''uBlock'',
            tag = Given ''1.0'', asset = Given ''ext''\<rparr> release_1_0 mismatch_world
         (extensionNameFromCWS mismatch_world)
         (init\<lparr>trace := [Exec ''secret-tool lookup token github_token''],
           secrets := [(''github_token'', ''manifest.json'')]\<rparr>))
   = Val (Some (JObj [(''name'', JStr ''ext.zip''), (''url'', JStr ''https://api.github.com/assets/1'')]),
          Some ''/tmp/github-asset-0/ext.zip'', ''Bar'', Some (JStr ''Foo''))"
  "fst (asset_and_names
         \<lparr>auth = ''Bearer manifest.json'', owner = Given ''gorhill'', repo = Given ''uBlock'',
            tag = Given ''1.0'', asset = Given ''ext''\<rparr> release_1_0 mismatch_world
         (extensionNameFromEdgeStore mismatch_world)
         (init\<lparr>trace := [Exec ''secret-tool lookup token github_token''],
           secrets := [(''github_token'', ''manifest.json'')]\<rparr>))
   = Val (Some (JObj [(''name'', JStr ''ext.zip''), (''url'', JStr ''https://api.github.com/assets/1'')]),
          Some ''/tmp/github-asset-0/ext.zip'', ''Bar'', Some (JStr ''Foo''))"
  by (simp_all add: main_defs run_defs)




subsection \<open>Cleanup jobs\<close>

lemma release_world_simps [simp]:
  "fetch_reply release_world x k =
       (case x of
            GhReleaseInfo \<Rightarrow> reply 200 (Some release_doc)
          | CwsListing \<Rightarrow> page ''<html><title>Foo - Chrome Web Store</title></html>''
          | CwsAuth \<Rightarrow> reply 200 (Some (JObj [(''access_token'', JStr ''token'')]))
          | CwsUpload \<Rightarrow> reply 200 (Some (JObj [(''uploadState'', JStr ''SUCCESS'')]))
          | CwsPublish \<Rightarrow> reply 200 (Some (JObj [(''status'', JArr [JStr ''OK''])]))
          | AmoSubmit \<Rightarrow> reply 201 (Some (JObj [(''url'', JStr ''https://addons.mozilla.org/upload'')]))
          | AmoCheck \<Rightarrow> reply 200 (Some ready_doc)
          | _ \<Rightarrow> reply 200 (Some (JObj [])))"
  "exec_reply release_world c k = Some ''manifest.json''"
  "read_reply release_world p k = Some ''{}''"
  "JSON_parse release_world t = gecko_manifest"
  "mkdtemp_reply release_world k = ''/tmp/github-asset-'' @ show_nat k"
  "answer release_world m k = ''yes''"
  "valid_url release_world u = True"
  "dirname release_world p = (if p = ''manifest.json'' then ''.'' else ''/tmp/github-asset-0'')"
  "basename release_world p = p"
  "JSON_stringify release_world j = ''{}''"
  by (simp_all add: release_world_def offline_def)

lemma release_unlisted_simps [simp]:
  "storeid release_unlisted = Given ''abcdef''"
  "productid release_unlisted = Given ''0001''"
  "ghowner release_unlisted = Given ''gorhill''"
  "ghrepo release_unlisted = Given ''uBlock''"
  "ghtag release_unlisted = Given ''1.0''"
  "ghasset release_unlisted = Given ''ext''"
  "channel release_unlisted = Given ''unlisted''"
  "verbose release_unlisted = Absent"
  "keep release_unlisted = Absent"
  "updatepath release_unlisted = Absent"
  "datebasedmajor release_unlisted = Absent"
  by (simp_all add: release_unlisted_def release_1_0_def no_args_def)

lemmas script_defs = publishToCWS_def error_exit_def remove_dir_of_def is_removal_def one_line_def
  gecko_manifest_def detached_def

lemma chromium_release_run:
  "case publish_chromium_main \<lparr>auth = ''Bearer manifest.json'', owner = Given ''gorhill'', repo = Given ''uBlock'',
            tag = Given ''1.0'', asset = Given ''ext''\<rparr> release_unlisted release_world (init\<lparr>trace := [Exec ''secret-tool lookup token github_token''],
           secrets := [(''github_token'', ''manifest.json'')]\<rparr>) of
     (r, s) \<Rightarrow>
       r = Val None
       \<and> cleanupJobs s = [''/tmp/github-asset-0'', ''/tmp/github-asset-1'', ''/tmp/github-asset-2'']
       \<and> filter is_removal (trace s) = [Exec (''rm -rf '' @ dq @ ''/tmp/github-asset-0'' @ dq)]"
  by (simp add: publish_chromium_main_def main_defs run_defs script_defs)

lemmas firefox_defs = publish_firefox_main_def requestSignature_def amo_submit_def amo_poll_eq
  amo_download_def uploadAssetToRelease_def deleteAssetFromRelease_def firefox_prompt_text_def
  signed_name_def set_update_url_def failed_upload_text_def autoUpdatepath_def
  updateManifestInPackage_def try_readFile_def replace_first.simps poll_loop_step amo_check_def
  ready_doc_def assign_def set_member_def obj_set.simps the_json_def index0_def

lemma firefox_release_run:
  "case publish_firefox_main \<lparr>auth = ''Bearer manifest.json'', owner = Given ''gorhill'', repo = Given ''uBlock'',
            tag = Given ''1.0'', asset = Given ''ext''\<rparr> release_unlisted release_world (init\<lparr>trace := [Exec ''secret-tool lookup token github_token''],
           secrets := [(''github_token'', ''manifest.json'')]\<rparr>) of
     (r, s) \<Rightarrow>
       r = Val None
       \<and> cleanupJobs s = [''/tmp/github-asset-0'', ''/tmp/github-asset-1'',
                          ''/tmp/github-asset-2'', ''/tmp/github-asset-3'']
       \<and> filter is_removal (trace s) = []"
  by (simp add: firefox_defs main_defs run_defs script_defs)

lemma github_api_release_world:
  "github_api release_unlisted release_world init = (Val \<lparr>auth = ''Bearer manifest.json'', owner = Given ''gorhill'', repo = Given ''uBlock'',
            tag = Given ''1.0'', asset = Given ''ext''\<rparr>, (init\<lparr>trace := [Exec ''secret-tool lookup token github_token''],
           secrets := [(''github_token'', ''manifest.json'')]\<rparr>))"
  by (simp add: main_defs run_defs)

lemma declining_world_simps [simp]:
  "fetch_reply declining_world = fetch_reply edge_world"
  "exec_reply declining_world = exec_reply edge_world"
  "read_reply declining_world = read_reply edge_world"
  "JSON_parse declining_world = JSON_parse edge_world"
  "mkdtemp_reply declining_world = mkdtemp_reply edge_world"
  "answer declining_world m k = ''no''"
  "valid_url declining_world = valid_url edge_world"
  "dirname declining_world = dirname edge_world"
  "basename declining_world = basename edge_world"
  by (simp_all add: declining_world_def)

lemma publish_chromium_declined:
  "case publish_chromium release_1_0 declining_world init of
     (r, s) \<Rightarrow>
       r = Exit 1
       \<and> last (trace s) = Log ''Aborted''
       \<and> cleanupJobs s = [''/tmp/github-asset-0'', ''/tmp/github-asset-1'', ''/tmp/github-asset-2'']
       \<and> filter is_removal (trace s) = []"
  by (simp add: publish_chromium_def publish_chromium_main_def main_defs run_defs script_defs)

text \<open>Claim C9, as stated, fails: an operator who answers no to the confirmation of the
  Chromium script ends the process in \<open>prompt\<close>, with status 1, while the three scratch
  directories of the run are still registered and none has been removed.\<close>

theorem declined_confirmation_skips_cleanup_counterexample:
  "fst (publish_chromium release_1_0 declining_world init) = Exit 1
   \<and> last (trace (snd (publish_chromium release_1_0 declining_world init))) = Log ''Aborted''
   \<and> cleanupJobs (snd (publish_chromium release_1_0 declining_world init))
       = [''/tmp/github-asset-0'', ''/tmp/github-asset-1'', ''/tmp/github-asset-2'']
   \<and> filter is_removal (trace (snd (publish_chromium release_1_0 declining_world init))) = []"
  using publish_chromium_declined
  by (cases "publish_chromium release_1_0 declining_world init") simp

text \<open>Claim C9, amended. In the Chromium and the Firefox script the handler attached to
  \<open>main()\<close> calls \<open>cleanDo\<close>. When \<open>main\<close> returns, each registered cleanup job is run exactly
  once, in the order of registration, and the queue is empty when the process ends, with
  status 0, or 1 when \<open>main\<close> returned a message. When \<open>main\<close> ends the process itself
  (\<open>process.exit\<close> after a failure, a rejection by the store, a timeout or a declined
  confirmation) or is rejected, the handler does not run and the process ends in the state
  \<open>main\<close> left, the queue not run. The names of the scratch directories are taken to hold no
  line break.\<close>

theorem cleanup_jobs_run_once_when_main_returns:
  assumes "fst (github_api cfg env init) = Val gh"
  shows "(list_all one_line
            (cleanupJobs (snd (publish_chromium_main gh cfg env (snd (github_api cfg env init)))))
          \<longrightarrow> publish_chromium cfg env init
              = after_main cfg (publish_chromium_main gh cfg env (snd (github_api cfg env init))))
       \<and> (list_all one_line
            (cleanupJobs (snd (publish_firefox_main gh cfg env (snd (github_api cfg env init)))))
          \<longrightarrow> publish_firefox cfg env init
              = after_main cfg (publish_firefox_main gh cfg env (snd (github_api cfg env init))))"
proof -
  have "bnd (github_api cfg env) (\<lambda>gh. bnd (main gh) (then_cleanDo cfg env)) init
         = after_main cfg (main gh (snd (github_api cfg env init)))"
    if "list_all one_line (cleanupJobs (snd (main gh (snd (github_api cfg env init)))))"
    for main :: "details \<Rightarrow> string option io"
  proof (cases "main gh (snd (github_api cfg env init))")
    case (Pair r s)
    with that have "list_all one_line (cleanupJobs s)" by simp
    with Pair assms show ?thesis
      by (cases r) (simp_all add: bnd_apply after_main_def then_cleanDo_apply)
  qed
  then show ?thesis by (simp add: publish_chromium_def publish_firefox_def)
qed

theorem cleanup_jobs_run_once_when_main_returns_witness:
  "fst (github_api release_unlisted release_world init) = Val \<lparr>auth = ''Bearer manifest.json'', owner = Given ''gorhill'', repo = Given ''uBlock'',
            tag = Given ''1.0'', asset = Given ''ext''\<rparr>
   \<and> list_all one_line (cleanupJobs (snd (publish_chromium_main \<lparr>auth = ''Bearer manifest.json'', owner = Given ''gorhill'', repo = Given ''uBlock'',
            tag = Given ''1.0'', asset = Given ''ext''\<rparr> release_unlisted release_world
         (snd (github_api release_unlisted release_world init)))))
   \<and> list_all one_line (cleanupJobs (snd (publish_firefox_main \<lparr>auth = ''Bearer manifest.json'', owner = Given ''gorhill'', repo = Given ''uBlock'',
            tag = Given ''1.0'', asset = Given ''ext''\<rparr> release_unlisted release_world
         (snd (github_api release_unlisted release_world init)))))
   \<and> fst (publish_chromium release_unlisted release_world init) = Exit 0
   \<and> cleanupJobs (snd (publish_chromium release_unlisted release_world init)) = []
   \<and> filter is_removal (trace (snd (publish_chromium release_unlisted release_world init)))
       = [Exec (''rm -rf '' @ dq @ ''/tmp/github-asset-0'' @ dq),
          Exec (''rm -rf '' @ dq @ ''/tmp/github-asset-0'' @ dq),
          Exec (''rm -rf '' @ dq @ ''/tmp/github-asset-1'' @ dq),
          Exec (''rm -rf '' @ dq @ ''/tmp/github-asset-2'' @ dq)]
   \<and> fst (publish_firefox release_unlisted release_world init) = Exit 0
   \<and> cleanupJobs (snd (publish_firefox release_unlisted release_world init)) = []
   \<and> filter is_removal (trace (snd (publish_firefox release_unlisted release_world init)))
       = [Exec (''rm -rf '' @ dq @ ''/tmp/github-asset-0'' @ dq),
          Exec (''rm -rf '' @ dq @ ''/tmp/github-asset-1'' @ dq),
          Exec (''rm -rf '' @ dq @ ''/tmp/github-asset-2'' @ dq),
          Exec (''rm -rf '' @ dq @ ''/tmp/github-asset-3'' @ dq)]"
proof -
  obtain r1 s1 where c: "publish_chromium_main \<lparr>auth = ''Bearer manifest.json'', owner = Given ''gorhill'', repo = Given ''uBlock'',
            tag = Given ''1.0'', asset = Given ''ext''\<rparr> release_unlisted release_world (init\<lparr>trace := [Exec ''secret-tool lookup token github_token''],
           secrets := [(''github_token'', ''manifest.json'')]\<rparr>) = (r1, s1)"
    by (cases "publish_chromium_main \<lparr>auth = ''Bearer manifest.json'', owner = Given ''gorhill'', repo = Given ''uBlock'',
            tag = Given ''1.0'', asset = Given ''ext''\<rparr> release_unlisted release_world (init\<lparr>trace := [Exec ''secret-tool lookup token github_token''],
           secrets := [(''github_token'', ''manifest.json'')]\<rparr>)")
  obtain r2 s2 where f: "publish_firefox_main \<lparr>auth = ''Bearer manifest.json'', owner = Given ''gorhill'', repo = Given ''uBlock'',
            tag = Given ''1.0'', asset = Given ''ext''\<rparr> release_unlisted release_world (init\<lparr>trace := [Exec ''secret-tool lookup token github_token''],
           secrets := [(''github_token'', ''manifest.json'')]\<rparr>) = (r2, s2)"
    by (cases "publish_firefox_main \<lparr>auth = ''Bearer manifest.json'', owner = Given ''gorhill'', repo = Given ''uBlock'',
            tag = Given ''1.0'', asset = Given ''ext''\<rparr> release_unlisted release_world (init\<lparr>trace := [Exec ''secret-tool lookup token github_token''],
           secrets := [(''github_token'', ''manifest.json'')]\<rparr>)")
  from c f chromium_release_run firefox_release_run
    cleanup_jobs_run_once_when_main_returns [of release_unlisted release_world "\<lparr>auth = ''Bearer manifest.json'', owner = Given ''gorhill'', repo = Given ''uBlock'',
            tag = Given ''1.0'', asset = Given ''ext''\<rparr>"]
  show ?thesis
    by (simp add: github_api_release_world after_main_def one_line_def is_nl_def removal_def
        is_removal_def arg_truthy_def dq_def)
qed


subsection \<open>The auto-update descriptor\<close>

lemma split_lines_append: "one_line t \<Longrightarrow> split_lines cur (t @ rest) = split_lines (cur @ t) rest"
  by (induction t arbitrary: cur) (simp_all add: one_line_def)

lemma no_continuation:
  assumes "last c \<noteq> CHR 0x5C"
  shows "drop (length c - 2) c \<noteq> [CHR '' '', CHR 0x5C]"
proof
  assume a: "drop (length c - 2) c = [CHR '' '', CHR 0x5C]"
  then have "c \<noteq> []" by auto
  then have "last (drop (length c - 2) c) = last c" by (simp add: last_drop)
  with a assms show False by simp
qed

lemma trim_Nil [simp]: "trim [] = []"
  by (simp add: trim_def)

lemma shellExec_loop_blank:
  "trim line = [] \<Longrightarrow> shellExec_loop cfg env (line # lines) [] r = shellExec_loop cfg env lines [] r"
  by (simp add: Let_def)

lemma shellExec_loop_plain:
  assumes "trim line = c" and "trim c = c" and "c \<noteq> []" and "last c \<noteq> CHR 0x5C"
  shows "shellExec_loop cfg env (line # lines) [] r =
     thn (if arg_truthy (verbose cfg) then console_log (''Executing: '' @ c) else ret ())
       (bnd (execSync env c) (\<lambda>out. shellExec_loop cfg env lines [] (Some out)))"
  using assms no_continuation [OF assms(4)] by (simp add: Let_def)

lemma commit_lines:
  assumes "one_line path"
  shows "split_lines [] (commit_and_push path)
    = [[], ''        '' @ commit_line path, ''        git push origin HEAD'', ''    '']"
  using split_lines_append [OF assms]
  by (simp add: commit_and_push_def commit_line_def nl_def dq_def sq_def is_nl_def)

lemma trim_commit_line [simp]:
  "trim (''        '' @ commit_line path) = commit_line path"
  "trim (commit_line path) = commit_line path"
  "commit_line path \<noteq> []"
  "last (commit_line path) \<noteq> CHR 0x5C"
  "take 10 (commit_line path) = ''git commit''"
  "commit_line path \<noteq> ''git push origin HEAD''"
  by (simp_all add: commit_line_def trim_def is_space_def dq_def sq_def)


lemma commit_and_push_events:
  assumes "one_line path"
  shows "\<exists>es. trace (snd (shellExec cfg env (commit_and_push path) s)) = trace s @ es
           \<and> filter is_commit es = [Exec (commit_line path)] \<and> filter is_write es = []"
proof -
  let ?push = "''git push origin HEAD''"
  let ?v = "\<lambda>c. if arg_truthy (verbose cfg) then console_log (''Executing: '' @ c) else ret ()"
  have t: "trim ''        git push origin HEAD'' = ?push" "trim ?push = ?push" "trim ''    '' = []"
    "?push \<noteq> []" "last ?push \<noteq> CHR 0x5C"
    by (simp_all add: trim_def is_space_def)
  have push: "shellExec_loop cfg env [''        git push origin HEAD'', ''    ''] [] r
      = thn (?v ?push) (bnd (execSync env ?push) (\<lambda>out. ret (Some out)))" for r
    by (simp only: shellExec_loop_plain [OF t(1,2,4,5)] shellExec_loop_blank [OF t(3)]
        shellExec_loop.simps(1))
  have "shellExec_loop cfg env (split_lines [] (commit_and_push path)) [] None
      = shellExec_loop cfg env [''        '' @ commit_line path,
          ''        git push origin HEAD'', ''    ''] [] None"
    unfolding commit_lines [OF assms] by (rule shellExec_loop_blank) simp
  also have "\<dots> = thn (?v (commit_line path)) (bnd (execSync env (commit_line path))
      (\<lambda>out. shellExec_loop cfg env [''        git push origin HEAD'', ''    ''] [] (Some out)))"
    by (rule shellExec_loop_plain) (rule trim_commit_line)+
  finally have "shellExec_loop cfg env (split_lines [] (commit_and_push path)) [] None
    = thn (?v (commit_line path)) (bnd (execSync env (commit_line path)) (\<lambda>out.
        thn (?v ?push) (bnd (execSync env ?push) (\<lambda>out. ret (Some out)))))"
    by (simp only: push)
  then have "shellExec cfg env (commit_and_push path)
    = bnd (thn (?v (commit_line path)) (bnd (execSync env (commit_line path)) (\<lambda>out.
        thn (?v ?push) (bnd (execSync env ?push) (\<lambda>out. ret (Some out))))))
        (\<lambda>r. ret (map_option trim r))"
    by (simp only: shellExec_def)
  then show ?thesis
    by (simp add: execSync_def bnd_def thn_def ret_def console_log_def emit_def Let_def
        is_commit_def is_write_def split: option.splits)
qed


lemma shellExec_quoted:
  assumes "one_line path" and "one_line (c # p)" and "\<not> is_space c"
  shows "snd (shellExec cfg env ((c # p) @ dq @ path @ dq) s)
    = s\<lparr>trace := trace s @ vlog cfg ((c # p) @ dq @ path @ dq) @ [Exec ((c # p) @ dq @ path @ dq)]\<rparr>"
proof -
  define t where "t = (c # p) @ dq @ path @ dq"
  have "one_line t" using assms(1,2) by (simp add: t_def one_line_def dq_def is_nl_def)
  then have "split_lines [] t = [t]" using split_lines_one_line [of t "[]"] by simp
  moreover have "t = c # (p @ dq @ path) @ [CHR 0x22]" by (simp add: t_def dq_def)
  then have "trim t = t" using trim_ends [of c "CHR 0x22" "p @ dq @ path"] assms(3)
    by (simp add: is_space_def)
  moreover have "t \<noteq> []" by (simp add: t_def)
  moreover have "last t \<noteq> CHR 0x5C" by (simp add: t_def dq_def)
  then have "drop (length t - 2) t \<noteq> [CHR '' '', CHR 0x5C]" by (rule no_continuation)
  ultimately show ?thesis unfolding t_def [symmetric] vlog_def by (rule shellExec_one_line)
qed

lemma quiet_command:
  assumes "take 10 c \<noteq> ''git commit''"
  shows "filter is_write (vlog cfg c @ [Exec c]) = []" and "filter is_commit (vlog cfg c @ [Exec c]) = []"
  using assms by (simp_all add: vlog_def is_write_def is_commit_def)

lemma commit_update_events:
  assumes "one_line path"
  shows "\<exists>es. trace (snd (commit_update cfg env path s)) = trace s @ es
           \<and> filter is_write es = []
           \<and> (fst (commit_update cfg env path s) = Val True \<longleftrightarrow> filter is_commit es \<noteq> [])"
proof -
  let ?add = "''git add -u '' @ dq @ path @ dq"
  let ?status = "''git status -s '' @ dq @ path @ dq"
  let ?rest = "\<lambda>r2. if r2 = None \<or> r2 = Some [] then
        thn (console_log (''git status -s '' @ dq @ path @ dq @ '' = '' @ show_path r2)) (ret False)
      else thn (detached (shellExec cfg env (commit_and_push path))) (ret True)"
  have cu: "commit_update cfg env path = thn (shellExec cfg env ?add) (bnd (shellExec cfg env ?status) ?rest)"
    by (simp add: commit_update_def)
  obtain r1 s1 where add: "shellExec cfg env ?add s = (r1, s1)" by (cases "shellExec cfg env ?add s")
  have "trace s1 = trace s @ vlog cfg ?add @ [Exec ?add]"
    using shellExec_quoted [OF assms, of "CHR ''g''" "''it add -u ''" cfg env s] add
    by (auto simp add: one_line_def is_nl_def is_space_def)
  moreover have "take 10 ?add \<noteq> ''git commit''" by simp
  ultimately obtain e1 where e1: "trace s1 = trace s @ e1" "filter is_write e1 = []"
    "filter is_commit e1 = []"
    using quiet_command by blast
  obtain r2 s2 where status: "shellExec cfg env ?status s1 = (r2, s2)"
    by (cases "shellExec cfg env ?status s1")
  have "trace s2 = trace s1 @ vlog cfg ?status @ [Exec ?status]"
    using shellExec_quoted [OF assms, of "CHR ''g''" "''it status -s ''" cfg env s1] status
    by (auto simp add: one_line_def is_nl_def is_space_def)
  moreover have "take 10 ?status \<noteq> ''git commit''" by simp
  ultimately obtain e2 where e2: "trace s2 = trace s1 @ e2" "filter is_write e2 = []"
    "filter is_commit e2 = []"
    using quiet_command by blast
  obtain es3 where es3: "trace (snd (shellExec cfg env (commit_and_push path) s2)) = trace s2 @ es3"
    "filter is_commit es3 = [Exec (commit_line path)]" "filter is_write es3 = []"
    using commit_and_push_events [OF assms, of cfg env s2] by blast
  show ?thesis
  proof (cases r1)
    case (Val x1)
    show ?thesis
    proof (cases r2)
      case (Val x2)
      show ?thesis
      proof (cases "x2 = None \<or> x2 = Some []")
        case True
        with add status \<open>r1 = Val x1\<close> \<open>r2 = Val x2\<close>
        have "commit_update cfg env path s
          = (Val False, s2\<lparr>trace := trace s2 @ [Log (''git status -s '' @ dq @ path @ dq @ '' = '' @ show_path x2)]\<rparr>)"
          by (auto simp add: cu thn_def bnd_def ret_def console_log_def emit_def)
        then show ?thesis using e1 e2 by (simp add: is_write_def is_commit_def)
      next
        case False
        with add status \<open>r1 = Val x1\<close> \<open>r2 = Val x2\<close>
        have "commit_update cfg env path s
          = (Val True, snd (shellExec cfg env (commit_and_push path) s2))"
          by (auto simp add: cu thn_def bnd_def ret_def detached_def)
        then show ?thesis using e1 e2 es3 by simp
      qed
    next
      case (Exit c)
      with add status \<open>r1 = Val x1\<close> have "commit_update cfg env path s = (Exit c, s2)"
        by (simp add: cu thn_def bnd_def)
      then show ?thesis using e1 e2 by simp
    next
      case (Throw e)
      with add status \<open>r1 = Val x1\<close> have "commit_update cfg env path s = (Throw e, s2)"
        by (simp add: cu thn_def bnd_def)
      then show ?thesis using e1 e2 by simp
    qed
  next
    case (Exit c)
    with add have "commit_update cfg env path s = (Exit c, s1)" by (simp add: cu thn_def bnd_def)
    then show ?thesis using e1 by simp
  next
    case (Throw e)
    with add have "commit_update cfg env path s = (Throw e, s1)" by (simp add: cu thn_def bnd_def)
    then show ?thesis using e1 by simp
  qed
qed


lemma bnd_Val_iff:
  "(bnd m f s = (Val y, s')) = (\<exists>x s1. m s = (Val x, s1) \<and> f x s1 = (Val y, s'))"
  by (cases "m s") (auto simp: bnd_def split: result.splits)

lemma thn_Val_iff:
  "(thn m n s = (Val y, s')) = (\<exists>x s1. m s = (Val x, s1) \<and> n s1 = (Val y, s'))"
  by (simp add: thn_def bnd_Val_iff)

lemma ret_Val_iff: "(ret x s = (Val y, s')) = (y = x \<and> s' = s)"
  by (auto simp: ret_def)

lemma throw_Val_iff: "(throw e s = (Val y, s')) = False"
  by (simp add: throw_def)

lemma member_Val_iff:
  "(member v name s = (Val x, s')) = (\<exists>j. v = Some j \<and> j \<noteq> JNull \<and> x = jget j name \<and> s' = s)"
  by (cases v) (auto simp: member_eq throw_def ret_def)

lemma index0_Val_iff:
  "(index0 v s = (Val x, s')) = (\<exists>j. v = Some j \<and> j \<noteq> JNull \<and> x = first_of j \<and> s' = s)"
  by (auto simp: index0_def first_of_def throw_def ret_def split: option.splits json.splits)

lemma intFromVersion_of_Val_iff:
  "(intFromVersion_of v s = (Val n, s')) = (\<exists>t. v = Some (JStr t) \<and> n = intFromVersion t \<and> s' = s)"
  by (auto simp: intFromVersion_of_def throw_def ret_def split: option.splits json.splits)

lemma parse_Val_iff:
  "(parse env t s = (Val x, s')) = (\<exists>j. JSON_parse env t = Some j \<and> x = Some j \<and> s' = s)"
  by (auto simp: parse_def throw_def ret_def split: option.splits)

lemma read_update_shape:
  assumes "read_update gh cfg env path ext manifest name s
     = (Val (Some (data1, addons, entry, updates, update, mv, uv, new_int, old_int)), s1)"
  shows "\<exists>m d a e us u new old.
      manifest = Some m \<and> mv = jget m ''version'' \<and> mv = Some (JStr new)
      \<and> new_int = intFromVersion new
      \<and> data1 = Some d \<and> addons = jget d ''addons'' \<and> addons = Some a
      \<and> entry = jget a (show_arg ext) \<and> entry = Some e
      \<and> updates = jget e ''updates'' \<and> updates = Some us
      \<and> update = first_of us \<and> update = Some u
      \<and> uv = jget u ''version'' \<and> uv = Some (JStr old)
      \<and> old_int = intFromVersion old"
  using assms
  by (auto simp add: read_update_def bnd_Val_iff thn_Val_iff ret_Val_iff throw_Val_iff
      member_Val_iff index0_Val_iff intFromVersion_of_Val_iff parse_Val_iff try_readFile_def
      split: if_split_asm option.split_asm)


lemma map_of_obj_set [simp]: "map_of (obj_set kvs k v) k = Some v"
  by (induction kvs) auto

lemma map_of_obj_set_other [simp]: "k' \<noteq> k \<Longrightarrow> map_of (obj_set kvs k v) k' = map_of kvs k'"
  by (induction kvs) auto

lemma jget_set_member: "jget j k = Some x \<Longrightarrow> jget (set_member j k v) k = Some v"
  by (cases j) (simp_all add: jget_def set_member_def)

lemma first_of_set_index0:
  "first_of us = Some u \<Longrightarrow> jget u k = Some w \<Longrightarrow> first_of (set_index0 us v) = Some v"
  by (cases us) (auto simp: first_of_def set_index0_def jget_def split: list.splits)

lemma recorded_update:
  assumes "jget d ''addons'' = Some a" and "jget a ext = Some e" and "jget e ''updates'' = Some us"
    and "first_of us = Some u" and "jget u k = Some w"
  shows "recorded (set_member d ''addons'' (set_member a ext
           (set_member e ''updates'' (set_index0 us v)))) ext = Some v"
  using assms
  by (simp add: recorded_def jget_set_member [OF assms(1)] jget_set_member [OF assms(2)]
      jget_set_member [OF assms(3)] first_of_set_index0 [OF assms(4,5)])

lemma emits_git_diff:
  assumes "\<And>m. A (Log m)" and "A (Exec ''git diff --staged'')"
  shows "emits A (shellExec cfg env ''git diff --staged'')"
proof (rule emitsI)
  fix s
  have "snd (shellExec cfg env ''git diff --staged'' s) = s\<lparr>trace := trace s @
      (if arg_truthy (verbose cfg) then [Log (''Executing: '' @ ''git diff --staged'')] else [])
      @ [Exec ''git diff --staged'']\<rparr>"
    by (rule shellExec_one_line) (simp_all add: is_nl_def trim_def is_space_def)
  then show "\<exists>es. trace (snd (shellExec cfg env ''git diff --staged'' s)) = trace s @ es
      \<and> list_all A es"
    using assms by simp
qed

lemma emits_read_update_fine:
  assumes "\<And>m. A (Log m)" and "A (Exec ''git diff --staged'')" and "\<And>p. A (ReadFile p)"
  shows "emits A (read_update gh cfg env path ext manifest name)"
  by (auto simp: read_update_def
      intro!: emits_thn emits_bnd emits_if emits_ret emits_console_log emits_validateGithubVars
        emits_try_readFile emits_case_option emits_parse emits_member emits_index0
        emits_intFromVersion_of emits_git_diff assms)

lemma read_update_quiet:
  "emits (\<lambda>e. \<not> is_write e \<and> \<not> is_commit e)
     (read_update gh cfg env path ext manifest name)"
  by (rule emits_read_update_fine) (simp_all add: is_write_def is_commit_def)

lemma filter_none: "list_all (\<lambda>e. \<not> P e \<and> \<not> Q e) es \<Longrightarrow> filter P es = [] \<and> filter Q es = []"
  by (induction es) auto


lemma jget_Some_obj: "jget u k = Some w \<Longrightarrow> \<exists>kvs. u = JObj kvs"
  by (cases u) (simp_all add: jget_def)



lemma update_world_simps [simp]:
  "exec_reply update_world c k = Some (if c = ''git diff --staged'' then [] else '' M dist/firefox/updates.json'')"
  "read_reply update_world p k = Some ''{}''"
  "JSON_parse update_world t = descriptor"
  "JSON_stringify update_world j = (case recorded j ''abcdef'' of
                None \<Rightarrow> ''{}''
              | Some u \<Rightarrow> to_string (jget u ''version'') @ '' '' @ to_string (jget u ''update_link''))"
  by (simp_all add: update_world_def)

lemma unchanged_world_simps [simp]:
  "exec_reply unchanged_world c k = Some []"
  "read_reply unchanged_world p k = Some ''{}''"
  "JSON_parse unchanged_world t = descriptor"
  "JSON_stringify unchanged_world j = (case recorded j ''abcdef'' of
                None \<Rightarrow> ''{}''
              | Some u \<Rightarrow> to_string (jget u ''version'') @ '' '' @ to_string (jget u ''update_link''))"
  by (simp_all add: unchanged_world_def update_world_def)

lemmas update_defs = updateFirefoxAutoUpdateFile_def read_update_def commit_update_def
  commit_and_push_def update_link_def validateGithubVars_def validateGithubToken_def
  uBlock_1_0_def uBlock_1_1_def manifest_1_0_def manifest_1_1_def descriptor_def
  try_readFile_def parse_def index0_def intFromVersion_of_def assign_def the_json_def
  set_member_def set_index0_def recorded_def first_of_def show_path_def detached_def
  is_write_def is_commit_def writeFile_def intFromVersion_def matchAll_digits.simps
  parseInt_def is_digit_def digit_val_def json_to_string.simps

lemma update_run:
  "case updateFirefoxAutoUpdateFile uBlock_1_1 no_args update_world ''dist/firefox/updates.json''
          (Given ''abcdef'') manifest_1_1 (Some ''ext.signed.xpi'') init of
     (r, s) \<Rightarrow>
       r = Val True
       \<and> filter is_write (trace s)
           = [WriteFile ''dist/firefox/updates.json''
                ''1.1 https://github.com/gorhill/uBlock/releases/download/1.1/ext.signed.xpi'']"
  by (simp add: update_defs run_defs)

lemma read_update_run:
  "case fst (read_update uBlock_1_1 no_args update_world ''dist/firefox/updates.json''
          (Given ''abcdef'') manifest_1_1 (Some ''ext.signed.xpi'') init) of
     Val (Some (data1, addons, entry, updates, update, manifest_version, update_version,
                new_int, old_int)) \<Rightarrow>
       manifest_version = Some (JStr ''1.1'') \<and> update_version = Some (JStr ''1.0'')
       \<and> new_int = 1001000000 \<and> old_int = 1000000000
   | _ \<Rightarrow> False"
  by (simp add: update_defs run_defs)

lemma unchanged_run:
  "case updateFirefoxAutoUpdateFile uBlock_1_0 no_args unchanged_world ''dist/firefox/updates.json''
          (Given ''abcdef'') manifest_1_0 (Some ''ext.signed.xpi'') init of
     (r, s) \<Rightarrow>
       r = Val False
       \<and> filter is_write (trace s)
           = [WriteFile ''dist/firefox/updates.json''
                ''1.0 https://github.com/gorhill/uBlock/releases/download/1.0/ext.signed.xpi'']
       \<and> filter is_commit (trace s) = []"
  by (simp add: update_defs run_defs)

lemma read_unchanged_run:
  "case fst (read_update uBlock_1_0 no_args unchanged_world ''dist/firefox/updates.json''
          (Given ''abcdef'') manifest_1_0 (Some ''ext.signed.xpi'') init) of
     Val (Some (data1, addons, entry, updates, update, manifest_version, update_version,
                new_int, old_int)) \<Rightarrow>
       manifest_version = Some (JStr ''1.0'') \<and> update_version = Some (JStr ''1.0'')
       \<and> new_int = 1000000000 \<and> old_int = 1000000000
       \<and> data1 = descriptor
   | _ \<Rightarrow> False"
  by (simp add: update_defs run_defs)




subsection \<open>Version projection\<close>

lemma digit_val_range: "is_digit c \<Longrightarrow> 0 \<le> digit_val c \<and> digit_val c \<le> 9"
  by (auto simp: is_digit_def digit_val_def)

lemma foldl_digits_nonneg:
  "list_all is_digit p \<Longrightarrow> 0 \<le> a \<Longrightarrow> 0 \<le> foldl (\<lambda>a c. a * 10 + digit_val c) a p"
proof (induction p arbitrary: a)
  case Nil
  then show ?case by simp
next
  case (Cons c p)
  from Cons.prems have "0 \<le> a * 10 + digit_val c"
    using digit_val_range [of c] by simp
  with Cons show ?case by simp
qed

lemma parseInt_nonneg: "list_all is_digit p \<Longrightarrow> 0 \<le> parseInt p"
  unfolding parseInt_def by (rule foldl_digits_nonneg) simp_all

lemma split_dots_head: "\<exists>p ps. split_dots cur v = (cur @ p) # ps"
proof (induction v arbitrary: cur)
  case Nil
  show ?case by simp
next
  case (Cons c cs)
  show ?case
  proof (cases "c = CHR ''.''")
    case True
    then show ?thesis by simp
  next
    case False
    from Cons [of "cur @ [c]"] obtain p ps where "split_dots (cur @ [c]) cs = (cur @ [c] @ p) # ps"
      by auto
    with False show ?thesis by simp
  qed
qed

lemma not_digit_dot: "\<not> is_digit CHR ''.''"
  by (simp add: is_digit_def)

lemma matchAll_digits_split_dots:
  "list_all (\<lambda>p. p \<noteq> [] \<and> list_all is_digit p) (split_dots cur v)
   \<Longrightarrow> matchAll_digits cur v = split_dots cur v"
proof (induction v arbitrary: cur)
  case Nil
  then show ?case by simp
next
  case (Cons c cs)
  show ?case
  proof (cases "c = CHR ''.''")
    case True
    with Cons.prems have "cur \<noteq> []"
      and rest: "list_all (\<lambda>p. p \<noteq> [] \<and> list_all is_digit p) (split_dots [] cs)"
      by simp_all
    with True Cons.IH [OF rest] show ?thesis by (simp add: not_digit_dot)
  next
    case False
    from split_dots_head [of "cur @ [c]" cs]
    obtain p ps where hd: "split_dots (cur @ [c]) cs = (cur @ [c] @ p) # ps" by auto
    from Cons.prems False have all: "list_all (\<lambda>p. p \<noteq> [] \<and> list_all is_digit p) (split_dots (cur @ [c]) cs)"
      by simp
    with hd have "is_digit c" by simp
    with False Cons.IH [OF all] show ?thesis by simp
  qed
qed

lemma intFromVersion_proj4:
  "intFromVersion v = proj4 (map parseInt (matchAll_digits [] v))"
  by (simp add: intFromVersion_def proj4_def Let_def)

lemma short_list_cases:
  "length xs \<le> 4 \<Longrightarrow>
   xs = [] \<or> (\<exists>a. xs = [a]) \<or> (\<exists>a b. xs = [a, b]) \<or> (\<exists>a b c. xs = [a, b, c])
   \<or> (\<exists>a b c d. xs = [a, b, c, d])"
  by (cases xs; simp; cases "tl xs"; simp; cases "tl (tl xs)"; simp; cases "tl (tl (tl xs))"; simp; cases "tl (tl (tl (tl xs)))"; simp)

lemma proj4_mono:
  assumes "length xs \<le> 4" "length ys \<le> 4"
    and "\<forall>x\<in>set xs. 0 \<le> x \<and> x < 1000" "\<forall>y\<in>set ys. 0 \<le> y \<and> y < 1000"
    and "version_less xs ys"
  shows "proj4 xs < proj4 ys"
  using short_list_cases [OF assms(1)] short_list_cases [OF assms(2)] assms(3-5)
  by (elim disjE exE; simp add: proj4_def; linarith)

text \<open>
  Claim C6, as the code supports it. For dotted-numeric version strings with at most four
  components, each below 1000, a strictly greater version (components compared left to
  right as numbers, missing ones counting as zero) has a strictly greater projection.
  Without the two bounds the projection is not monotone, see the counterexample below.
\<close>

theorem intFromVersion_strictly_monotone:
  assumes "dotted_numeric v" and "dotted_numeric w"
    and "length (version_components v) \<le> 4" and "length (version_components w) \<le> 4"
    and "\<forall>c\<in>set (version_components v). c < 1000"
    and "\<forall>c\<in>set (version_components w). c < 1000"
    and "version_lt v w"
  shows "intFromVersion v < intFromVersion w"
proof -
  have mv: "matchAll_digits [] v = split_dots [] v"
    using assms(1) unfolding dotted_numeric_def by (rule matchAll_digits_split_dots)
  have mw: "matchAll_digits [] w = split_dots [] w"
    using assms(2) unfolding dotted_numeric_def by (rule matchAll_digits_split_dots)
  have nv: "\<forall>c\<in>set (version_components v). 0 \<le> c \<and> c < 1000"
    using assms(1,5) unfolding dotted_numeric_def version_components_def
    by (auto simp: list_all_iff intro: parseInt_nonneg)
  have nw: "\<forall>c\<in>set (version_components w). 0 \<le> c \<and> c < 1000"
    using assms(2,6) unfolding dotted_numeric_def version_components_def
    by (auto simp: list_all_iff intro: parseInt_nonneg)
  have "proj4 (version_components v) < proj4 (version_components w)"
    using assms(3,4) nv nw assms(7) unfolding version_lt_def by (rule proj4_mono)
  then show ?thesis
    by (simp add: intFromVersion_proj4 mv mw version_components_def)
qed

theorem intFromVersion_strictly_monotone_witness:
  "version_lt ''1.2.0'' ''1.10.0'' \<and> intFromVersion ''1.2.0'' < intFromVersion ''1.10.0''"
proof -
  have ev: "split_dots [] ''1.2.0'' = [''1'', ''2'', ''0'']"
    "split_dots [] ''1.10.0'' = [''1'', ''10'', ''0'']"
    by simp_all
  have h1: "dotted_numeric ''1.2.0''" and h2: "dotted_numeric ''1.10.0''"
    by (simp_all add: dotted_numeric_def ev is_digit_def)
  have c1: "version_components ''1.2.0'' = [1, 2, 0]"
    and c2: "version_components ''1.10.0'' = [1, 10, 0]"
    by (simp_all add: version_components_def ev parseInt_def digit_val_def)
  have h7: "version_lt ''1.2.0'' ''1.10.0''"
    by (simp add: version_lt_def c1 c2)
  from intFromVersion_strictly_monotone [OF h1 h2 _ _ _ _ h7] h7 show ?thesis
    by (simp add: c1 c2)
qed

text \<open>
  Claim C6 as stated fails: \<open>1.1000\<close> is a smaller version than \<open>2.0\<close>, both
  are well-formed, and both are projected to 2000000000.
\<close>

theorem intFromVersion_monotone_counterexample:
  "dotted_numeric ''1.1000'' \<and> dotted_numeric ''2.0'' \<and> version_lt ''1.1000'' ''2.0''
   \<and> \<not> intFromVersion ''1.1000'' < intFromVersion ''2.0''"
  by (simp add: dotted_numeric_def version_lt_def version_components_def intFromVersion_def
      parseInt_def digit_val_def is_digit_def)


end
